theory Spec2Isabelle
  imports Main "HOL-Library.Word" "HOL-Library.Signed_Division" "HOL-Library.AList"
begin

unbundle bit_operations_syntax

section \<open>Machine integers\<close>

text \<open>
  The C++ types \<^verbatim>\<open>int64_t\<close> and \<^verbatim>\<open>uint64_t\<close> are 64-bit words, \<^verbatim>\<open>int\<close> and
  \<^verbatim>\<open>unsigned int\<close> 32-bit words and \<^verbatim>\<open>uint16_t\<close> a 16-bit word. Addition, subtraction
  and multiplication wrap around (two's complement, which is what the compiled code
  computes); a signed value is read with \<open>sint\<close> and compared with \<open><s\<close>, an unsigned one
  with \<open>uint\<close>/\<open>unat\<close> and \<open><\<close>. The widening conversions are \<open>ucast\<close> (from an
  unsigned type) and \<open>scast\<close> (from a signed type).
\<close>

type_synonym int64_t = "64 word"
type_synonym uint64_t = "64 word"
type_synonym int32_t = "32 word"
type_synonym uint32_t = "32 word"
type_synonym uint16_t = "16 word"
type_synonym uint256 = "256 word"

text \<open>The \<^verbatim>\<open>/\<close> of two \<^verbatim>\<open>int64_t\<close>: the quotient is truncated towards zero.\<close>

definition sdiv64 :: "int64_t \<Rightarrow> int64_t \<Rightarrow> int64_t" where
  "sdiv64 a b = word_of_int (sint a sdiv sint b)"

text \<open>\<^verbatim>\<open>std::min\<close> at type \<^verbatim>\<open>int64_t\<close>: \<^verbatim>\<open>(b < a) ? b : a\<close>.\<close>

definition min_int64 :: "int64_t \<Rightarrow> int64_t \<Rightarrow> int64_t" where
  "min_int64 a b = (if b <s a then b else a)"

text \<open>The range of \<^verbatim>\<open>int64_t\<close>: an integer result in it is computed without overflow.\<close>

definition in_int64 :: "int \<Rightarrow> bool" where
  "in_int64 k \<longleftrightarrow> - (2 ^ 63) \<le> k \<and> k < 2 ^ 63"

section \<open>Kernel records (kernelrecord.h, kernelrecord.cpp)\<close>

text \<open>
  Modelled from the spec: \<^verbatim>\<open>COIN\<close> and \<^verbatim>\<open>nOneDay\<close> are declared outside the sources at
  hand; the glossary gives \<^verbatim>\<open>COIN\<close> as 10^8 sub-units and \<^verbatim>\<open>ONE_DAY\<close> as 86,400 seconds.
  Both enter the code below only in the product \<^verbatim>\<open>COIN * nOneDay\<close>, computed at
  \<^verbatim>\<open>int64_t\<close>.
\<close>

definition COIN :: int64_t where
  "COIN = 100000000"

definition nOneDay :: int64_t where
  "nOneDay = 86400"

text \<open>
  Modelled from the spec: the stake-age constants \<^verbatim>\<open>nStakeMinAge\<close> and \<^verbatim>\<open>nStakeMaxAge\<close>
  are network-defined and read from a parameters record (design notes, open questions).
  The code converts them to \<^verbatim>\<open>int64_t\<close> where it uses them; they are \<^verbatim>\<open>unsigned int\<close>
  here, as in the code base this wallet descends from.
\<close>

record stake_params =
  nStakeMinAge :: uint32_t
  nStakeMaxAge :: uint32_t

text \<open>
  The class \<^verbatim>\<open>KernelRecord\<close>. Its three cache fields \<^verbatim>\<open>prevMinutes\<close>,
  \<^verbatim>\<open>prevDifficulty\<close> and \<^verbatim>\<open>prevProbability\<close> serve the floating-point probability
  estimate only and are left out.
\<close>

record KernelRecord =
  hash :: uint256
  nTime :: int64_t
  address :: string
  nValue :: int64_t
  idx :: int32_t
  spent :: bool

text \<open>
  \<^verbatim>\<open>KernelRecord::getCoinDay\<close>. The argument \<open>now\<close> is the value of
  \<^verbatim>\<open>GetAdjustedTime()\<close> at the call.
\<close>

definition getCoinDay :: "stake_params \<Rightarrow> int64_t \<Rightarrow> KernelRecord \<Rightarrow> uint64_t" where
  "getCoinDay P now r =
     (let nWeight = now - nTime r - ucast (nStakeMinAge P) in
      if nWeight <s 0 then 0
      else
        let nWeight = min_int64 nWeight (ucast (nStakeMaxAge P));
            coinAge = sdiv64 (nValue r * nWeight) (COIN * nOneDay)
        in coinAge)"


text \<open>
  The coin-age formula in the words of the specification, over the integers:
  \<open>value * clamped-weight / (COIN * ONE_DAY)\<close> with
  \<open>clamped-weight = min (max (now - n-time - stakeMinAge) 0) (stakeMaxAge - stakeMinAge)\<close>.
\<close>

definition spec_coinAge :: "int \<Rightarrow> int \<Rightarrow> int \<Rightarrow> int \<Rightarrow> int \<Rightarrow> int" where
  "spec_coinAge stakeMinAge stakeMaxAge now ntime val =
     (val * min (max (now - ntime - stakeMinAge) 0) (stakeMaxAge - stakeMinAge))
       div (100000000 * 86400)"

text \<open>
  What \<^verbatim>\<open>getCoinDay\<close> computes when nothing overflows: the weight is the age less the
  minimum age, cut off at the maximum age. The operations of the body are the two
  subtractions and, when the weight is not negative, the product of the value and the
  weight as cut off; \<open>coin_day_exact\<close> says that the value is not negative and that none
  of the three overflows.
\<close>

definition coin_weight :: "stake_params \<Rightarrow> int64_t \<Rightarrow> KernelRecord \<Rightarrow> int" where
  "coin_weight P now r = sint now - sint (nTime r) - uint (nStakeMinAge P)"

definition coin_day_exact :: "stake_params \<Rightarrow> int64_t \<Rightarrow> KernelRecord \<Rightarrow> bool" where
  "coin_day_exact P now r \<longleftrightarrow>
     0 \<le> sint (nValue r) \<and>
     in_int64 (sint now - sint (nTime r)) \<and>
     in_int64 (coin_weight P now r) \<and>
     in_int64 (sint (nValue r) * min (max (coin_weight P now r) 0) (uint (nStakeMaxAge P)))"






section \<open>External IP address by STUN (stun.cpp)\<close>

text \<open>The signed remainder \<^verbatim>\<open>%\<close> of two \<^verbatim>\<open>int\<close>: it has the sign of the dividend.\<close>

definition smod32 :: "int32_t \<Rightarrow> int32_t \<Rightarrow> int32_t" where
  "smod32 a b = word_of_int (sint a smod sint b)"

text \<open>\<^verbatim>\<open>struct StunSrv\<close> and the table \<^verbatim>\<open>StunSrvList\<close>, entry by entry.\<close>

record StunSrv =
  name :: string
  port :: uint16_t

definition StunSrvList :: "StunSrv list" where
  "StunSrvList = [
    \<lparr>name = ''freestun.net'', port = 3478\<rparr>,
    \<lparr>name = ''relay.webwormhole.io'', port = 3478\<rparr>,
    \<lparr>name = ''stun-01.schulen-fulda.de'', port = 3478\<rparr>,
    \<lparr>name = ''stun-02.schulen-fulda.de'', port = 3478\<rparr>,
    \<lparr>name = ''stun-03.schulen-fulda.de'', port = 3478\<rparr>,
    \<lparr>name = ''stun-1.server.yesing.com'', port = 3478\<rparr>,
    \<lparr>name = ''stun-2nd.relaix.net'', port = 3478\<rparr>,
    \<lparr>name = ''stun-a01.isp.t-ipnet.de'', port = 3478\<rparr>,
    \<lparr>name = ''stun-americas-01.s73cloud.com'', port = 3478\<rparr>,
    \<lparr>name = ''stun-americas-02.s73cloud.com'', port = 3478\<rparr>,
    \<lparr>name = ''stun-azure.47billion.com'', port = 3478\<rparr>,
    \<lparr>name = ''stun-b1.qq.com'', port = 3478\<rparr>,
    \<lparr>name = ''stun-de.files.fm'', port = 3478\<rparr>,
    \<lparr>name = ''stun-dev.gozeppelin.com'', port = 3478\<rparr>,
    \<lparr>name = ''stun-neu.levigo.net'', port = 3478\<rparr>,
    \<lparr>name = ''stun-one.mabe.at'', port = 3478\<rparr>,
    \<lparr>name = ''stun-staging.videovisit.io'', port = 3478\<rparr>,
    \<lparr>name = ''stun-test.sip5060.net'', port = 3478\<rparr>,
    \<lparr>name = ''stun-turn.4realstudio.com'', port = 3478\<rparr>,
    \<lparr>name = ''stun-turn.alta.neopath.com.br'', port = 3478\<rparr>,
    \<lparr>name = ''stun-turn.demo.ikonixtechnology.com.au'', port = 3478\<rparr>,
    \<lparr>name = ''stun-turn.federowicz.de'', port = 3478\<rparr>,
    \<lparr>name = ''stun-v2.mdtalk.io'', port = 3478\<rparr>,
    \<lparr>name = ''stun.1-voip.com'', port = 3478\<rparr>,
    \<lparr>name = ''stun.12connect.com'', port = 3478\<rparr>,
    \<lparr>name = ''stun.12voip.com'', port = 3478\<rparr>,
    \<lparr>name = ''stun.1und1.de'', port = 3478\<rparr>,
    \<lparr>name = ''stun.3deluxe.de'', port = 3478\<rparr>,
    \<lparr>name = ''stun.3wayint.com'', port = 3478\<rparr>,
    \<lparr>name = ''stun.5222.de'', port = 3478\<rparr>,
    \<lparr>name = ''stun.5sn.com'', port = 3478\<rparr>,
    \<lparr>name = ''stun.6clones.net'', port = 3478\<rparr>,
    \<lparr>name = ''stun.aa.net.uk'', port = 3478\<rparr>,
    \<lparr>name = ''stun.aaisp.co.uk'', port = 3478\<rparr>,
    \<lparr>name = ''stun.abikus.pl'', port = 3478\<rparr>,
    \<lparr>name = ''stun.abracontrols.com'', port = 3478\<rparr>,
    \<lparr>name = ''stun.acquageraci.it'', port = 3478\<rparr>,
    \<lparr>name = ''stun.acrobits.cz'', port = 3478\<rparr>,
    \<lparr>name = ''stun.acronis.com'', port = 3478\<rparr>,
    \<lparr>name = ''stun.actionvoip.com'', port = 3478\<rparr>,
    \<lparr>name = ''stun.admira.com'', port = 3478\<rparr>,
    \<lparr>name = ''stun.adorsaz.ch'', port = 3478\<rparr>,
    \<lparr>name = ''stun.advantic.de'', port = 3478\<rparr>,
    \<lparr>name = ''stun.agya.info'', port = 3478\<rparr>,
    \<lparr>name = ''stun.alabasta.net'', port = 3478\<rparr>,
    \<lparr>name = ''stun.alberon.cz'', port = 3478\<rparr>,
    \<lparr>name = ''stun.allflac.com'', port = 3478\<rparr>,
    \<lparr>name = ''stun.alphacron.de'', port = 3478\<rparr>,
    \<lparr>name = ''stun.alpirsbacher.de'', port = 3478\<rparr>,
    \<lparr>name = ''stun.annatel.net'', port = 3478\<rparr>,
    \<lparr>name = ''stun.anonym.im'', port = 3478\<rparr>,
    \<lparr>name = ''stun.antisip.com'', port = 3478\<rparr>,
    \<lparr>name = ''stun.anura.io'', port = 3478\<rparr>,
    \<lparr>name = ''stun.ariso.ch'', port = 3478\<rparr>,
    \<lparr>name = ''stun.arkh-edu.ru'', port = 3478\<rparr>,
    \<lparr>name = ''stun.astimax.de'', port = 3478\<rparr>,
    \<lparr>name = ''stun.atagverwarming.nl'', port = 3478\<rparr>,
    \<lparr>name = ''stun.atlas-stiftung.ch'', port = 3478\<rparr>,
    \<lparr>name = ''stun.atnd.de'', port = 3478\<rparr>,
    \<lparr>name = ''stun.atomicparticles.eu'', port = 3478\<rparr>,
    \<lparr>name = ''stun.ausproof.com.au'', port = 3478\<rparr>,
    \<lparr>name = ''stun.autosystem.com'', port = 3478\<rparr>,
    \<lparr>name = ''stun.avigora.fr'', port = 3478\<rparr>,
    \<lparr>name = ''stun.avmeets.com'', port = 3478\<rparr>,
    \<lparr>name = ''stun.avoxi.com'', port = 3478\<rparr>,
    \<lparr>name = ''stun.awassif.eu'', port = 3478\<rparr>,
    \<lparr>name = ''stun.axeos.nl'', port = 3478\<rparr>,
    \<lparr>name = ''stun.axialys.net'', port = 3478\<rparr>,
    \<lparr>name = ''stun.b-tel.ir'', port = 3478\<rparr>,
    \<lparr>name = ''stun.babelforce.com'', port = 3478\<rparr>,
    \<lparr>name = ''stun.baltmannsweiler.de'', port = 3478\<rparr>,
    \<lparr>name = ''stun.bandmate.international'', port = 3478\<rparr>,
    \<lparr>name = ''stun.bandyer.com'', port = 3478\<rparr>,
    \<lparr>name = ''stun.bankai.de'', port = 3478\<rparr>,
    \<lparr>name = ''stun.bbb.vikosoz.de'', port = 3478\<rparr>,
    \<lparr>name = ''stun.bbb4all.de'', port = 3478\<rparr>,
    \<lparr>name = ''stun.bbnldevices.in'', port = 3478\<rparr>,
    \<lparr>name = ''stun.bbs1emden.org'', port = 3478\<rparr>,
    \<lparr>name = ''stun.bcs2005.net'', port = 3478\<rparr>,
    \<lparr>name = ''stun.beam.software'', port = 3478\<rparr>,
    \<lparr>name = ''stun.bearstech.com'', port = 3478\<rparr>,
    \<lparr>name = ''stun.bergophor.de'', port = 3478\<rparr>,
    \<lparr>name = ''stun.bernardoprovenzano.net'', port = 3478\<rparr>,
    \<lparr>name = ''stun.bestvoipreselling.com'', port = 3478\<rparr>,
    \<lparr>name = ''stun.bethesda.net'', port = 3478\<rparr>,
    \<lparr>name = ''stun.betta-security.de'', port = 3478\<rparr>,
    \<lparr>name = ''stun.bettfu.com'', port = 3478\<rparr>,
    \<lparr>name = ''stun.beuth-hochschule.de'', port = 3478\<rparr>,
    \<lparr>name = ''stun.bht-berlin.de'', port = 3478\<rparr>,
    \<lparr>name = ''stun.bisin.de'', port = 3478\<rparr>,
    \<lparr>name = ''stun.bitburger.de'', port = 3478\<rparr>,
    \<lparr>name = ''stun.bluesip.net'', port = 3478\<rparr>,
    \<lparr>name = ''stun.bmt.services'', port = 3478\<rparr>,
    \<lparr>name = ''stun.bnc.net'', port = 3478\<rparr>,
    \<lparr>name = ''stun.bnsth.com'', port = 3478\<rparr>,
    \<lparr>name = ''stun.bomgar.com'', port = 3478\<rparr>,
    \<lparr>name = ''stun.boulgour.com'', port = 3478\<rparr>,
    \<lparr>name = ''stun.bridesbay.com'', port = 3478\<rparr>,
    \<lparr>name = ''stun.broadtube.xyz'', port = 3478\<rparr>,
    \<lparr>name = ''stun.brodowski.org'', port = 3478\<rparr>,
    \<lparr>name = ''stun.bsrueti.ch'', port = 3478\<rparr>,
    \<lparr>name = ''stun.buechertraeume.de'', port = 3478\<rparr>,
    \<lparr>name = ''stun.c10r.facebook.com'', port = 3478\<rparr>,
    \<lparr>name = ''stun.cablenet-as.net'', port = 3478\<rparr>,
    \<lparr>name = ''stun.caderize.com'', port = 3478\<rparr>,
    \<lparr>name = ''stun.call.fr1.hotelservices.online'', port = 3478\<rparr>,
    \<lparr>name = ''stun.call.netplanet.at'', port = 3478\<rparr>,
    \<lparr>name = ''stun.callromania.ro'', port = 3478\<rparr>,
    \<lparr>name = ''stun.carlovizzini.it'', port = 3478\<rparr>,
    \<lparr>name = ''stun.ccc-ffm.de'', port = 3478\<rparr>,
    \<lparr>name = ''stun.cchgeu.ru'', port = 3478\<rparr>,
    \<lparr>name = ''stun.cdn-net.com'', port = 3478\<rparr>,
    \<lparr>name = ''stun.cdnbye.com'', port = 3478\<rparr>,
    \<lparr>name = ''stun.celering.io'', port = 3478\<rparr>,
    \<lparr>name = ''stun.cellmail.com'', port = 3478\<rparr>,
    \<lparr>name = ''stun.chaostreffbern.ch'', port = 3478\<rparr>,
    \<lparr>name = ''stun.chat.bilibili.com'', port = 3478\<rparr>,
    \<lparr>name = ''stun.chat.moh.gov.my'', port = 3478\<rparr>,
    \<lparr>name = ''stun.chatous.com'', port = 3478\<rparr>,
    \<lparr>name = ''stun.cheapvoip.com'', port = 3478\<rparr>,
    \<lparr>name = ''stun.cibercloud.com.br'', port = 3478\<rparr>,
    \<lparr>name = ''stun.circl.lu'', port = 3478\<rparr>,
    \<lparr>name = ''stun.clickphone.ro'', port = 3478\<rparr>,
    \<lparr>name = ''stun.cloud.trizwo.it'', port = 3478\<rparr>,
    \<lparr>name = ''stun.cnict.org'', port = 3478\<rparr>,
    \<lparr>name = ''stun.cnsconnect.nl'', port = 3478\<rparr>,
    \<lparr>name = ''stun.codepiraten.com'', port = 3478\<rparr>,
    \<lparr>name = ''stun.collabora-test.tim.it'', port = 3478\<rparr>,
    \<lparr>name = ''stun.commandnotfound.org'', port = 3478\<rparr>,
    \<lparr>name = ''stun.commpeak.com'', port = 3478\<rparr>,
    \<lparr>name = ''stun.comrex.com'', port = 3478\<rparr>,
    \<lparr>name = ''stun.conactive.de'', port = 3478\<rparr>,
    \<lparr>name = ''stun.coniservice.de'', port = 3478\<rparr>,
    \<lparr>name = ''stun.connectlife.it'', port = 3478\<rparr>,
    \<lparr>name = ''stun.consistec.de'', port = 3478\<rparr>,
    \<lparr>name = ''stun.coolmeet.co'', port = 3478\<rparr>,
    \<lparr>name = ''stun.cope.es'', port = 3478\<rparr>,
    \<lparr>name = ''stun.counterpath.com'', port = 3478\<rparr>,
    \<lparr>name = ''stun.counterpath.net'', port = 3478\<rparr>,
    \<lparr>name = ''stun.countryparksas.com'', port = 3478\<rparr>,
    \<lparr>name = ''stun.cozact.com'', port = 3478\<rparr>,
    \<lparr>name = ''stun.crazycall.com'', port = 3478\<rparr>,
    \<lparr>name = ''stun.crimeastar.net'', port = 3478\<rparr>,
    \<lparr>name = ''stun.csw2020.com.pl'', port = 3478\<rparr>,
    \<lparr>name = ''stun.ctafauni.it'', port = 3478\<rparr>,
    \<lparr>name = ''stun.d.lege.de'', port = 3478\<rparr>,
    \<lparr>name = ''stun.datajob.de'', port = 3478\<rparr>,
    \<lparr>name = ''stun.dataverse.de'', port = 3478\<rparr>,
    \<lparr>name = ''stun.datenschutz-experten.nrw'', port = 3478\<rparr>,
    \<lparr>name = ''stun.dcalling.de'', port = 3478\<rparr>,
    \<lparr>name = ''stun.dcentralisedmedia.com'', port = 3478\<rparr>,
    \<lparr>name = ''stun.deanone.nl'', port = 3478\<rparr>,
    \<lparr>name = ''stun.deepfinesse.com'', port = 3478\<rparr>,
    \<lparr>name = ''stun.defigohome.com'', port = 3478\<rparr>,
    \<lparr>name = ''stun.der-fetzer.de'', port = 3478\<rparr>,
    \<lparr>name = ''stun.deteque.com'', port = 3478\<rparr>,
    \<lparr>name = ''stun.dgt.lv'', port = 3478\<rparr>,
    \<lparr>name = ''stun.dice.tel'', port = 3478\<rparr>,
    \<lparr>name = ''stun.digitale-reparaturfabrik.com'', port = 3478\<rparr>,
    \<lparr>name = ''stun.dint.wroc.pl'', port = 3478\<rparr>,
    \<lparr>name = ''stun.dls.net'', port = 3478\<rparr>,
    \<lparr>name = ''stun.doctivi.com'', port = 3478\<rparr>,
    \<lparr>name = ''stun.doctoranywhere.mdit.gr'', port = 3478\<rparr>,
    \<lparr>name = ''stun.domostroitelnaya.com'', port = 3478\<rparr>,
    \<lparr>name = ''stun.drogoin.net'', port = 3478\<rparr>,
    \<lparr>name = ''stun.drvfst.de'', port = 3478\<rparr>,
    \<lparr>name = ''stun.dukun.de'', port = 3478\<rparr>,
    \<lparr>name = ''stun.dunyatelekom.com'', port = 3478\<rparr>,
    \<lparr>name = ''stun.dus.net'', port = 3478\<rparr>,
    \<lparr>name = ''stun.e-me.edu.gr'', port = 3478\<rparr>,
    \<lparr>name = ''stun.e.voiceinthecloud.io'', port = 3478\<rparr>,
    \<lparr>name = ''stun.easi.live'', port = 3478\<rparr>,
    \<lparr>name = ''stun.easter-eggs.com'', port = 3478\<rparr>,
    \<lparr>name = ''stun.easycallcloud.com'', port = 3478\<rparr>,
    \<lparr>name = ''stun.easytelecom.se'', port = 3478\<rparr>,
    \<lparr>name = ''stun.easyvoip.com'', port = 3478\<rparr>,
    \<lparr>name = ''stun.ecs-la.com'', port = 3478\<rparr>,
    \<lparr>name = ''stun.edvgarbe.de'', port = 3478\<rparr>,
    \<lparr>name = ''stun.edwin-wiegele.at'', port = 3478\<rparr>,
    \<lparr>name = ''stun.eeza.csic.es'', port = 3478\<rparr>,
    \<lparr>name = ''stun.einfachcallback.de'', port = 3478\<rparr>,
    \<lparr>name = ''stun.ekiga.net'', port = 3478\<rparr>,
    \<lparr>name = ''stun.eleusi.com'', port = 3478\<rparr>,
    \<lparr>name = ''stun.elevate.at'', port = 3478\<rparr>,
    \<lparr>name = ''stun.elitetele.com'', port = 3478\<rparr>,
    \<lparr>name = ''stun.engineeredarts.co.uk'', port = 3478\<rparr>,
    \<lparr>name = ''stun.enthalpy.mx'', port = 3478\<rparr>,
    \<lparr>name = ''stun.eol.co.nz'', port = 3478\<rparr>,
    \<lparr>name = ''stun.eoni.com'', port = 3478\<rparr>,
    \<lparr>name = ''stun.epic-bytes.net'', port = 3478\<rparr>,
    \<lparr>name = ''stun.epygi.com'', port = 3478\<rparr>,
    \<lparr>name = ''stun.erl.de'', port = 3478\<rparr>,
    \<lparr>name = ''stun.erre-elle.net'', port = 3478\<rparr>,
    \<lparr>name = ''stun.esprechstunde.net'', port = 3478\<rparr>,
    \<lparr>name = ''stun.eurosys.be'', port = 3478\<rparr>,
    \<lparr>name = ''stun.evgcdn.net'', port = 3478\<rparr>,
    \<lparr>name = ''stun.exirius.de'', port = 3478\<rparr>,
    \<lparr>name = ''stun.eyesoft.fr'', port = 3478\<rparr>,
    \<lparr>name = ''stun.f.haeder.net'', port = 3478\<rparr>,
    \<lparr>name = ''stun.factorify.cz'', port = 3478\<rparr>,
    \<lparr>name = ''stun.factoryaccess.cloud'', port = 3478\<rparr>,
    \<lparr>name = ''stun.fairytel.at'', port = 3478\<rparr>,
    \<lparr>name = ''stun.fakopats.de'', port = 3478\<rparr>,
    \<lparr>name = ''stun.fathomvoice.com'', port = 3478\<rparr>,
    \<lparr>name = ''stun.fba.accountants'', port = 3478\<rparr>,
    \<lparr>name = ''stun.fbsbx.com'', port = 3478\<rparr>,
    \<lparr>name = ''stun.fc-net.work'', port = 3478\<rparr>,
    \<lparr>name = ''stun.files.fm'', port = 3478\<rparr>,
    \<lparr>name = ''stun.filmplay.live'', port = 3478\<rparr>,
    \<lparr>name = ''stun.finanz-forum.biz'', port = 3478\<rparr>,
    \<lparr>name = ''stun.fitauto.ru'', port = 3478\<rparr>,
    \<lparr>name = ''stun.fixup.net'', port = 3478\<rparr>,
    \<lparr>name = ''stun.fk4.hs-bremen.de'', port = 3478\<rparr>,
    \<lparr>name = ''stun.fmo.de'', port = 3478\<rparr>,
    \<lparr>name = ''stun.foad.me.uk'', port = 3478\<rparr>,
    \<lparr>name = ''stun.folia.de'', port = 3478\<rparr>,
    \<lparr>name = ''stun.fon.is'', port = 3478\<rparr>,
    \<lparr>name = ''stun.foncloud.net'', port = 3478\<rparr>,
    \<lparr>name = ''stun.framasoft.org'', port = 3478\<rparr>,
    \<lparr>name = ''stun.freecall.com'', port = 3478\<rparr>,
    \<lparr>name = ''stun.freeswitch.org'', port = 3478\<rparr>,
    \<lparr>name = ''stun.freevoipdeal.com'', port = 3478\<rparr>,
    \<lparr>name = ''stun.frozenmountain.com'', port = 3478\<rparr>,
    \<lparr>name = ''stun.futurasp.es'', port = 3478\<rparr>,
    \<lparr>name = ''stun.gadgeteers.net'', port = 3478\<rparr>,
    \<lparr>name = ''stun.galeriemagnet.at'', port = 3478\<rparr>,
    \<lparr>name = ''stun.gazl.co'', port = 3478\<rparr>,
    \<lparr>name = ''stun.gbmtrade.it'', port = 3478\<rparr>,
    \<lparr>name = ''stun.gbtel.ca'', port = 3478\<rparr>,
    \<lparr>name = ''stun.gectsolutions.com'', port = 3478\<rparr>,
    \<lparr>name = ''stun.geesthacht.de'', port = 3478\<rparr>,
    \<lparr>name = ''stun.gehrmann.vip'', port = 3478\<rparr>,
    \<lparr>name = ''stun.genymotion.com'', port = 3478\<rparr>,
    \<lparr>name = ''stun.geonet.ro'', port = 3478\<rparr>,
    \<lparr>name = ''stun.gigaset.net'', port = 3478\<rparr>,
    \<lparr>name = ''stun.gimeco.it'', port = 3478\<rparr>,
    \<lparr>name = ''stun.globenet.org'', port = 3478\<rparr>,
    \<lparr>name = ''stun.gmx.de'', port = 3478\<rparr>,
    \<lparr>name = ''stun.gmx.net'', port = 3478\<rparr>,
    \<lparr>name = ''stun.gntel.nl'', port = 3478\<rparr>,
    \<lparr>name = ''stun.godatenow.com'', port = 3478\<rparr>,
    \<lparr>name = ''stun.goldfish.ie'', port = 3478\<rparr>,
    \<lparr>name = ''stun.gonicus.de'', port = 3478\<rparr>,
    \<lparr>name = ''stun.gooodcare.com'', port = 3478\<rparr>,
    \<lparr>name = ''stun.graftlab.com'', port = 3478\<rparr>,
    \<lparr>name = ''stun.grazertrinkwasseringefahr.at'', port = 3478\<rparr>,
    \<lparr>name = ''stun.greedy-it.de'', port = 3478\<rparr>,
    \<lparr>name = ''stun.grunet.de'', port = 3478\<rparr>,
    \<lparr>name = ''stun.gtov.net'', port = 3478\<rparr>,
    \<lparr>name = ''stun.gveh.de'', port = 3478\<rparr>,
    \<lparr>name = ''stun.hacklab.fi'', port = 3478\<rparr>,
    \<lparr>name = ''stun.halloapp.dev'', port = 3478\<rparr>,
    \<lparr>name = ''stun.halonet.pl'', port = 3478\<rparr>,
    \<lparr>name = ''stun.healthtap.com'', port = 3478\<rparr>,
    \<lparr>name = ''stun.heeds.eu'', port = 3478\<rparr>,
    \<lparr>name = ''stun.heldenvz.de'', port = 3478\<rparr>,
    \<lparr>name = ''stun.herweck.de'', port = 3478\<rparr>,
    \<lparr>name = ''stun.hfg-karlsruhe.de'', port = 3478\<rparr>,
    \<lparr>name = ''stun.hialabs.com'', port = 3478\<rparr>,
    \<lparr>name = ''stun.hicare.net'', port = 3478\<rparr>,
    \<lparr>name = ''stun.hide.me'', port = 3478\<rparr>,
    \<lparr>name = ''stun.hitv.com'', port = 3478\<rparr>,
    \<lparr>name = ''stun.hivestreaming.com'', port = 3478\<rparr>,
    \<lparr>name = ''stun.hivestreaming.trafficmanager.net'', port = 3478\<rparr>,
    \<lparr>name = ''stun.hoiio.com'', port = 3478\<rparr>,
    \<lparr>name = ''stun.holocom.cloud'', port = 3478\<rparr>,
    \<lparr>name = ''stun.honeycall.com'', port = 3478\<rparr>,
    \<lparr>name = ''stun.hoolva.com'', port = 3478\<rparr>,
    \<lparr>name = ''stun.hopsync.org'', port = 3478\<rparr>,
    \<lparr>name = ''stun.hot-chilli.net'', port = 3478\<rparr>,
    \<lparr>name = ''stun.hubnetweb.org'', port = 3478\<rparr>,
    \<lparr>name = ''stun.ibi.multiq.com'', port = 3478\<rparr>,
    \<lparr>name = ''stun.ictp.it'', port = 3478\<rparr>,
    \<lparr>name = ''stun.icuconnect.eu'', port = 3478\<rparr>,
    \<lparr>name = ''stun.ied.sma.de'', port = 3478\<rparr>,
    \<lparr>name = ''stun.ifon.pl'', port = 3478\<rparr>,
    \<lparr>name = ''stun.ignion.net'', port = 3478\<rparr>,
    \<lparr>name = ''stun.iiitkottayam.ac.in'', port = 3478\<rparr>,
    \<lparr>name = ''stun.ilam.ac.ir'', port = 3478\<rparr>,
    \<lparr>name = ''stun.ilya.ws'', port = 3478\<rparr>,
    \<lparr>name = ''stun.imafex.sk'', port = 3478\<rparr>,
    \<lparr>name = ''stun.imeeting.com.br'', port = 3478\<rparr>,
    \<lparr>name = ''stun.imp.ch'', port = 3478\<rparr>,
    \<lparr>name = ''stun.impactpbx.com'', port = 3478\<rparr>,
    \<lparr>name = ''stun.indisoft.de'', port = 3478\<rparr>,
    \<lparr>name = ''stun.indycall.com'', port = 3478\<rparr>,
    \<lparr>name = ''stun.infra.net'', port = 3478\<rparr>,
    \<lparr>name = ''stun.insemex.ro'', port = 3478\<rparr>,
    \<lparr>name = ''stun.insoftusa.com'', port = 3478\<rparr>,
    \<lparr>name = ''stun.internetcalls.com'', port = 3478\<rparr>,
    \<lparr>name = ''stun.intervoip.com'', port = 3478\<rparr>,
    \<lparr>name = ''stun.intwizja.pl'', port = 3478\<rparr>,
    \<lparr>name = ''stun.inubo.ch'', port = 3478\<rparr>,
    \<lparr>name = ''stun.inyar.ru'', port = 3478\<rparr>,
    \<lparr>name = ''stun.iointegrators.com'', port = 3478\<rparr>,
    \<lparr>name = ''stun.ionewu.com'', port = 3478\<rparr>,
    \<lparr>name = ''stun.iossol.de'', port = 3478\<rparr>,
    \<lparr>name = ''stun.iotalk.ir'', port = 3478\<rparr>,
    \<lparr>name = ''stun.ipeex.de'', port = 3478\<rparr>,
    \<lparr>name = ''stun.ipfsbit.com'', port = 3478\<rparr>,
    \<lparr>name = ''stun.ippi.com'', port = 3478\<rparr>,
    \<lparr>name = ''stun.ippi.fr'', port = 3478\<rparr>,
    \<lparr>name = ''stun.ipshka.com'', port = 3478\<rparr>,
    \<lparr>name = ''stun.ipv8.pl'', port = 3478\<rparr>,
    \<lparr>name = ''stun.iqvoice.com'', port = 3478\<rparr>,
    \<lparr>name = ''stun.irishvoip.com'', port = 3478\<rparr>,
    \<lparr>name = ''stun.iserv.eu'', port = 3478\<rparr>,
    \<lparr>name = ''stun.isp.net.au'', port = 3478\<rparr>,
    \<lparr>name = ''stun.istitutogramscisiciliano.it'', port = 3478\<rparr>,
    \<lparr>name = ''stun.it1.hr'', port = 3478\<rparr>,
    \<lparr>name = ''stun.iut.ac.ir'', port = 3478\<rparr>,
    \<lparr>name = ''stun.ixc.ua'', port = 3478\<rparr>,
    \<lparr>name = ''stun.jabber.dk'', port = 3478\<rparr>,
    \<lparr>name = ''stun.jabbim.cz'', port = 3478\<rparr>,
    \<lparr>name = ''stun.jay.net'', port = 3478\<rparr>,
    \<lparr>name = ''stun.jensbouma.com'', port = 3478\<rparr>,
    \<lparr>name = ''stun.jerichosystems.co.za'', port = 3478\<rparr>,
    \<lparr>name = ''stun.johanhelsing.studio'', port = 3478\<rparr>,
    \<lparr>name = ''stun.jowisoftware.de'', port = 3478\<rparr>,
    \<lparr>name = ''stun.jrnetservices.de'', port = 3478\<rparr>,
    \<lparr>name = ''stun.jukno.de'', port = 3478\<rparr>,
    \<lparr>name = ''stun.jumblo.com'', port = 3478\<rparr>,
    \<lparr>name = ''stun.jump-up.to'', port = 3478\<rparr>,
    \<lparr>name = ''stun.junet.se'', port = 3478\<rparr>,
    \<lparr>name = ''stun.justvoip.com'', port = 3478\<rparr>,
    \<lparr>name = ''stun.k8s.xpertyme.com'', port = 3478\<rparr>,
    \<lparr>name = ''stun.kalis.cc'', port = 3478\<rparr>,
    \<lparr>name = ''stun.kanne.ggeg.eu'', port = 3478\<rparr>,
    \<lparr>name = ''stun.kanojo.de'', port = 3478\<rparr>,
    \<lparr>name = ''stun.kaseya.com'', port = 3478\<rparr>,
    \<lparr>name = ''stun.kc.com.pl'', port = 3478\<rparr>,
    \<lparr>name = ''stun.kedr.io'', port = 3478\<rparr>,
    \<lparr>name = ''stun.kempen.xyz'', port = 3478\<rparr>,
    \<lparr>name = ''stun.kenkon.net'', port = 3478\<rparr>,
    \<lparr>name = ''stun.kleen.ch'', port = 3478\<rparr>,
    \<lparr>name = ''stun.kleusberg.de'', port = 3478\<rparr>,
    \<lparr>name = ''stun.kohrn-online.de'', port = 3478\<rparr>,
    \<lparr>name = ''stun.komsa.de'', port = 3478\<rparr>,
    \<lparr>name = ''stun.komunikas.net'', port = 3478\<rparr>,
    \<lparr>name = ''stun.kotter.net'', port = 3478\<rparr>,
    \<lparr>name = ''stun.kpi.ua'', port = 3478\<rparr>,
    \<lparr>name = ''stun.krypto.casa'', port = 3478\<rparr>,
    \<lparr>name = ''stun.kserver.org'', port = 3478\<rparr>,
    \<lparr>name = ''stun.kuva-dev.eticlab.xyz'', port = 3478\<rparr>,
    \<lparr>name = ''stun.l.google.com'', port = 19302\<rparr>,
    \<lparr>name = ''stun.l.google.com'', port = 19305\<rparr>,
    \<lparr>name = ''stun.l.google.com'', port = 3478\<rparr>,
    \<lparr>name = ''stun.labs.net'', port = 3478\<rparr>,
    \<lparr>name = ''stun.ladridiricette.it'', port = 3478\<rparr>,
    \<lparr>name = ''stun.landvast.nl'', port = 3478\<rparr>,
    \<lparr>name = ''stun.lebendigefluesse.at'', port = 3478\<rparr>,
    \<lparr>name = ''stun.lege.de'', port = 3478\<rparr>,
    \<lparr>name = ''stun.lender.schule'', port = 3478\<rparr>,
    \<lparr>name = ''stun.leonde.org'', port = 3478\<rparr>,
    \<lparr>name = ''stun.leucotron.com.br'', port = 3478\<rparr>,
    \<lparr>name = ''stun.levigo.de'', port = 3478\<rparr>,
    \<lparr>name = ''stun.levigo.net'', port = 3478\<rparr>,
    \<lparr>name = ''stun.likenuuk.com'', port = 3478\<rparr>,
    \<lparr>name = ''stun.lineaencasa.com'', port = 3478\<rparr>,
    \<lparr>name = ''stun.linphone.org'', port = 3478\<rparr>,
    \<lparr>name = ''stun.linss.com'', port = 3478\<rparr>,
    \<lparr>name = ''stun.linuxtrent.it'', port = 3478\<rparr>,
    \<lparr>name = ''stun.lirmm.fr'', port = 3478\<rparr>,
    \<lparr>name = ''stun.live2u.com.br'', port = 3478\<rparr>,
    \<lparr>name = ''stun.liveo.fr'', port = 3478\<rparr>,
    \<lparr>name = ''stun.lleida.net'', port = 3478\<rparr>,
    \<lparr>name = ''stun.localphone.com'', port = 3478\<rparr>,
    \<lparr>name = ''stun.logic.ky'', port = 3478\<rparr>,
    \<lparr>name = ''stun.lovense.com'', port = 3478\<rparr>,
    \<lparr>name = ''stun.lowratevoip.com'', port = 3478\<rparr>,
    \<lparr>name = ''stun.lrhmv.de'', port = 3478\<rparr>,
    \<lparr>name = ''stun.lu-cix.lu'', port = 3478\<rparr>,
    \<lparr>name = ''stun.luger.de'', port = 3478\<rparr>,
    \<lparr>name = ''stun.luhr.net'', port = 3478\<rparr>,
    \<lparr>name = ''stun.luzzato.com'', port = 3478\<rparr>,
    \<lparr>name = ''stun.lysergic.dev'', port = 3478\<rparr>,
    \<lparr>name = ''stun.m-online.net'', port = 3478\<rparr>,
    \<lparr>name = ''stun.madavi.de'', port = 3478\<rparr>,
    \<lparr>name = ''stun.magicum.net'', port = 3478\<rparr>,
    \<lparr>name = ''stun.maitri.club'', port = 3478\<rparr>,
    \<lparr>name = ''stun.marcelproust.it'', port = 3478\<rparr>,
    \<lparr>name = ''stun.marko-jovanovic.de'', port = 3478\<rparr>,
    \<lparr>name = ''stun.mazewebsolutions.ch'', port = 3478\<rparr>,
    \<lparr>name = ''stun.mconf.rnp.br'', port = 3478\<rparr>,
    \<lparr>name = ''stun.mcra.fr'', port = 3478\<rparr>,
    \<lparr>name = ''stun.mdcc.de'', port = 3478\<rparr>,
    \<lparr>name = ''stun.med.uni-greifswald.de'', port = 3478\<rparr>,
    \<lparr>name = ''stun.mediani.de'', port = 3478\<rparr>,
    \<lparr>name = ''stun.medvc.eu'', port = 3478\<rparr>,
    \<lparr>name = ''stun.meetwife.com'', port = 3478\<rparr>,
    \<lparr>name = ''stun.megatel.si'', port = 3478\<rparr>,
    \<lparr>name = ''stun.meowsbox.com'', port = 3478\<rparr>,
    \<lparr>name = ''stun.metra-services.de'', port = 3478\<rparr>,
    \<lparr>name = ''stun.microdata.co.uk'', port = 3478\<rparr>,
    \<lparr>name = ''stun.microdata.systems'', port = 3478\<rparr>,
    \<lparr>name = ''stun.mikuru.de'', port = 3478\<rparr>,
    \<lparr>name = ''stun.miwifi.com'', port = 3478\<rparr>,
    \<lparr>name = ''stun.mixvoip.com'', port = 3478\<rparr>,
    \<lparr>name = ''stun.mobile-italia.com'', port = 3478\<rparr>,
    \<lparr>name = ''stun.moonlight-stream.org'', port = 3478\<rparr>,
    \<lparr>name = ''stun.morgan-systems.com'', port = 3478\<rparr>,
    \<lparr>name = ''stun.mtx.prudent.io'', port = 3478\<rparr>,
    \<lparr>name = ''stun.muoversi.net'', port = 3478\<rparr>,
    \<lparr>name = ''stun.myhowto.org'', port = 3478\<rparr>,
    \<lparr>name = ''stun.myspeciality.com'', port = 3478\<rparr>,
    \<lparr>name = ''stun.myvoipapp.com'', port = 3478\<rparr>,
    \<lparr>name = ''stun.myvoiptraffic.com'', port = 3478\<rparr>,
    \<lparr>name = ''stun.mywatson.it'', port = 3478\<rparr>,
    \<lparr>name = ''stun.nagoonline.com'', port = 3478\<rparr>,
    \<lparr>name = ''stun.nanocosmos.de'', port = 3478\<rparr>,
    \<lparr>name = ''stun.ncic.com'', port = 3478\<rparr>,
    \<lparr>name = ''stun.nekkimobile.ru'', port = 3478\<rparr>,
    \<lparr>name = ''stun.neobridge.fr'', port = 3478\<rparr>,
    \<lparr>name = ''stun.neomedia.it'', port = 3478\<rparr>,
    \<lparr>name = ''stun.neowise.fr'', port = 3478\<rparr>,
    \<lparr>name = ''stun.netappel.com'', port = 3478\<rparr>,
    \<lparr>name = ''stun.netensia.net'', port = 3478\<rparr>,
    \<lparr>name = ''stun.netgsm.com.tr'', port = 3478\<rparr>,
    \<lparr>name = ''stun.netmaster.ro'', port = 3478\<rparr>,
    \<lparr>name = ''stun.netzbegruenung.de'', port = 3478\<rparr>,
    \<lparr>name = ''stun.neura.datamicron.com'', port = 3478\<rparr>,
    \<lparr>name = ''stun.nexphone.ch'', port = 3478\<rparr>,
    \<lparr>name = ''stun.next-gen.ro'', port = 3478\<rparr>,
    \<lparr>name = ''stun.next.nortelmed.com'', port = 3478\<rparr>,
    \<lparr>name = ''stun.nextcloud.com'', port = 3478\<rparr>,
    \<lparr>name = ''stun.nextcloud.com'', port = 443\<rparr>,
    \<lparr>name = ''stun.nexttell.ru'', port = 3478\<rparr>,
    \<lparr>name = ''stun.nexxtmobile.de'', port = 3478\<rparr>,
    \<lparr>name = ''stun.nfon.net'', port = 3478\<rparr>,
    \<lparr>name = ''stun.nicolai-wolff.de'', port = 3478\<rparr>,
    \<lparr>name = ''stun.nicoll.xyz'', port = 3478\<rparr>,
    \<lparr>name = ''stun.ninda.net'', port = 3478\<rparr>,
    \<lparr>name = ''stun.nonoh.net'', port = 3478\<rparr>,
    \<lparr>name = ''stun.noonan.family'', port = 3478\<rparr>,
    \<lparr>name = ''stun.nortelmed.com'', port = 3478\<rparr>,
    \<lparr>name = ''stun.nowe-tmg.de'', port = 3478\<rparr>,
    \<lparr>name = ''stun.odsh.de'', port = 3478\<rparr>,
    \<lparr>name = ''stun.officinabit.com'', port = 3478\<rparr>,
    \<lparr>name = ''stun.oldhamtechnology.com'', port = 3478\<rparr>,
    \<lparr>name = ''stun.olimontel.it'', port = 3478\<rparr>,
    \<lparr>name = ''stun.oncloud7.ch'', port = 3478\<rparr>,
    \<lparr>name = ''stun.openjobs.hu'', port = 3478\<rparr>,
    \<lparr>name = ''stun.openmedia.gallery'', port = 3478\<rparr>,
    \<lparr>name = ''stun.openmusic.gallery'', port = 3478\<rparr>,
    \<lparr>name = ''stun.openvoip.it'', port = 3478\<rparr>,
    \<lparr>name = ''stun.optdyn.com'', port = 3478\<rparr>,
    \<lparr>name = ''stun.ora.pm'', port = 3478\<rparr>,
    \<lparr>name = ''stun.ortopediacoam.it'', port = 3478\<rparr>,
    \<lparr>name = ''stun.p2p.blackberry.com'', port = 3478\<rparr>,
    \<lparr>name = ''stun.palava.tv'', port = 3478\<rparr>,
    \<lparr>name = ''stun.partell.nl'', port = 3478\<rparr>,
    \<lparr>name = ''stun.patentanimal.com'', port = 3478\<rparr>,
    \<lparr>name = ''stun.pbx.netcomnetz.de'', port = 3478\<rparr>,
    \<lparr>name = ''stun.pbx.scsynergy.net'', port = 3478\<rparr>,
    \<lparr>name = ''stun.peekvideochat.com'', port = 3478\<rparr>,
    \<lparr>name = ''stun.peeters.com'', port = 3478\<rparr>,
    \<lparr>name = ''stun.peethultra.be'', port = 3478\<rparr>,
    \<lparr>name = ''stun.petiak.ir'', port = 3478\<rparr>,
    \<lparr>name = ''stun.petzi-net.de'', port = 3478\<rparr>,
    \<lparr>name = ''stun.phoenixbell.online'', port = 3478\<rparr>,
    \<lparr>name = ''stun.phone.com'', port = 3478\<rparr>,
    \<lparr>name = ''stun.phx.freevoicepbx.com'', port = 3478\<rparr>,
    \<lparr>name = ''stun.physics.uoc.gr'', port = 3478\<rparr>,
    \<lparr>name = ''stun.piratenbrandenburg.de'', port = 3478\<rparr>,
    \<lparr>name = ''stun.pjsip.org'', port = 3478\<rparr>,
    \<lparr>name = ''stun.planetarium.com.br'', port = 3478\<rparr>,
    \<lparr>name = ''stun.plexicomm.net'', port = 3478\<rparr>,
    \<lparr>name = ''stun.pocos.nl'', port = 3478\<rparr>,
    \<lparr>name = ''stun.poetamatusel.org'', port = 3478\<rparr>,
    \<lparr>name = ''stun.poivy.com'', port = 3478\<rparr>,
    \<lparr>name = ''stun.portal.hivetechnology.net'', port = 3478\<rparr>,
    \<lparr>name = ''stun.portalnetworks.ca'', port = 3478\<rparr>,
    \<lparr>name = ''stun.portfiftysixty.net'', port = 3478\<rparr>,
    \<lparr>name = ''stun.postblue.info'', port = 3478\<rparr>,
    \<lparr>name = ''stun.poul.org'', port = 3478\<rparr>,
    \<lparr>name = ''stun.powervoip.com'', port = 3478\<rparr>,
    \<lparr>name = ''stun.ppcsystem.online'', port = 3478\<rparr>,
    \<lparr>name = ''stun.ppdi.com'', port = 3478\<rparr>,
    \<lparr>name = ''stun.prestatel.fr'', port = 3478\<rparr>,
    \<lparr>name = ''stun.pricall.eu'', port = 3478\<rparr>,
    \<lparr>name = ''stun.prism.it'', port = 3478\<rparr>,
    \<lparr>name = ''stun.prometheanproduct.com'', port = 3478\<rparr>,
    \<lparr>name = ''stun.prov-2115.ovh'', port = 3478\<rparr>,
    \<lparr>name = ''stun.provelo.org'', port = 3478\<rparr>,
    \<lparr>name = ''stun.provtel.com'', port = 3478\<rparr>,
    \<lparr>name = ''stun.prozserin.org'', port = 3478\<rparr>,
    \<lparr>name = ''stun.psych.help'', port = 3478\<rparr>,
    \<lparr>name = ''stun.pure-ip.com'', port = 3478\<rparr>,
    \<lparr>name = ''stun.purtel.com'', port = 3478\<rparr>,
    \<lparr>name = ''stun.q-mex.net'', port = 3478\<rparr>,
    \<lparr>name = ''stun.qcol.net'', port = 3478\<rparr>,
    \<lparr>name = ''stun.quirum.com'', port = 3478\<rparr>,
    \<lparr>name = ''stun.radiojar.com'', port = 3478\<rparr>,
    \<lparr>name = ''stun.rcsxzx.com'', port = 3478\<rparr>,
    \<lparr>name = ''stun.redbini.com'', port = 3478\<rparr>,
    \<lparr>name = ''stun.redmedical.de'', port = 3478\<rparr>,
    \<lparr>name = ''stun.redsquared.com'', port = 3478\<rparr>,
    \<lparr>name = ''stun.relaix.net'', port = 3478\<rparr>,
    \<lparr>name = ''stun.remotepc.com'', port = 3478\<rparr>,
    \<lparr>name = ''stun.remotetopc.com'', port = 3478\<rparr>,
    \<lparr>name = ''stun.rescuetrack.com'', port = 3478\<rparr>,
    \<lparr>name = ''stun.ringostat.com'', port = 3478\<rparr>,
    \<lparr>name = ''stun.robbuvoice.com'', port = 3478\<rparr>,
    \<lparr>name = ''stun.rockenstein.de'', port = 3478\<rparr>,
    \<lparr>name = ''stun.roct.de'', port = 3478\<rparr>,
    \<lparr>name = ''stun.rolmail.net'', port = 3478\<rparr>,
    \<lparr>name = ''stun.rolvoice.it'', port = 3478\<rparr>,
    \<lparr>name = ''stun.romaaeterna.nl'', port = 3478\<rparr>,
    \<lparr>name = ''stun.romancecompass.com'', port = 3478\<rparr>,
    \<lparr>name = ''stun.root-1.de'', port = 3478\<rparr>,
    \<lparr>name = ''stun.rtc.praxxys.ph'', port = 3478\<rparr>,
    \<lparr>name = ''stun.rtc.yandex.net'', port = 3478\<rparr>,
    \<lparr>name = ''stun.ru-brides.com'', port = 3478\<rparr>,
    \<lparr>name = ''stun.rxdbit.com'', port = 3478\<rparr>,
    \<lparr>name = ''stun.rynga.com'', port = 3478\<rparr>,
    \<lparr>name = ''stun.rz.htw-berlin.de'', port = 3478\<rparr>,
    \<lparr>name = ''stun.sacko.com.au'', port = 3478\<rparr>,
    \<lparr>name = ''stun.saman360.com'', port = 3478\<rparr>,
    \<lparr>name = ''stun.schlund.de'', port = 3478\<rparr>,
    \<lparr>name = ''stun.schmid-federn.ch'', port = 3478\<rparr>,
    \<lparr>name = ''stun.schoeffel.de'', port = 3478\<rparr>,
    \<lparr>name = ''stun.schulinformatik.at'', port = 3478\<rparr>,
    \<lparr>name = ''stun.scorecrm.pe'', port = 3478\<rparr>,
    \<lparr>name = ''stun.scriptonary.com'', port = 3478\<rparr>,
    \<lparr>name = ''stun.scudcrm.com'', port = 3478\<rparr>,
    \<lparr>name = ''stun.seemoo.tu-darmstadt.de'', port = 3478\<rparr>,
    \<lparr>name = ''stun.selasky.org'', port = 3478\<rparr>,
    \<lparr>name = ''stun.sensor.community'', port = 3478\<rparr>,
    \<lparr>name = ''stun.serveil.com'', port = 3478\<rparr>,
    \<lparr>name = ''stun.server.uni-frankfurt.de'', port = 3478\<rparr>,
    \<lparr>name = ''stun.serverplantage.de'', port = 3478\<rparr>,
    \<lparr>name = ''stun.servileto.net'', port = 3478\<rparr>,
    \<lparr>name = ''stun.sewan.fr'', port = 3478\<rparr>,
    \<lparr>name = ''stun.shadrinsk.net'', port = 3478\<rparr>,
    \<lparr>name = ''stun.shared.bbmenterprise.com'', port = 3478\<rparr>,
    \<lparr>name = ''stun.shared.bbmenterprise.dyn.blackberry.net'', port = 3478\<rparr>,
    \<lparr>name = ''stun.shwechat.com'', port = 3478\<rparr>,
    \<lparr>name = ''stun.sice.com'', port = 3478\<rparr>,
    \<lparr>name = ''stun.sid.galaxie.family'', port = 3478\<rparr>,
    \<lparr>name = ''stun.siedle.com'', port = 3478\<rparr>,
    \<lparr>name = ''stun.sightline.se'', port = 3478\<rparr>,
    \<lparr>name = ''stun.sigmavoip.com'', port = 3478\<rparr>,
    \<lparr>name = ''stun.signalwire.com'', port = 3478\<rparr>,
    \<lparr>name = ''stun.signet.nl'', port = 3478\<rparr>,
    \<lparr>name = ''stun.simlar.org'', port = 3478\<rparr>,
    \<lparr>name = ''stun.simonbalzer.de'', port = 3478\<rparr>,
    \<lparr>name = ''stun.simulcast.eu'', port = 3478\<rparr>,
    \<lparr>name = ''stun.sip.us'', port = 3478\<rparr>,
    \<lparr>name = ''stun.sipdiscount.com'', port = 3478\<rparr>,
    \<lparr>name = ''stun.sipgate.net'', port = 10000\<rparr>,
    \<lparr>name = ''stun.sipgate.net'', port = 3478\<rparr>,
    \<lparr>name = ''stun.sipglobalphone.com'', port = 3478\<rparr>,
    \<lparr>name = ''stun.siplogin.de'', port = 3478\<rparr>,
    \<lparr>name = ''stun.sippeer.dk'', port = 3478\<rparr>,
    \<lparr>name = ''stun.sipthor.net'', port = 3478\<rparr>,
    \<lparr>name = ''stun.siptraffic.com'', port = 3478\<rparr>,
    \<lparr>name = ''stun.siptrunk.com'', port = 3478\<rparr>,
    \<lparr>name = ''stun.sipy.cz'', port = 3478\<rparr>,
    \<lparr>name = ''stun.skerric.com'', port = 3478\<rparr>,
    \<lparr>name = ''stun.sky.od.ua'', port = 3478\<rparr>,
    \<lparr>name = ''stun.skydrone.aero'', port = 3478\<rparr>,
    \<lparr>name = ''stun.sma.de'', port = 3478\<rparr>,
    \<lparr>name = ''stun.smartvoip.com'', port = 3478\<rparr>,
    \<lparr>name = ''stun.smsdiscount.com'', port = 3478\<rparr>,
    \<lparr>name = ''stun.smslisto.com'', port = 3478\<rparr>,
    \<lparr>name = ''stun.smvhost.in'', port = 3478\<rparr>,
    \<lparr>name = ''stun.soho66.co.uk'', port = 3478\<rparr>,
    \<lparr>name = ''stun.solcon.nl'', port = 3478\<rparr>,
    \<lparr>name = ''stun.solnet.ch'', port = 3478\<rparr>,
    \<lparr>name = ''stun.solomo.de'', port = 3478\<rparr>,
    \<lparr>name = ''stun.sonderformat.cloud'', port = 3478\<rparr>,
    \<lparr>name = ''stun.sonetel.com'', port = 3478\<rparr>,
    \<lparr>name = ''stun.sonetel.net'', port = 3478\<rparr>,
    \<lparr>name = ''stun.sparvoip.de'', port = 3478\<rparr>,
    \<lparr>name = ''stun.speakswitch.com'', port = 3478\<rparr>,
    \<lparr>name = ''stun.splicecom.com'', port = 3478\<rparr>,
    \<lparr>name = ''stun.sproesser.net'', port = 3478\<rparr>,
    \<lparr>name = ''stun.srca.org.sa'', port = 3478\<rparr>,
    \<lparr>name = ''stun.srce.hr'', port = 3478\<rparr>,
    \<lparr>name = ''stun.ssh.thinkrosystem.com'', port = 3478\<rparr>,
    \<lparr>name = ''stun.stadtwerke-eutin.de'', port = 3478\<rparr>,
    \<lparr>name = ''stun.steambot.ch'', port = 3478\<rparr>,
    \<lparr>name = ''stun.steuerkanzlei-banse.de'', port = 3478\<rparr>,
    \<lparr>name = ''stun.stochastix.de'', port = 3478\<rparr>,
    \<lparr>name = ''stun.stomp.dynv6.net'', port = 3478\<rparr>,
    \<lparr>name = ''stun.stratusvideo.com'', port = 3478\<rparr>,
    \<lparr>name = ''stun.streamnow.ch'', port = 3478\<rparr>,
    \<lparr>name = ''stun.streamspace.ai'', port = 3478\<rparr>,
    \<lparr>name = ''stun.studio-link.de'', port = 3478\<rparr>,
    \<lparr>name = ''stun.studio71.it'', port = 3478\<rparr>,
    \<lparr>name = ''stun.stuffnet.sk'', port = 3478\<rparr>,
    \<lparr>name = ''stun.stura.uni-heidelberg.de'', port = 3478\<rparr>,
    \<lparr>name = ''stun.superiordigital7.com'', port = 3478\<rparr>,
    \<lparr>name = ''stun.swrag.de'', port = 3478\<rparr>,
    \<lparr>name = ''stun.sylaps.com'', port = 3478\<rparr>,
    \<lparr>name = ''stun.syncthing.net'', port = 3478\<rparr>,
    \<lparr>name = ''stun.synergiejobs.be'', port = 3478\<rparr>,
    \<lparr>name = ''stun.syrex.co.za'', port = 3478\<rparr>,
    \<lparr>name = ''stun.syscon.cloud'', port = 3478\<rparr>,
    \<lparr>name = ''stun.szbboys.com'', port = 3478\<rparr>,
    \<lparr>name = ''stun.szlovak.sk'', port = 3478\<rparr>,
    \<lparr>name = ''stun.t-online.de'', port = 3478\<rparr>,
    \<lparr>name = ''stun.talkho.com'', port = 3478\<rparr>,
    \<lparr>name = ''stun.taxsee.com'', port = 3478\<rparr>,
    \<lparr>name = ''stun.teambox.fr'', port = 3478\<rparr>,
    \<lparr>name = ''stun.teamfon.com'', port = 3478\<rparr>,
    \<lparr>name = ''stun.teamfon.de'', port = 3478\<rparr>,
    \<lparr>name = ''stun.techlevel.org'', port = 3478\<rparr>,
    \<lparr>name = ''stun.technologpark.net'', port = 3478\<rparr>,
    \<lparr>name = ''stun.technosens.fr'', port = 3478\<rparr>,
    \<lparr>name = ''stun.tee.gr'', port = 3478\<rparr>,
    \<lparr>name = ''stun.tel.lu'', port = 3478\<rparr>,
    \<lparr>name = ''stun.tel.yandex.net'', port = 3478\<rparr>,
    \<lparr>name = ''stun.tel2.co.uk'', port = 3478\<rparr>,
    \<lparr>name = ''stun.telbo.com'', port = 3478\<rparr>,
    \<lparr>name = ''stun.teliax.com'', port = 3478\<rparr>,
    \<lparr>name = ''stun.telnyx.com'', port = 3478\<rparr>,
    \<lparr>name = ''stun.telviva.com'', port = 3478\<rparr>,
    \<lparr>name = ''stun.telxl.org'', port = 3478\<rparr>,
    \<lparr>name = ''stun.thebrassgroup.it'', port = 3478\<rparr>,
    \<lparr>name = ''stun.thegroovesurfers.live'', port = 3478\<rparr>,
    \<lparr>name = ''stun.thinkrosystem.com'', port = 3478\<rparr>,
    \<lparr>name = ''stun.threema.ch'', port = 3478\<rparr>,
    \<lparr>name = ''stun.thw-pbx.de'', port = 3478\<rparr>,
    \<lparr>name = ''stun.tichiamo.it'', port = 3478\<rparr>,
    \<lparr>name = ''stun.tixeo.com'', port = 3478\<rparr>,
    \<lparr>name = ''stun.tng.de'', port = 3478\<rparr>,
    \<lparr>name = ''stun.tor.yakdigitalphone.ca'', port = 3478\<rparr>,
    \<lparr>name = ''stun.totalcom.info'', port = 3478\<rparr>,
    \<lparr>name = ''stun.touchapp.cl'', port = 3478\<rparr>,
    \<lparr>name = ''stun.tretas.org'', port = 3478\<rparr>,
    \<lparr>name = ''stun.tricasting.com'', port = 3478\<rparr>,
    \<lparr>name = ''stun.ttmath.org'', port = 3478\<rparr>,
    \<lparr>name = ''stun.tula.nu'', port = 3478\<rparr>,
    \<lparr>name = ''stun.twt.it'', port = 3478\<rparr>,
    \<lparr>name = ''stun.u5fgb.com'', port = 3478\<rparr>,
    \<lparr>name = ''stun.uabrides.com'', port = 3478\<rparr>,
    \<lparr>name = ''stun.ucanet.ru'', port = 3478\<rparr>,
    \<lparr>name = ''stun.ukh.de'', port = 3478\<rparr>,
    \<lparr>name = ''stun.uls.co.za'', port = 3478\<rparr>,
    \<lparr>name = ''stun.ultrino.net'', port = 3478\<rparr>,
    \<lparr>name = ''stun.unearth.de'', port = 3478\<rparr>,
    \<lparr>name = ''stun.unimatrix.link'', port = 3478\<rparr>,
    \<lparr>name = ''stun.unimewo.com'', port = 3478\<rparr>,
    \<lparr>name = ''stun.univ-grenoble-alpes.fr'', port = 3478\<rparr>,
    \<lparr>name = ''stun.unotel.dk'', port = 3478\<rparr>,
    \<lparr>name = ''stun.uplinklabs.net'', port = 3478\<rparr>,
    \<lparr>name = ''stun.url.net.au'', port = 3478\<rparr>,
    \<lparr>name = ''stun.vadacom.co.nz'', port = 3478\<rparr>,
    \<lparr>name = ''stun.vallcom.it'', port = 3478\<rparr>,
    \<lparr>name = ''stun.var6.cn'', port = 3478\<rparr>,
    \<lparr>name = ''stun.vavadating.com'', port = 3478\<rparr>,
    \<lparr>name = ''stun.vc.itgen.io'', port = 3478\<rparr>,
    \<lparr>name = ''stun.vcomm.ca'', port = 3478\<rparr>,
    \<lparr>name = ''stun.verbo.be'', port = 3478\<rparr>,
    \<lparr>name = ''stun.vesrv.eu'', port = 3478\<rparr>,
    \<lparr>name = ''stun.vetlab.pl'', port = 3478\<rparr>,
    \<lparr>name = ''stun.video.taxi'', port = 3478\<rparr>,
    \<lparr>name = ''stun.videovisit.io'', port = 3478\<rparr>,
    \<lparr>name = ''stun.virtual-aula.com'', port = 3478\<rparr>,
    \<lparr>name = ''stun.visselhoevede.de'', port = 3478\<rparr>,
    \<lparr>name = ''stun.vivell.de'', port = 3478\<rparr>,
    \<lparr>name = ''stun.vivox.com'', port = 3478\<rparr>,
    \<lparr>name = ''stun.vjoon.com'', port = 3478\<rparr>,
    \<lparr>name = ''stun.vo.lu'', port = 3478\<rparr>,
    \<lparr>name = ''stun.voiceflex.com'', port = 3478\<rparr>,
    \<lparr>name = ''stun.voicehost.co.uk'', port = 3478\<rparr>,
    \<lparr>name = ''stun.voicetech.se'', port = 3478\<rparr>,
    \<lparr>name = ''stun.voicetrading.com'', port = 3478\<rparr>,
    \<lparr>name = ''stun.voip.aebc.com'', port = 3478\<rparr>,
    \<lparr>name = ''stun.voip.blackberry.com'', port = 3478\<rparr>,
    \<lparr>name = ''stun.voip.ciphertv.com'', port = 3478\<rparr>,
    \<lparr>name = ''stun.voip.dyn.blackberry.net'', port = 3478\<rparr>,
    \<lparr>name = ''stun.voip.eutelia.it'', port = 3478\<rparr>,
    \<lparr>name = ''stun.voip.ovh.net'', port = 3478\<rparr>,
    \<lparr>name = ''stun.voipawesome.com'', port = 3478\<rparr>,
    \<lparr>name = ''stun.voipblast.com'', port = 3478\<rparr>,
    \<lparr>name = ''stun.voipbuster.com'', port = 3478\<rparr>,
    \<lparr>name = ''stun.voipbusterpro.com'', port = 3478\<rparr>,
    \<lparr>name = ''stun.voipcheap.co.uk'', port = 3478\<rparr>,
    \<lparr>name = ''stun.voipcheap.com'', port = 3478\<rparr>,
    \<lparr>name = ''stun.voipconnect.com'', port = 3478\<rparr>,
    \<lparr>name = ''stun.voipdiscount.com'', port = 3478\<rparr>,
    \<lparr>name = ''stun.voipeasy.it'', port = 3478\<rparr>,
    \<lparr>name = ''stun.voipfibre.com'', port = 3478\<rparr>,
    \<lparr>name = ''stun.voipgain.com'', port = 3478\<rparr>,
    \<lparr>name = ''stun.voipgate.com'', port = 3478\<rparr>,
    \<lparr>name = ''stun.voipgateway.cloud'', port = 3478\<rparr>,
    \<lparr>name = ''stun.voipgrid.nl'', port = 3478\<rparr>,
    \<lparr>name = ''stun.voipia.net'', port = 3478\<rparr>,
    \<lparr>name = ''stun.voipinfocenter.com'', port = 3478\<rparr>,
    \<lparr>name = ''stun.voipoperator.tel'', port = 3478\<rparr>,
    \<lparr>name = ''stun.voippro.com'', port = 3478\<rparr>,
    \<lparr>name = ''stun.voipraider.com'', port = 3478\<rparr>,
    \<lparr>name = ''stun.voipstreet.com'', port = 3478\<rparr>,
    \<lparr>name = ''stun.voipstunt.com'', port = 3478\<rparr>,
    \<lparr>name = ''stun.voipsvr.net'', port = 3478\<rparr>,
    \<lparr>name = ''stun.voipvoice.it'', port = 3478\<rparr>,
    \<lparr>name = ''stun.voipvox.it'', port = 3478\<rparr>,
    \<lparr>name = ''stun.voipwise.com'', port = 3478\<rparr>,
    \<lparr>name = ''stun.voipxs.nl'', port = 3478\<rparr>,
    \<lparr>name = ''stun.voipzoom.com'', port = 3478\<rparr>,
    \<lparr>name = ''stun.voismart.com'', port = 3478\<rparr>,
    \<lparr>name = ''stun.vomessen.de'', port = 3478\<rparr>,
    \<lparr>name = ''stun.voys.nl'', port = 3478\<rparr>,
    \<lparr>name = ''stun.vozelia.com'', port = 3478\<rparr>,
    \<lparr>name = ''stun.voztele.com'', port = 3478\<rparr>,
    \<lparr>name = ''stun.voztovoice.org'', port = 3478\<rparr>,
    \<lparr>name = ''stun.vsrv1.shcwagenfeld.de'', port = 3478\<rparr>,
    \<lparr>name = ''stun.waterpolopalermo.it'', port = 3478\<rparr>,
    \<lparr>name = ''stun.wazo.io'', port = 3478\<rparr>,
    \<lparr>name = ''stun.wcoil.com'', port = 3478\<rparr>,
    \<lparr>name = ''stun.webcalldirect.com'', port = 3478\<rparr>,
    \<lparr>name = ''stun.webmatrix.com.br'', port = 3478\<rparr>,
    \<lparr>name = ''stun.webrtc.docety.com'', port = 3478\<rparr>,
    \<lparr>name = ''stun.webrtc.ecl.ntt.com'', port = 3478\<rparr>,
    \<lparr>name = ''stun.webtools.co.cr'', port = 3478\<rparr>,
    \<lparr>name = ''stun.weeb.fi'', port = 3478\<rparr>,
    \<lparr>name = ''stun.wemag.com'', port = 3478\<rparr>,
    \<lparr>name = ''stun.westtel.ky'', port = 3478\<rparr>,
    \<lparr>name = ''stun.wia.cz'', port = 3478\<rparr>,
    \<lparr>name = ''stun.wlvoip.net'', port = 3478\<rparr>,
    \<lparr>name = ''stun.wollgast-it.de'', port = 3478\<rparr>,
    \<lparr>name = ''stun.worship.com.ng'', port = 3478\<rparr>,
    \<lparr>name = ''stun.wowitel.net'', port = 3478\<rparr>,
    \<lparr>name = ''stun.wtfismyip.com'', port = 3478\<rparr>,
    \<lparr>name = ''stun.wuliangroup.cn'', port = 3478\<rparr>,
    \<lparr>name = ''stun.wws.link'', port = 3478\<rparr>,
    \<lparr>name = ''stun.wxnz.net'', port = 3478\<rparr>,
    \<lparr>name = ''stun.xmpp.masgalor.de'', port = 3478\<rparr>,
    \<lparr>name = ''stun.xooloo-messenger.com'', port = 3478\<rparr>,
    \<lparr>name = ''stun.xtekserver.com'', port = 3478\<rparr>,
    \<lparr>name = ''stun.xten.com'', port = 3478\<rparr>,
    \<lparr>name = ''stun.xx-on.de'', port = 3478\<rparr>,
    \<lparr>name = ''stun.yesdates.com'', port = 3478\<rparr>,
    \<lparr>name = ''stun.yesdok.com'', port = 3478\<rparr>,
    \<lparr>name = ''stun.yollacalls.com'', port = 3478\<rparr>,
    \<lparr>name = ''stun.zadarma.com'', port = 3478\<rparr>,
    \<lparr>name = ''stun.zebraduck.com'', port = 3478\<rparr>,
    \<lparr>name = ''stun.zenbakaitz.com'', port = 3478\<rparr>,
    \<lparr>name = ''stun.zentauron.de'', port = 3478\<rparr>,
    \<lparr>name = ''stun.zepf.uni-landau.de'', port = 3478\<rparr>,
    \<lparr>name = ''stun.zerobudget.design'', port = 3478\<rparr>,
    \<lparr>name = ''stun.zoomitel.net'', port = 3478\<rparr>,
    \<lparr>name = ''stun.zorra.com'', port = 3478\<rparr>,
    \<lparr>name = ''stun.zt.gets-it.net'', port = 3478\<rparr>,
    \<lparr>name = ''stun.ztrig.com'', port = 3478\<rparr>,
    \<lparr>name = ''stun.zugschlus.de'', port = 3478\<rparr>,
    \<lparr>name = ''stun0-ams.voipgrid.nl'', port = 3478\<rparr>,
    \<lparr>name = ''stun0-grq.voipgrid.nl'', port = 3478\<rparr>,
    \<lparr>name = ''stun0.appello.care'', port = 3478\<rparr>,
    \<lparr>name = ''stun0.eigenlinks.com'', port = 3478\<rparr>,
    \<lparr>name = ''stun0.yoyogi.de'', port = 3478\<rparr>,
    \<lparr>name = ''stun00.mirz.uni-jena.de'', port = 3478\<rparr>,
    \<lparr>name = ''stun00.webkonferenz.net'', port = 3478\<rparr>,
    \<lparr>name = ''stun001.yesdok.com'', port = 3478\<rparr>,
    \<lparr>name = ''stun01.ash-netconsult.de'', port = 3478\<rparr>,
    \<lparr>name = ''stun01.lith.dls.net'', port = 3478\<rparr>,
    \<lparr>name = ''stun01.livesale.cz'', port = 3478\<rparr>,
    \<lparr>name = ''stun01.mconf.rnp.br'', port = 3478\<rparr>,
    \<lparr>name = ''stun01.nfon.net'', port = 3478\<rparr>,
    \<lparr>name = ''stun01.pegasusserver.de'', port = 3478\<rparr>,
    \<lparr>name = ''stun01.silentcircle.net'', port = 3478\<rparr>,
    \<lparr>name = ''stun01.umy.ac.id'', port = 3478\<rparr>,
    \<lparr>name = ''stun02.counsol.net'', port = 3478\<rparr>,
    \<lparr>name = ''stun02.mconf.rnp.br'', port = 3478\<rparr>,
    \<lparr>name = ''stun02.nfon.net'', port = 3478\<rparr>,
    \<lparr>name = ''stun02.senfcall.de'', port = 3478\<rparr>,
    \<lparr>name = ''stun02.silentcircle.net'', port = 3478\<rparr>,
    \<lparr>name = ''stun02.umy.ac.id'', port = 3478\<rparr>,
    \<lparr>name = ''stun02.unifiedring.co.uk'', port = 3478\<rparr>,
    \<lparr>name = ''stun1.1telecom.ru'', port = 3478\<rparr>,
    \<lparr>name = ''stun1.a3bcproxy.nl'', port = 3478\<rparr>,
    \<lparr>name = ''stun1.alphacron.de'', port = 3478\<rparr>,
    \<lparr>name = ''stun1.anc.ffm.hfosip.de'', port = 3478\<rparr>,
    \<lparr>name = ''stun1.appello.care'', port = 3478\<rparr>,
    \<lparr>name = ''stun1.apse1.qa3.xhoot.com'', port = 3478\<rparr>,
    \<lparr>name = ''stun1.backend.doc-cirrus.com'', port = 3478\<rparr>,
    \<lparr>name = ''stun1.bancaditalia.it'', port = 3478\<rparr>,
    \<lparr>name = ''stun1.celya.fr'', port = 3478\<rparr>,
    \<lparr>name = ''stun1.crossmarx.nl'', port = 3478\<rparr>,
    \<lparr>name = ''stun1.dimorf.com'', port = 3478\<rparr>,
    \<lparr>name = ''stun1.doc-cirrus.com'', port = 3478\<rparr>,
    \<lparr>name = ''stun1.edagram.com'', port = 3478\<rparr>,
    \<lparr>name = ''stun1.egap.xunta.gal'', port = 3478\<rparr>,
    \<lparr>name = ''stun1.estpak.ee'', port = 3478\<rparr>,
    \<lparr>name = ''stun1.euc1.dev1.xhoot.com'', port = 3478\<rparr>,
    \<lparr>name = ''stun1.euc1.qa3.xhoot.com'', port = 3478\<rparr>,
    \<lparr>name = ''stun1.fra3.ffm.hfosip.de'', port = 3478\<rparr>,
    \<lparr>name = ''stun1.haluska.dev'', port = 3478\<rparr>,
    \<lparr>name = ''stun1.hfosip.de'', port = 3478\<rparr>,
    \<lparr>name = ''stun1.hoolva.com'', port = 3478\<rparr>,
    \<lparr>name = ''stun1.l.google.com'', port = 19302\<rparr>,
    \<lparr>name = ''stun1.l.google.com'', port = 19305\<rparr>,
    \<lparr>name = ''stun1.l.google.com'', port = 3478\<rparr>,
    \<lparr>name = ''stun1.mcra.fr'', port = 3478\<rparr>,
    \<lparr>name = ''stun1.meetby.io'', port = 3478\<rparr>,
    \<lparr>name = ''stun1.megatel.si'', port = 3478\<rparr>,
    \<lparr>name = ''stun1.mk.de'', port = 3478\<rparr>,
    \<lparr>name = ''stun1.mydisk.nsc.ru'', port = 3478\<rparr>,
    \<lparr>name = ''stun1.net.ipl.pt'', port = 3478\<rparr>,
    \<lparr>name = ''stun1.oren.cloud'', port = 3478\<rparr>,
    \<lparr>name = ''stun1.pocos.nl'', port = 3478\<rparr>,
    \<lparr>name = ''stun1.sipport.de'', port = 3478\<rparr>,
    \<lparr>name = ''stun1.starman.ee'', port = 3478\<rparr>,
    \<lparr>name = ''stun1.use1.dev1.xhoot.com'', port = 3478\<rparr>,
    \<lparr>name = ''stun1.use1.dev2.xhoot.com'', port = 3478\<rparr>,
    \<lparr>name = ''stun1.use1.dev3.xhoot.com'', port = 3478\<rparr>,
    \<lparr>name = ''stun1.use1.qa2.xhoot.com'', port = 3478\<rparr>,
    \<lparr>name = ''stun1.use1.qa3.xhoot.com'', port = 3478\<rparr>,
    \<lparr>name = ''stun1.vodaway.ru'', port = 3478\<rparr>,
    \<lparr>name = ''stun1.webweaver.de'', port = 3478\<rparr>,
    \<lparr>name = ''stun10.onewebtalk.de'', port = 3478\<rparr>,
    \<lparr>name = ''stun1a.anc.ffm.hfosip.de'', port = 3478\<rparr>,
    \<lparr>name = ''stun1a.fra3.ffm.hfosip.de'', port = 3478\<rparr>,
    \<lparr>name = ''stun1a.frontlinebackoffice.ca'', port = 3478\<rparr>,
    \<lparr>name = ''stun1a.novuscom.net'', port = 3478\<rparr>,
    \<lparr>name = ''stun1b.frontlinebackoffice.ca'', port = 3478\<rparr>,
    \<lparr>name = ''stun1b.novuscom.net'', port = 3478\<rparr>,
    \<lparr>name = ''stun2.1-voip.com'', port = 3478\<rparr>,
    \<lparr>name = ''stun2.1ats.ru'', port = 3478\<rparr>,
    \<lparr>name = ''stun2.a3bcproxy.nl'', port = 3478\<rparr>,
    \<lparr>name = ''stun2.appello.care'', port = 3478\<rparr>,
    \<lparr>name = ''stun2.backend.doc-cirrus.com'', port = 3478\<rparr>,
    \<lparr>name = ''stun2.bancaditalia.it'', port = 3478\<rparr>,
    \<lparr>name = ''stun2.belowtoxic.cloud'', port = 3478\<rparr>,
    \<lparr>name = ''stun2.call.netplanet.at'', port = 3478\<rparr>,
    \<lparr>name = ''stun2.doc-cirrus.com'', port = 3478\<rparr>,
    \<lparr>name = ''stun2.egap.xunta.gal'', port = 3478\<rparr>,
    \<lparr>name = ''stun2.fon.is'', port = 3478\<rparr>,
    \<lparr>name = ''stun2.free-solutions.org'', port = 3478\<rparr>,
    \<lparr>name = ''stun2.hoolva.com'', port = 3478\<rparr>,
    \<lparr>name = ''stun2.informatica95.net'', port = 3478\<rparr>,
    \<lparr>name = ''stun2.kynaforkids.vn'', port = 3478\<rparr>,
    \<lparr>name = ''stun2.l.google.com'', port = 19302\<rparr>,
    \<lparr>name = ''stun2.l.google.com'', port = 19305\<rparr>,
    \<lparr>name = ''stun2.meowsbox.com'', port = 3478\<rparr>,
    \<lparr>name = ''stun2.mik.ua'', port = 3478\<rparr>,
    \<lparr>name = ''stun2.mk.de'', port = 3478\<rparr>,
    \<lparr>name = ''stun2.net.ipl.pt'', port = 3478\<rparr>,
    \<lparr>name = ''stun2.pylo.net'', port = 3478\<rparr>,
    \<lparr>name = ''stun2.rz.htw-berlin.de'', port = 3478\<rparr>,
    \<lparr>name = ''stun2.server.uni-frankfurt.de'', port = 3478\<rparr>,
    \<lparr>name = ''stun2.sipport.de'', port = 3478\<rparr>,
    \<lparr>name = ''stun2.squaretalk.com'', port = 3478\<rparr>,
    \<lparr>name = ''stun2.ssystems.de'', port = 3478\<rparr>,
    \<lparr>name = ''stun2.starman.ee'', port = 3478\<rparr>,
    \<lparr>name = ''stun2.teletek.se'', port = 3478\<rparr>,
    \<lparr>name = ''stun2.videovisit.io'', port = 3478\<rparr>,
    \<lparr>name = ''stun2.wollgast-it.de'', port = 3478\<rparr>,
    \<lparr>name = ''stun2.zoomitel.net'', port = 3478\<rparr>,
    \<lparr>name = ''stun2a.frontlinebackoffice.ca'', port = 3478\<rparr>,
    \<lparr>name = ''stun2a.novuscom.net'', port = 3478\<rparr>,
    \<lparr>name = ''stun2a.southislandcable.com'', port = 3478\<rparr>,
    \<lparr>name = ''stun2b.frontlinebackoffice.ca'', port = 3478\<rparr>,
    \<lparr>name = ''stun2b.novuscom.net'', port = 3478\<rparr>,
    \<lparr>name = ''stun2b.southislandcable.com'', port = 3478\<rparr>,
    \<lparr>name = ''stun3.hoolva.com'', port = 3478\<rparr>,
    \<lparr>name = ''stun3.l.google.com'', port = 19302\<rparr>,
    \<lparr>name = ''stun3.l.google.com'', port = 19305\<rparr>,
    \<lparr>name = ''stun4.beeznest.com'', port = 3478\<rparr>,
    \<lparr>name = ''stun4.hoolva.com'', port = 3478\<rparr>,
    \<lparr>name = ''stun4.l.google.com'', port = 19302\<rparr>,
    \<lparr>name = ''stun4.l.google.com'', port = 19305\<rparr>,
    \<lparr>name = ''stun4.l.google.com'', port = 3478\<rparr>,
    \<lparr>name = ''stuna.wxnz.net'', port = 3478\<rparr>,
    \<lparr>name = ''stunb.wxnz.net'', port = 3478\<rparr>,
    \<lparr>name = ''stunbb.mirhosting.com'', port = 3478\<rparr>,
    \<lparr>name = ''stunc.cloud.trizwo.it'', port = 3478\<rparr>,
    \<lparr>name = ''stund.yeastar.com'', port = 3478\<rparr>,
    \<lparr>name = ''stundev-aws-secondary.rd01.konami.net'', port = 3478\<rparr>,
    \<lparr>name = ''stundev-aws-tertiary.rd01.konami.net'', port = 3478\<rparr>,
    \<lparr>name = ''stundev.livextend.cloud'', port = 3478\<rparr>,
    \<lparr>name = ''stunrc.ruijienetworks.com'', port = 3478\<rparr>,
    \<lparr>name = ''stuns.ipv8.pl'', port = 3478\<rparr>,
    \<lparr>name = ''stuns.nowe-tmg.de'', port = 3478\<rparr>,
    \<lparr>name = ''stuns.ztrig.com'', port = 3478\<rparr>,
    \<lparr>name = ''stunsec.provtel.com'', port = 3478\<rparr>,
    \<lparr>name = ''stunserver-if2.wx3.se'', port = 3478\<rparr>,
    \<lparr>name = ''stunserver.wx3.se'', port = 3478\<rparr>,
    \<lparr>name = ''stunsvr-as.ruijienetworks.com'', port = 3478\<rparr>,
    \<lparr>name = ''stunturn-se.easymeeting.net'', port = 3478\<rparr>,
    \<lparr>name = ''stunturn.sibtel.gv.at'', port = 3478\<rparr>,
    \<lparr>name = ''stunturn.yellka.com'', port = 3478\<rparr>,
    \<lparr>name = ''stunturn4.triart.jp'', port = 3478\<rparr>,
    \<lparr>name = ''stunv4.labs.lacnic.net'', port = 3478\<rparr>,
    \<lparr>name = ''stunvid.likenuuk.com'', port = 3478\<rparr>,
    \<lparr>name = ''stunx.externet.hu'', port = 3478\<rparr>,
    \<lparr>name = ''stunx.novuscom.net'', port = 3478\<rparr>,
    \<lparr>name = ''stuny.externet.hu'', port = 3478\<rparr>,
    \<lparr>name = ''stuny.megafone.hu'', port = 3478\<rparr>,
    \<lparr>name = ''stun.cloudflare.com'', port = 3478\<rparr>,
    \<lparr>name = ''stun.flashdance.cx'', port = 3478\<rparr>]"

text \<open>\<^verbatim>\<open>sizeof(StunSrvList) / sizeof(StunSrv)\<close>, a \<^verbatim>\<open>static const int\<close>.\<close>

definition StunSrvListQty :: int32_t where
  "StunSrvListQty = of_nat (length StunSrvList)"

text \<open>
  The fields of \<^verbatim>\<open>struct sockaddr_in\<close> that the probe writes. Port and address are kept
  in network order in the structure; \<open>sin_port\<close> and \<open>sin_addr\<close> are the numbers that
  their bytes spell in that order, so that \<^verbatim>\<open>htons\<close> and \<^verbatim>\<open>ntohs\<close> do not show.
\<close>

record sockaddr_in =
  sin_family :: uint16_t
  sin_port :: uint16_t
  sin_addr :: uint32_t

definition sockaddr_zero :: sockaddr_in where
  "sockaddr_zero = \<lparr>sin_family = 0, sin_port = 0, sin_addr = 0\<rparr>"

text \<open>
  Modelled from the spec: \<^verbatim>\<open>ministun.h\<close> is outside the sources at hand. The probe speaks
  RFC 3489: a message starts with a header of 20 bytes (type, length of what follows,
  and 16 bytes of transaction id), followed by attributes, each with a header of 4 bytes
  (type and length of the value). \<^verbatim>\<open>STUN_BINDREQ\<close> and \<^verbatim>\<open>STUN_MAPPED_ADDRESS\<close> are both
  \<^verbatim>\<open>0x0001\<close>; the value of a mapped address is \<^verbatim>\<open>struct stun_addr\<close>: one unused byte, the
  family, the port (2 bytes) and the address (4 bytes). \<^verbatim>\<open>AF_INET\<close> is 2.
\<close>

definition sizeof_stun_header :: nat where
  "sizeof_stun_header = 20"

definition sizeof_stun_attr :: nat where
  "sizeof_stun_attr = 4"

definition STUN_BINDREQ :: uint16_t where
  "STUN_BINDREQ = 1"

definition STUN_MAPPED_ADDRESS :: uint16_t where
  "STUN_MAPPED_ADDRESS = 1"

definition AF_INET :: uint16_t where
  "AF_INET = 2"

record stun_header =
  msgtype :: uint16_t
  msglen :: uint16_t
  id' :: "8 word list"

text \<open>
  A 16-bit and a 32-bit field in network order at offset \<open>i\<close> of a buffer, as a number
  (\<^verbatim>\<open>ntohs\<close> of a field read through a pointer into the buffer).
\<close>

definition be16 :: "8 word list \<Rightarrow> nat \<Rightarrow> uint16_t" where
  "be16 data i = word_cat (data ! i) (data ! Suc i)"

definition be32 :: "8 word list \<Rightarrow> nat \<Rightarrow> uint32_t" where
  "be32 data i = word_cat (be16 data i) (be16 data (i + 2))"

text \<open>
  \<^verbatim>\<open>stun_get_mapped(attr, arg)\<close>: \<open>attr\<close> is the buffer from the attribute on, \<open>arg\<close> is what
  \<^verbatim>\<open>*arg\<close> holds; it returns its \<^verbatim>\<open>int\<close> and what \<^verbatim>\<open>*arg\<close> holds afterwards. The value is read
  only when the length of the attribute is 8.
\<close>

definition stun_get_mapped :: "8 word list \<Rightarrow> sockaddr_in \<Rightarrow> int32_t \<times> sockaddr_in" where
  "stun_get_mapped attr sa =
     (if be16 attr 0 \<noteq> STUN_MAPPED_ADDRESS \<or> be16 attr 2 \<noteq> 8 then (1, sa)
      else (0, sa\<lparr>sin_port := be16 attr 6, sin_addr := be32 attr 8\<rparr>))"

text \<open>
  The \<^verbatim>\<open>while (len)\<close> loop of \<^verbatim>\<open>stun_handle_packet\<close>, with the callback
  \<^verbatim>\<open>stun_get_mapped\<close> that \<^verbatim>\<open>StunRequest2\<close> passes, whose result is not looked at. It ends
  because \<open>len\<close> shrinks by at least the 4 bytes of an attribute header.
\<close>

function handle_attributes ::
  "8 word list \<Rightarrow> nat \<Rightarrow> int32_t \<Rightarrow> sockaddr_in \<Rightarrow> int32_t \<times> sockaddr_in" where
  "handle_attributes data len ret arg =
     (if len = 0 then (ret, arg)
      else if len < sizeof_stun_attr then (- 21, arg)
      else
        let x = unat (be16 data 2) + sizeof_stun_attr in
        if x > len then (- 22, arg)
        else handle_attributes (drop x data) (len - x) ret (snd (stun_get_mapped data arg)))"
  by pat_completeness auto
termination
  by (relation "measure (\<lambda>(data, len, ret, arg). len)") (simp_all add: sizeof_stun_attr_def)

declare handle_attributes.simps [simp del]

text \<open>
  \<^verbatim>\<open>stun_handle_packet(s, src, data, len, stun_cb, arg)\<close> for the callback
  \<^verbatim>\<open>stun_get_mapped\<close>; the socket and the source address are not used. It returns its
  \<^verbatim>\<open>int\<close> and what \<^verbatim>\<open>*arg\<close> holds afterwards.
\<close>

definition stun_handle_packet ::
  "8 word list \<Rightarrow> nat \<Rightarrow> sockaddr_in \<Rightarrow> int32_t \<times> sockaddr_in" where
  "stun_handle_packet data len arg =
     (let ret = (of_nat len :: int32_t) in
      if len < sizeof_stun_header then (- 20, arg)
      else
        let x = unat (be16 data 2);
            len = len - sizeof_stun_header;
            data = drop sizeof_stun_header data;
            len = (if x < len then x else len)
        in handle_attributes data len ret arg)"

text \<open>
  The system calls of the probe, as functions of the state \<open>'w\<close> of the outside world:
  \<^verbatim>\<open>gethostbyname\<close> gives the address \<^verbatim>\<open>h_addr\<close> of the host, or nothing for \<^verbatim>\<open>NULL\<close>;
  \<^verbatim>\<open>socket\<close> gives a socket, or nothing for \<^verbatim>\<open>INVALID_SOCKET\<close>; \<^verbatim>\<open>bind\<close>, \<^verbatim>\<open>sendto\<close> and
  \<^verbatim>\<open>select\<close> (on this socket alone, with the timeout \<^verbatim>\<open>STUN_TIMEOUT\<close>) give their \<^verbatim>\<open>int\<close>;
  \<^verbatim>\<open>recvfrom\<close> gives the datagram received, of which it stores as many bytes as the buffer
  offered takes and returns their number, or nothing for an error. \<open>stun_req_id\<close> gives
  the 16 bytes of a request id:
  \<^verbatim>\<open>stun_req_id\<close> draws them from \<^verbatim>\<open>GetRandInt\<close>, the static \<^verbatim>\<open>randfiller\<close> and the bytes of the
  table in memory.
\<close>

record 'w os =
  gethostbyname :: "string \<Rightarrow> 'w \<Rightarrow> uint32_t option \<times> 'w"
  socket :: "'w \<Rightarrow> uint32_t option \<times> 'w"
  bind' :: "uint32_t \<Rightarrow> sockaddr_in \<Rightarrow> 'w \<Rightarrow> int32_t \<times> 'w"
  stun_req_id :: "'w \<Rightarrow> 8 word list \<times> 'w"
  sendto :: "uint32_t \<Rightarrow> stun_header \<Rightarrow> nat \<Rightarrow> sockaddr_in \<Rightarrow> 'w \<Rightarrow> int32_t \<times> 'w"
  select :: "uint32_t \<Rightarrow> 'w \<Rightarrow> int32_t \<times> 'w"
  recvfrom :: "uint32_t \<Rightarrow> nat \<Rightarrow> 'w \<Rightarrow> 8 word list option \<times> 'w"
  CloseSocket :: "uint32_t \<Rightarrow> 'w \<Rightarrow> 'w"

text \<open>\<^verbatim>\<open>stun_send(s, dst, resp)\<close> sends the header and the \<^verbatim>\<open>msglen\<close> bytes after it.\<close>

definition stun_send :: "'w os \<Rightarrow> uint32_t \<Rightarrow> sockaddr_in \<Rightarrow> stun_header \<Rightarrow> 'w \<Rightarrow> int32_t \<times> 'w" where
  "stun_send os s dst resp w = sendto os s resp (unat (msglen resp) + sizeof_stun_header) dst w"

text \<open>
  \<^verbatim>\<open>StunRequest2(sock, server, mapped)\<close>: the code \<^verbatim>\<open>rc\<close> and what \<^verbatim>\<open>*mapped\<close> holds
  afterwards. The request is a header alone. \<^verbatim>\<open>*mapped\<close> is set to zero once a datagram
  has been received, before \<^verbatim>\<open>stun_handle_packet\<close> looks at it.
\<close>

definition StunRequest2 ::
  "'w os \<Rightarrow> uint32_t \<Rightarrow> sockaddr_in \<Rightarrow> sockaddr_in \<Rightarrow> 'w \<Rightarrow> (int32_t \<times> sockaddr_in) \<times> 'w" where
  "StunRequest2 os sock server mapped w =
     (let (i, w) = stun_req_id os w;
          req = \<lparr>msgtype = STUN_BINDREQ, msglen = 0, id' = i\<rparr>;
          (res, w) = stun_send os sock server req w
      in
        if res <s 0 then ((- 10, mapped), w)
        else
          let (res, w) = select os sock w in
          if res \<le>s 0 then ((- 11, mapped), w)
          else
            let (reply, w) = recvfrom os sock 1023 w in
            case reply of
              None \<Rightarrow> ((- 12, mapped), w)
            | Some datagram \<Rightarrow>
                let reply_buf = take 1023 datagram;
                    res = (of_nat (length reply_buf) :: int32_t)
                in
                  if res \<le>s 0 then ((- 12, mapped), w)
                  else
                    let mapped = sockaddr_zero in
                    (stun_handle_packet reply_buf (unat res) mapped, w))"

text \<open>
  \<^verbatim>\<open>StunRequest(host, port, mapped)\<close>, as a function of the world before the call, of
  the server and of what \<^verbatim>\<open>*mapped\<close> holds: the code \<^verbatim>\<open>rc\<close>, what \<^verbatim>\<open>*mapped\<close> holds
  afterwards, and the world after the call.
\<close>

definition StunRequest ::
  "'w os \<Rightarrow> 'w \<Rightarrow> string \<Rightarrow> uint16_t \<Rightarrow> sockaddr_in \<Rightarrow> (int32_t \<times> sockaddr_in) \<times> 'w" where
  "StunRequest os w host prt mapped =
     (case gethostbyname os host w of
        (None, w) \<Rightarrow> ((- 1, mapped), w)
      | (Some h_addr, w) \<Rightarrow>
          let server = \<lparr>sin_family = AF_INET, sin_port = prt, sin_addr = h_addr\<rparr>;
              client = \<lparr>sin_family = AF_INET, sin_port = 0, sin_addr = 0\<rparr>
          in
            case socket os w of
              (None, w) \<Rightarrow> ((- 2, mapped), w)
            | (Some sock, w) \<Rightarrow>
                let (bound, w) = bind' os sock client w;
                    ((rc, mapped), w) =
                      (if 0 \<le>s bound then StunRequest2 os sock server mapped w
                       else ((- 3, mapped), w));
                    w = CloseSocket os sock w
                in ((rc, mapped), w))"

text \<open>
  The scan below calls \<^verbatim>\<open>StunRequest\<close> for each probe. The function that it calls is an
  argument, of this type, so that the calls of a run can be observed.
\<close>

type_synonym 'w stun_request =
  "'w \<Rightarrow> string \<Rightarrow> uint16_t \<Rightarrow> sockaddr_in \<Rightarrow> (int32_t \<times> sockaddr_in) \<times> 'w"

text \<open>
  The body of the \<^verbatim>\<open>do ... while (step == 0)\<close> loop of \<^verbatim>\<open>GetExternalIPbySTUN\<close>:
  \<^verbatim>\<open>rnd = (rnd >> 8) | 0xff00000000000000LL\<close> and \<^verbatim>\<open>step = rnd % StunSrvListQty\<close>, where
  the \<^verbatim>\<open>int\<close> is converted to \<^verbatim>\<open>uint64_t\<close> and the remainder cut to \<^verbatim>\<open>uint16_t\<close>.
\<close>

definition next_rnd :: "uint64_t \<Rightarrow> uint64_t" where
  "next_rnd rnd = drop_bit 8 rnd OR 0xff00000000000000"

definition step_of :: "uint64_t \<Rightarrow> uint16_t" where
  "step_of rnd = ucast (rnd mod scast StunSrvListQty)"

text \<open>The same loop, cut off after \<open>n\<close> iterations: \<open>None\<close> when no step is found by then.\<close>

fun select_step_within :: "nat \<Rightarrow> uint64_t \<Rightarrow> uint16_t option" where
  "select_step_within 0 rnd = None"
| "select_step_within (Suc n) rnd =
     (let rnd = next_rnd rnd; step = step_of rnd in
      if step = 0 then select_step_within n rnd else Some step)"

text \<open>\<^verbatim>\<open>pos = (pos + step) % StunSrvListQty\<close>, computed at \<^verbatim>\<open>int\<close>.\<close>

definition next_pos :: "uint16_t \<Rightarrow> uint16_t \<Rightarrow> uint16_t" where
  "next_pos pos step = ucast (smod32 (ucast pos + ucast step) StunSrvListQty)"

text \<open>
  The loop itself. It ends: while the step is 0 the complement of \<open>rnd\<close> shrinks, and
  once \<open>rnd\<close> is all ones the step is not 0.
\<close>

lemma length_StunSrvList: "length StunSrvList = 893"
  by (simp add: StunSrvList_def)

lemma StunSrvListQty_eq: "StunSrvListQty = 893"
  by (simp add: StunSrvListQty_def length_StunSrvList)

lemma scast_StunSrvListQty: "(scast StunSrvListQty :: uint64_t) = 893"
  by (simp add: StunSrvListQty_eq)

lemma top_byte_eq: "(0xff00000000000000 :: uint64_t) = NOT (mask 56)"
  by (simp add: mask_eq_exp_minus_1)

lemma NOT_next_rnd: "NOT (next_rnd rnd) = drop_bit 8 (NOT rnd)"
  unfolding next_rnd_def top_byte_eq
  by (rule bit_word_eqI) (auto simp: bit_simps)

lemma next_rnd_saturated: "next_rnd (- 1) = - 1"
  by (simp add: next_rnd_def mask_eq_exp_minus_1)

lemma step_of_saturated: "step_of (- 1) = 776"
  by (simp add: step_of_def scast_StunSrvListQty)

lemma select_step_decreases:
  assumes "step_of (next_rnd rnd) = 0"
  shows "unat (NOT (next_rnd rnd)) < unat (NOT rnd)"
proof -
  have "rnd \<noteq> - 1"
    using assms by (auto simp: next_rnd_saturated step_of_saturated)
  then have "NOT rnd \<noteq> 0"
    by (metis bit.compl_zero bit.double_compl)
  then have "0 < unat (NOT rnd)"
    by (simp add: unat_gt_0)
  then have "unat (NOT rnd) div 256 < unat (NOT rnd)"
    by simp
  then show ?thesis
    by (simp add: NOT_next_rnd unat_drop_bit_eq drop_bit_eq_div unat_div)
qed

function select_step :: "uint64_t \<Rightarrow> uint16_t" where
  "select_step rnd =
     (let rnd = next_rnd rnd; step = step_of rnd in
      if step = 0 then select_step rnd else step)"
  by pat_completeness auto
termination
  by (relation "measure (\<lambda>rnd. unat (NOT rnd))") (simp_all add: select_step_decreases)

declare select_step.simps [simp del]

text \<open>
  The \<^verbatim>\<open>for\<close> loop of \<^verbatim>\<open>GetExternalIPbySTUN\<close>, from the test of \<^verbatim>\<open>attempt\<close> on. The
  \<^verbatim>\<open>uint16_t attempt\<close> is compared and returned as \<^verbatim>\<open>int\<close>; \<^verbatim>\<open>*srv\<close> is the name of the
  server asked last. The loop ends because \<^verbatim>\<open>attempt\<close> counts up to
  \<^verbatim>\<open>StunSrvListQty * 2\<close>.
\<close>

lemma sint_ucast16: "sint (ucast (w :: uint16_t) :: int32_t) = uint w"
proof -
  have u: "uint w < 65536"
    using uint_lt2p [of w] by simp
  have b: "- (2 ^ 31) \<le> uint w" "uint w < 2 ^ 31"
    by (rule order_trans [OF _ uint_ge_0], simp) (rule less_trans [OF u], simp)
  have "sint (ucast w :: int32_t) = signed_take_bit 31 (uint w)"
    by (simp add: signed_ucast_eq)
  also have "\<dots> = uint w"
    using b by (rule signed_take_bit_int_eq_self)
  finally show ?thesis .
qed

lemma attempt_increases:
  assumes "(ucast (attempt :: uint16_t) :: int32_t) <s StunSrvListQty * 2"
  shows "unat attempt < 1786" "unat (attempt + 1) = Suc (unat attempt)"
proof -
  have "sint (ucast attempt :: int32_t) < 1786"
    using assms by (simp add: word_sless_alt StunSrvListQty_eq)
  then have "uint attempt < 1786"
    by (simp add: sint_ucast16)
  then have "int (unat attempt) < 1786"
    by (simp only: uint_nat)
  then show l: "unat attempt < 1786"
    by linarith
  have "unat (attempt + 1) = (unat attempt + 1) mod 65536"
    by (simp add: unat_word_ariths)
  also have "\<dots> = unat attempt + 1"
    using l by (intro mod_less) linarith
  finally show "unat (attempt + 1) = Suc (unat attempt)"
    by simp
qed

lemma attempt_measure:
  assumes "(ucast (attempt :: uint16_t) :: int32_t) <s StunSrvListQty * 2"
  shows "1786 - unat (attempt + 1) < 1786 - unat attempt"
  using attempt_increases [OF assms] by simp

function probe_loop ::
  "'w stun_request \<Rightarrow> uint16_t \<Rightarrow> uint16_t \<Rightarrow> uint16_t \<Rightarrow> sockaddr_in \<Rightarrow> string \<Rightarrow> 'w
    \<Rightarrow> (int32_t \<times> sockaddr_in \<times> string) \<times> 'w" where
  "probe_loop request step attempt pos mapped srv w =
     (if (ucast attempt :: int32_t) <s StunSrvListQty * 2 then
        let pos = next_pos pos step;
            srv = name (StunSrvList ! unat pos);
            ((rc, mapped), w) = request w srv (port (StunSrvList ! unat pos)) mapped
        in if 0 \<le>s rc then ((ucast attempt, mapped, srv), w)
           else probe_loop request step (attempt + 1) pos mapped srv w
      else ((- 1, mapped, srv), w))"
  by pat_completeness auto
termination
  by (relation "measure (\<lambda>(request, step, attempt, pos, mapped, srv, w). 1786 - unat attempt)")
    (simp_all add: attempt_measure)

declare probe_loop.simps [simp del]

text \<open>
  \<^verbatim>\<open>GetExternalIPbySTUN(rnd, mapped, srv)\<close>: the returned \<^verbatim>\<open>int\<close>, and what \<^verbatim>\<open>*mapped\<close> and
  \<^verbatim>\<open>*srv\<close> hold on return. The function called for a probe is the argument \<open>request\<close>;
  in the source it is \<^verbatim>\<open>StunRequest\<close>, that is \<open>StunRequest os\<close> here. (The assignment
  \<^verbatim>\<open>randfiller = rnd\<close> changes the request ids only, which are part of the environment.)
\<close>

definition GetExternalIPbySTUN ::
  "'w stun_request \<Rightarrow> uint64_t \<Rightarrow> sockaddr_in \<Rightarrow> string \<Rightarrow> 'w
    \<Rightarrow> (int32_t \<times> sockaddr_in \<times> string) \<times> 'w" where
  "GetExternalIPbySTUN request rnd mapped srv w =
     (let pos = (ucast rnd :: uint16_t);
          step = select_step rnd
      in probe_loop request step 1 pos mapped srv w)"

text \<open>
  An environment that keeps a log: \<open>logged request\<close> answers as \<open>request\<close> does
  and appends every request, with its answer, to a list carried in the state of the
  world. The scan cannot tell the two apart, and the log counts its probes.
\<close>

record probe =
  p_host :: string
  p_port :: uint16_t
  p_rc :: int32_t
  p_mapped :: sockaddr_in

definition logged :: "'w stun_request \<Rightarrow> ('w \<times> probe list) stun_request" where
  "logged request =
     (\<lambda>(w, log) host prt mapped.
        let ((rc, mapped'), w') = request w host prt mapped
        in ((rc, mapped'),
            (w', log @ [\<lparr>p_host = host, p_port = prt, p_rc = rc, p_mapped = mapped'\<rparr>])))"

text \<open>A probe that was not answered: its return code is negative.\<close>

definition failed :: "probe \<Rightarrow> bool" where
  "failed p \<longleftrightarrow> p_rc p <s 0"

text \<open>The name of the server at a position of the table.\<close>

definition srv_at :: "uint16_t \<Rightarrow> string" where
  "srv_at pos = name (StunSrvList ! unat pos)"

text \<open>The port of the server at a position of the table.\<close>

definition port_at :: "uint16_t \<Rightarrow> uint16_t" where
  "port_at pos = port (StunSrvList ! unat pos)"

text \<open>The first \<open>n\<close> positions of the walk over the table that starts after \<open>pos\<close>.\<close>

fun walk :: "uint16_t \<Rightarrow> uint16_t \<Rightarrow> nat \<Rightarrow> uint16_t list" where
  "walk pos step 0 = []"
| "walk pos step (Suc n) = next_pos pos step # walk (next_pos pos step) step n"

text \<open>
  The attributes of the body of a message, one after the other, as long as each one
  fits; and the mapped address of a reply: the port and the address of its last
  \<^verbatim>\<open>MAPPED-ADDRESS\<close> attribute of length 8, with family 0, and all zero when the reply has
  none. The body of a reply is what follows its header, cut off at the length that the
  header gives.
\<close>

function attributes :: "8 word list \<Rightarrow> 8 word list list" where
  "attributes body =
     (if length body < 4 then []
      else
        let x = unat (be16 body 2) + 4 in
        if x > length body then []
        else take x body # attributes (drop x body))"
  by pat_completeness auto
termination
  by (relation "measure length") simp_all

declare attributes.simps [simp del]

definition is_mapped_address :: "8 word list \<Rightarrow> bool" where
  "is_mapped_address a \<longleftrightarrow> be16 a 0 = 1 \<and> be16 a 2 = 8"

definition mapped_address :: "8 word list \<Rightarrow> sockaddr_in" where
  "mapped_address reply =
     (let ms = filter is_mapped_address (attributes (take (unat (be16 reply 2)) (drop 20 reply)))
      in if ms = [] then sockaddr_zero
         else \<lparr>sin_family = 0, sin_port = be16 (last ms) 6, sin_addr = be32 (last ms) 8\<rparr>)"

text \<open>
  A network to run the scan on. \<open>hosts\<close> gives the addresses of the names that resolve,
  \<open>replies\<close> the datagram with which the server at an address answers a request, if it
  answers. The state of the world is the address that the last request went to.
\<close>

definition network ::
  "(string \<times> uint32_t) list \<Rightarrow> (uint32_t \<times> 8 word list) list \<Rightarrow> uint32_t option os" where
  "network hosts replies =
     \<lparr>gethostbyname = (\<lambda>host w. (map_of hosts host, w)),
      socket = (\<lambda>w. (Some 3, w)),
      bind' = (\<lambda>sock addr w. (0, w)),
      stun_req_id = (\<lambda>w. (replicate 16 0x55, w)),
      sendto = (\<lambda>sock req n dst w. (of_nat n, Some (sin_addr dst))),
      select = (\<lambda>sock w.
        ((case w of None \<Rightarrow> 0 | Some a \<Rightarrow> (case map_of replies a of None \<Rightarrow> 0 | Some d \<Rightarrow> 1)), w)),
      recvfrom = (\<lambda>sock n w. ((case w of None \<Rightarrow> None | Some a \<Rightarrow> map_of replies a), w)),
      CloseSocket = (\<lambda>sock w. None)\<rparr>"

text \<open>
  Two replies: a binding response that carries the mapped address 203.0.113.7:40000,
  and a binding error response that is a header alone.
\<close>

definition binding_response :: "8 word list" where
  "binding_response =
     [0x01, 0x01, 0x00, 0x0C] @ replicate 16 0x55 @
     [0x00, 0x01, 0x00, 0x08, 0x00, 0x01, 0x9C, 0x40, 0xCB, 0x00, 0x71, 0x07]"

definition header_alone :: "8 word list" where
  "header_alone = [0x01, 0x11, 0x00, 0x00] @ replicate 16 0x55"

section \<open>The wallet RPC surface (rpcwallet.cpp)\<close>

subsection \<open>Values, exceptions and the state of the node\<close>

text \<open>
  A \<^verbatim>\<open>json_spirit::Value\<close>. An object is a vector of pairs, so a name can occur in it
  more than once. All real numbers of this interface are amounts: \<open>JAmount n\<close> is the
  real number \<open>n / COIN\<close>, which is what \<^verbatim>\<open>ValueFromAmount(n)\<close> builds.
\<close>

datatype json =
    JNull
  | JBool bool
  | JInt int64_t
  | JAmount int64_t
  | JStr string
  | JArr "json list"
  | JObj "(string \<times> json) list"

text \<open>
  The error codes of \<^verbatim>\<open>JSONRPCError\<close> that this file uses by name, and the ones it
  writes as a number (\<open>RPC_CODE\<close>).
\<close>

datatype RPCErrorCode =
    RPC_TYPE_ERROR
  | RPC_INVALID_ADDRESS_OR_KEY
  | RPC_INVALID_PARAMETER
  | RPC_DATABASE_ERROR
  | RPC_WALLET_ERROR
  | RPC_WALLET_INSUFFICIENT_FUNDS
  | RPC_WALLET_INVALID_ACCOUNT_NAME
  | RPC_WALLET_UNLOCK_NEEDED
  | RPC_WALLET_PASSPHRASE_INCORRECT
  | RPC_WALLET_WRONG_ENC_STATE
  | RPC_WALLET_ALREADY_UNLOCKED
  | RPC_CODE int

text \<open>What a call throws: a \<^verbatim>\<open>JSONRPCError\<close> object or a \<^verbatim>\<open>std::runtime_error\<close>.\<close>

datatype exn =
    JSONRPCError RPCErrorCode string
  | runtime_error string

text \<open>
  The typed accessors of a value throw a \<^verbatim>\<open>std::runtime_error\<close> when the value is of
  another type; \<^verbatim>\<open>get_int\<close> cuts the integer to \<^verbatim>\<open>int\<close>.
\<close>

fun get_str :: "json \<Rightarrow> exn + string" where
  "get_str (JStr s) = Inr s"
| "get_str v = Inl (runtime_error ''value is type mismatch, expected str'')"

fun get_int64 :: "json \<Rightarrow> exn + int64_t" where
  "get_int64 (JInt n) = Inr n"
| "get_int64 v = Inl (runtime_error ''value is type mismatch, expected int'')"

fun get_int :: "json \<Rightarrow> exn + int32_t" where
  "get_int (JInt n) = Inr (ucast n)"
| "get_int v = Inl (runtime_error ''value is type mismatch, expected int'')"

fun get_bool :: "json \<Rightarrow> exn + bool" where
  "get_bool (JBool b) = Inr b"
| "get_bool v = Inl (runtime_error ''value is type mismatch, expected bool'')"

fun get_obj :: "json \<Rightarrow> exn + (string \<times> json) list" where
  "get_obj (JObj ps) = Inr ps"
| "get_obj v = Inl (runtime_error ''value is type mismatch, expected obj'')"

text \<open>\<^verbatim>\<open>AccountFromValue\<close>.\<close>

definition AccountFromValue :: "json \<Rightarrow> exn + string" where
  "AccountFromValue v =
     (case get_str v of
        Inl e \<Rightarrow> Inl e
      | Inr strAccount \<Rightarrow>
          if strAccount = ''*''
          then Inl (JSONRPCError RPC_WALLET_INVALID_ACCOUNT_NAME ''Invalid account name'')
          else Inr strAccount)"

text \<open>\<^verbatim>\<open>CAccountingEntry\<close>, the fields that \<^verbatim>\<open>movecmd\<close> fills in.\<close>

record CAccountingEntry =
  nOrderPos :: int64_t
  strAccount :: string
  nCreditDebit :: int64_t
  entry_nTime :: int64_t
  strOtherAccount :: string
  strComment :: string

text \<open>The threads that \<^verbatim>\<open>NewThread\<close> starts, with the argument \<^verbatim>\<open>*parg\<close>.\<close>

datatype thread =
    ThreadTopUpKeyPool
  | ThreadCleanWalletPassphrase int64_t

text \<open>
  The state the calls work on: the wallet \<^verbatim>\<open>*pwalletMain\<close> with its keys and
  transactions, of a type \<open>'w\<close> left open; its counter \<^verbatim>\<open>nOrderPosNext\<close>; the accounting
  entries of the wallet database; the globals \<^verbatim>\<open>nWalletUnlockTime\<close> and
  \<^verbatim>\<open>fWalletUnlockMintOnly\<close>; and the threads started so far, in the order of their start.

  Modelled from the spec: the accounting entries of the database are keyed by
  \<open>(account, order-pos)\<close> (persistent state layout); the code that stores and reads them is
  outside the sources at hand.
\<close>

record 'w node =
  wallet :: 'w
  nOrderPosNext :: int64_t
  acentries :: "((string \<times> int64_t) \<times> CAccountingEntry) list"
  nWalletUnlockTime :: int64_t
  fWalletUnlockMintOnly :: bool
  threads :: "thread list"

text \<open>
  What a wallet transaction shows to the balance and listing code: the results of the
  methods of \<^verbatim>\<open>CWalletTx\<close> that this file calls, all of them defined outside the sources
  at hand. An \<^verbatim>\<open>isminefilter\<close> is a set of \<^verbatim>\<open>isminetype\<close> bits.
\<close>

datatype isminetype = MINE_WATCH_ONLY | MINE_SPENDABLE

type_synonym isminefilter = "isminetype set"

record 'a Amounts =
  nGeneratedImmature :: int64_t
  nGeneratedMature :: int64_t
  listReceived :: "('a \<times> int64_t) list"
  listSent :: "('a \<times> int64_t) list"
  nFee :: int64_t
  strSentAccount :: string

record AccountAmounts =
  acc_nGenerated :: int64_t
  acc_nReceived :: int64_t
  acc_nSent :: int64_t
  acc_nFee :: int64_t

record 'a CWalletTx =
  GetHash :: string
  IsFinal :: bool
  IsCoinBase :: bool
  IsCoinStake :: bool
  GetDepthInMainChain :: int32_t
  GetBlocksToMaturity :: int32_t
  hashBlock :: string
  nIndex :: int32_t
  blocktime :: int64_t
  GetTxTime :: int64_t
  nTimeReceived :: int64_t
  mapValue :: "(string \<times> string) list"
  IsFromMe_watchonly :: bool
  GetAmounts :: "isminefilter \<Rightarrow> 'a Amounts"
  GetAccountAmounts :: "string \<Rightarrow> isminefilter \<Rightarrow> AccountAmounts"

text \<open>The transaction that \<^verbatim>\<open>sendmany\<close> prepares before it is created.\<close>

record new_wtx =
  strFromAccount :: string
  new_mapValue :: "(string \<times> string) list"

text \<open>
  The code of the repository that this file calls and that is outside the sources at
  hand, as parameters: the key store and the transactions of \<^verbatim>\<open>CWallet\<close>, the addresses
  of \<^verbatim>\<open>CBitcoinAddress\<close> (of a type \<open>'a\<close> left open), \<^verbatim>\<open>AmountFromValue\<close> and the global
  \<^verbatim>\<open>nMinimumInputValue\<close>.
\<close>

record ('w, 'a) externals =
  IsCrypted :: "'w \<Rightarrow> bool"
  IsLocked :: "'w \<Rightarrow> bool"
  Unlock :: "string \<Rightarrow> 'w \<Rightarrow> bool \<times> 'w"
  Lock :: "'w \<Rightarrow> 'w"
  mapWallet :: "'w \<Rightarrow> 'a CWalletTx list"
  mapAddressBook :: "'w \<Rightarrow> 'a \<Rightarrow> string option"
  IsMine :: "'w \<Rightarrow> 'a \<Rightarrow> isminefilter"
  GetBalance :: "'w \<Rightarrow> int64_t"
  GetWatchOnlyBalance :: "'w \<Rightarrow> int64_t"
  CreateTransaction :: "('a \<times> int64_t) list \<Rightarrow> new_wtx \<Rightarrow> 'w \<Rightarrow> (bool \<times> int64_t \<times> string) \<times> 'w"
  CommitTransaction :: "string \<Rightarrow> 'w \<Rightarrow> bool \<times> 'w"
  CBitcoinAddress :: "string \<Rightarrow> 'a"
  ToString :: "'a \<Rightarrow> string"
  IsValid :: "'a \<Rightarrow> bool"
  IsPair :: "'a \<Rightarrow> bool"
  AmountFromValue :: "json \<Rightarrow> exn + int64_t"
  nMinimumInputValue :: int64_t

subsection \<open>Unlocking and re-locking the wallet\<close>

text \<open>
  \<^verbatim>\<open>walletpassphrase\<close>. The pass phrase is \<^verbatim>\<open>params[0].get_str().c_str()\<close>, the string up
  to its first NUL character. The thread that tops up the key pool is started before
  \<^verbatim>\<open>params[1]\<close> is read, and the re-locking thread before \<^verbatim>\<open>params[2]\<close> is.
\<close>

definition c_str :: "string \<Rightarrow> string" where
  "c_str s = takeWhile (\<lambda>c. c \<noteq> CHR 0x00) s"

definition walletpassphrase_help :: string where
  "walletpassphrase_help =
     ''walletpassphrase <passphrase> <timeout> [mintonly]'' @ [CHR 0x0A] @
     ''Stores the wallet decryption key in memory for <timeout> seconds.'' @ [CHR 0x0A] @
     ''mintonly is optional true/false allowing only block minting.''"

definition walletpassphrase_usage :: string where
  "walletpassphrase_usage =
     ''walletpassphrase <passphrase> <timeout>'' @ [CHR 0x0A] @
     ''Stores the wallet decryption key in memory for <timeout> seconds.''"

definition already_unlocked :: exn where
  "already_unlocked = JSONRPCError RPC_WALLET_ALREADY_UNLOCKED
     ''Error: Wallet is already unlocked, use walletlock first if need to change unlock settings.''"

definition walletpassphrase ::
  "('w, 'a) externals \<Rightarrow> json list \<Rightarrow> bool \<Rightarrow> 'w node \<Rightarrow> (exn + json) \<times> 'w node" where
  "walletpassphrase X params fHelp st =
     (if IsCrypted X (wallet st) \<and> (fHelp \<or> length params < 2 \<or> length params > 3)
      then (Inl (runtime_error walletpassphrase_help), st)
      else if fHelp then (Inr (JBool True), st)
      else if \<not> IsCrypted X (wallet st)
      then (Inl (JSONRPCError RPC_WALLET_WRONG_ENC_STATE
              ''Error: running with an unencrypted wallet, but walletpassphrase was called.''), st)
      else if \<not> IsLocked X (wallet st) then (Inl already_unlocked, st)
      else
        case get_str (params ! 0) of
          Inl e \<Rightarrow> (Inl e, st)
        | Inr s \<Rightarrow>
            let strWalletPass = c_str s in
            if length strWalletPass > 0 then
              let (unlocked, w) = Unlock X strWalletPass (wallet st);
                  st = st\<lparr>wallet := w\<rparr>
              in
                if \<not> unlocked
                then (Inl (JSONRPCError RPC_WALLET_PASSPHRASE_INCORRECT
                        ''Error: The wallet passphrase entered was incorrect.''), st)
                else
                  let st = st\<lparr>threads := threads st @ [ThreadTopUpKeyPool]\<rparr> in
                  case get_int64 (params ! 1) of
                    Inl e \<Rightarrow> (Inl e, st)
                  | Inr nSleepTime \<Rightarrow>
                      let st = st\<lparr>threads := threads st @ [ThreadCleanWalletPassphrase nSleepTime]\<rparr>
                      in
                        if length params > 2 then
                          case get_bool (params ! 2) of
                            Inl e \<Rightarrow> (Inl e, st)
                          | Inr b \<Rightarrow> (Inr JNull, st\<lparr>fWalletUnlockMintOnly := b\<rparr>)
                        else (Inr JNull, st\<lparr>fWalletUnlockMintOnly := False\<rparr>)
            else (Inl (runtime_error walletpassphrase_usage), st))"

text \<open>\<^verbatim>\<open>walletlock\<close>.\<close>

definition walletlock_help :: string where
  "walletlock_help =
     ''walletlock'' @ [CHR 0x0A] @
     ''Removes the wallet encryption key from memory, locking the wallet.'' @ [CHR 0x0A] @
     ''After calling this method, you will need to call walletpassphrase again'' @ [CHR 0x0A] @
     ''before being able to call any methods which require the wallet to be unlocked.''"

definition walletlock ::
  "('w, 'a) externals \<Rightarrow> json list \<Rightarrow> bool \<Rightarrow> 'w node \<Rightarrow> (exn + json) \<times> 'w node" where
  "walletlock X params fHelp st =
     (if IsCrypted X (wallet st) \<and> (fHelp \<or> length params \<noteq> 0)
      then (Inl (runtime_error walletlock_help), st)
      else if fHelp then (Inr (JBool True), st)
      else if \<not> IsCrypted X (wallet st)
      then (Inl (JSONRPCError RPC_WALLET_WRONG_ENC_STATE
              ''Error: running with an unencrypted wallet, but walletlock was called.''), st)
      else (Inr JNull, st\<lparr>wallet := Lock X (wallet st), nWalletUnlockTime := 0\<rparr>))"

text \<open>
  \<^verbatim>\<open>ThreadCleanWalletPassphrase\<close>, cut where the thread gives up the critical section
  \<^verbatim>\<open>cs_nWalletUnlockTime\<close>: a thread is about to sleep for \<^verbatim>\<open>nToSleep\<close> milliseconds, or it
  has finished. \<open>wake_time now secs\<close> is \<^verbatim>\<open>nMyWakeTime\<close>, computed from \<^verbatim>\<open>GetTimeMillis()\<close>
  before the thread enters the critical section. \<open>relocker_loop\<close> is the \<^verbatim>\<open>for\<close> loop from
  its head to the next \<^verbatim>\<open>Sleep\<close>, or else, through \<open>relocker_exit\<close>, to the end of the
  thread; \<open>now\<close> is the value of \<^verbatim>\<open>GetTimeMillis()\<close> there. \<open>relocker_enter\<close> is the thread from
  \<^verbatim>\<open>ENTER_CRITICAL_SECTION\<close> on.
\<close>

datatype relocker = Sleep int64_t | Finished


definition relocker_exit :: "('w, 'a) externals \<Rightarrow> 'w node \<Rightarrow> relocker \<times> 'w node" where
  "relocker_exit X st =
     (if nWalletUnlockTime st \<noteq> 0
      then (Finished, st\<lparr>nWalletUnlockTime := 0, wallet := Lock X (wallet st)\<rparr>)
      else (Finished, st))"

definition relocker_loop ::
  "('w, 'a) externals \<Rightarrow> int64_t \<Rightarrow> 'w node \<Rightarrow> relocker \<times> 'w node" where
  "relocker_loop X now st =
     (if nWalletUnlockTime st = 0 then relocker_exit X st
      else
        let nToSleep = nWalletUnlockTime st - now in
        if nToSleep \<le>s 0 then relocker_exit X st
        else (Sleep nToSleep, st))"

definition relocker_enter ::
  "('w, 'a) externals \<Rightarrow> int64_t \<Rightarrow> int64_t \<Rightarrow> 'w node \<Rightarrow> relocker \<times> 'w node" where
  "relocker_enter X nMyWakeTime now st =
     (if nWalletUnlockTime st = 0
      then relocker_loop X now (st\<lparr>nWalletUnlockTime := nMyWakeTime\<rparr>)
      else if nWalletUnlockTime st <s nMyWakeTime
      then (Finished, st\<lparr>nWalletUnlockTime := nMyWakeTime\<rparr>)
      else (Finished, st))"

text \<open>
  A key store to run the calls on: an encrypted wallet that is locked or not and knows
  its pass phrase. The other parameters are not used by the calls of this subsection.
\<close>

record keystore =
  crypted :: bool
  locked :: bool
  passphrase :: string

definition keystore_externals :: "(keystore, string) externals" where
  "keystore_externals =
     \<lparr>IsCrypted = crypted,
      IsLocked = locked,
      Unlock = (\<lambda>p w. if p = passphrase w then (True, w\<lparr>locked := False\<rparr>) else (False, w)),
      Lock = (\<lambda>w. w\<lparr>locked := True\<rparr>),
      mapWallet = (\<lambda>w. []),
      mapAddressBook = (\<lambda>w a. None),
      IsMine = (\<lambda>w a. {}),
      GetBalance = (\<lambda>w. 0),
      GetWatchOnlyBalance = (\<lambda>w. 0),
      CreateTransaction = (\<lambda>v t w. ((False, 0, []), w)),
      CommitTransaction = (\<lambda>t w. (False, w)),
      CBitcoinAddress = (\<lambda>s. s),
      ToString = (\<lambda>a. a),
      IsValid = (\<lambda>a. False),
      IsPair = (\<lambda>a. False),
      AmountFromValue = get_int64,
      nMinimumInputValue = 0\<rparr>"

subsection \<open>Account balances and moves between accounts\<close>

text \<open>
  Modelled from the spec: \<^verbatim>\<open>CWallet::IncOrderPosNext\<close>,
  \<^verbatim>\<open>CWalletDB::WriteAccountingEntry\<close> and \<^verbatim>\<open>CWalletDB::GetAccountCreditDebit\<close> are
  outside the sources at hand. Order positions are monotone and global: the next one is
  handed out and the counter advances. An accounting entry is stored under the key
  \<open>(account, order-pos)\<close>. The credit-debit of an account is the sum of the signed amounts
  of the accounting entries for that account (wallet accounting, balance of a specific
  account).
\<close>

definition IncOrderPosNext :: "'w node \<Rightarrow> int64_t \<times> 'w node" where
  "IncOrderPosNext st = (nOrderPosNext st, st\<lparr>nOrderPosNext := nOrderPosNext st + 1\<rparr>)"

definition WriteAccountingEntry :: "CAccountingEntry \<Rightarrow> 'w node \<Rightarrow> 'w node" where
  "WriteAccountingEntry acentry st =
     st\<lparr>acentries := AList.update (strAccount acentry, nOrderPos acentry) acentry (acentries st)\<rparr>"

definition GetAccountCreditDebit :: "'w node \<Rightarrow> string \<Rightarrow> int64_t" where
  "GetAccountCreditDebit st acc =
     sum_list (map (\<lambda>p. nCreditDebit (snd p)) (filter (\<lambda>p. fst (fst p) = acc) (acentries st)))"

text \<open>
  \<^verbatim>\<open>GetAccountBalance\<close>: the tally over the transactions of the wallet, in the order of
  \<^verbatim>\<open>mapWallet\<close>, then the accounting entries.
\<close>

definition tally_wtx :: "string \<Rightarrow> int32_t \<Rightarrow> isminefilter \<Rightarrow> 'a CWalletTx \<Rightarrow> int64_t \<Rightarrow> int64_t" where
  "tally_wtx account nMinDepth filter' wtx nBalance =
     (if \<not> IsFinal wtx then nBalance
      else
        let a = GetAccountAmounts wtx account filter';
            nBalance =
              (if acc_nReceived a \<noteq> 0 \<and> nMinDepth \<le>s GetDepthInMainChain wtx
               then nBalance + acc_nReceived a else nBalance)
        in nBalance + (acc_nGenerated a - acc_nSent a - acc_nFee a))"

definition GetAccountBalance ::
  "('w, 'a) externals \<Rightarrow> 'w node \<Rightarrow> string \<Rightarrow> int32_t \<Rightarrow> isminefilter \<Rightarrow> int64_t" where
  "GetAccountBalance X st account nMinDepth filter' =
     (let nBalance = fold (tally_wtx account nMinDepth filter') (mapWallet X (wallet st)) 0
      in nBalance + GetAccountCreditDebit st account)"

text \<open>
  \<^verbatim>\<open>movecmd\<close>. \<open>TxnBegin\<close> and \<open>TxnCommit\<close> say whether the database transaction could
  be begun and committed, \<open>nNow\<close> is \<^verbatim>\<open>GetAdjustedTime()\<close>. When the commit fails the
  entries written in the transaction are not in the database; the counter of the wallet
  has advanced all the same.
\<close>

definition movecmd_help :: string where
  "movecmd_help =
     ''move <fromaccount> <toaccount> <amount> [minconf=1] [comment]'' @ [CHR 0x0A] @
     ''Move from one account in your wallet to another.''"

definition movecmd ::
  "('w, 'a) externals \<Rightarrow> bool \<Rightarrow> bool \<Rightarrow> int64_t \<Rightarrow> json list \<Rightarrow> bool \<Rightarrow> 'w node
    \<Rightarrow> (exn + json) \<times> 'w node" where
  "movecmd X TxnBegin TxnCommit nNow params fHelp st =
     (if fHelp \<or> length params < 3 \<or> length params > 5
      then (Inl (runtime_error movecmd_help), st)
      else
        case AccountFromValue (params ! 0) of Inl e \<Rightarrow> (Inl e, st) | Inr strFrom \<Rightarrow>
        case AccountFromValue (params ! 1) of Inl e \<Rightarrow> (Inl e, st) | Inr strTo \<Rightarrow>
        case AmountFromValue X (params ! 2) of Inl e \<Rightarrow> (Inl e, st) | Inr nAmount \<Rightarrow>
        if nAmount <s nMinimumInputValue X
        then (Inl (JSONRPCError (RPC_CODE (- 101)) ''Send amount too small''), st)
        else
          case (if length params > 3 then get_int (params ! 3) else Inr 0) of
            Inl e \<Rightarrow> (Inl e, st)
          | Inr unused \<Rightarrow>
          case (if length params > 4 then get_str (params ! 4) else Inr []) of
            Inl e \<Rightarrow> (Inl e, st)
          | Inr comment \<Rightarrow>
              if \<not> TxnBegin
              then (Inl (JSONRPCError RPC_DATABASE_ERROR ''database error''), st)
              else
                let (debitPos, st1) = IncOrderPosNext st;
                    debit = \<lparr>nOrderPos = debitPos, strAccount = strFrom,
                      nCreditDebit = - nAmount, entry_nTime = nNow,
                      strOtherAccount = strTo, strComment = comment\<rparr>;
                    st2 = WriteAccountingEntry debit st1;
                    (creditPos, st3) = IncOrderPosNext st2;
                    credit = \<lparr>nOrderPos = creditPos, strAccount = strTo,
                      nCreditDebit = nAmount, entry_nTime = nNow,
                      strOtherAccount = strFrom, strComment = comment\<rparr>;
                    st4 = WriteAccountingEntry credit st3
                in
                  if \<not> TxnCommit
                  then (Inl (JSONRPCError RPC_DATABASE_ERROR ''database error''),
                        st\<lparr>nOrderPosNext := nOrderPosNext st4\<rparr>)
                  else (Inr (JBool True), st4))"

text \<open>
  The invariant of the order positions: every accounting entry of the database has a
  position below the counter, and the counter is at least four steps from overflow.
\<close>

definition order_positions_fresh :: "'w node \<Rightarrow> bool" where
  "order_positions_fresh st \<longleftrightarrow>
     list_all (\<lambda>p. snd (fst p) <s nOrderPosNext st) (acentries st)
     \<and> sint (nOrderPosNext st) < 2 ^ 63 - 4"

text \<open>
  A wallet to run the accounting on: the wallet is the list of its transactions, an
  amount is a \<open>JAmount\<close> and the smallest amount to send is 10000 units.
  \<open>credit_to account n\<close> is a final transaction, six blocks deep, that credits \<open>n\<close> to
  \<open>account\<close>.
\<close>

fun amount_of :: "json \<Rightarrow> exn + int64_t" where
  "amount_of (JAmount n) = Inr n"
| "amount_of v = Inl (JSONRPCError RPC_TYPE_ERROR ''Invalid amount'')"

definition ledger_externals :: "(string CWalletTx list, string) externals" where
  "ledger_externals =
     \<lparr>IsCrypted = (\<lambda>w. False),
      IsLocked = (\<lambda>w. False),
      Unlock = (\<lambda>p w. (False, w)),
      Lock = (\<lambda>w. w),
      mapWallet = (\<lambda>w. w),
      mapAddressBook = (\<lambda>w a. None),
      IsMine = (\<lambda>w a. {MINE_SPENDABLE}),
      GetBalance = (\<lambda>w. 0),
      GetWatchOnlyBalance = (\<lambda>w. 0),
      CreateTransaction = (\<lambda>v t w. ((False, 0, []), w)),
      CommitTransaction = (\<lambda>t w. (False, w)),
      CBitcoinAddress = (\<lambda>s. s),
      ToString = (\<lambda>a. a),
      IsValid = (\<lambda>a. a \<noteq> []),
      IsPair = (\<lambda>a. False),
      AmountFromValue = amount_of,
      nMinimumInputValue = 10000\<rparr>"

definition credit_to :: "string \<Rightarrow> int64_t \<Rightarrow> string CWalletTx" where
  "credit_to account n =
     \<lparr>GetHash = ''c0ffee'', IsFinal = True, IsCoinBase = False, IsCoinStake = False,
      GetDepthInMainChain = 6, GetBlocksToMaturity = 0, hashBlock = ''b10c'', nIndex = 1,
      blocktime = 1700000000, GetTxTime = 1700000000, nTimeReceived = 1700000000,
      mapValue = [], IsFromMe_watchonly = False,
      GetAmounts = (\<lambda>f. \<lparr>nGeneratedImmature = 0, nGeneratedMature = 0,
        listReceived = [(account, n)], listSent = [], nFee = 0, strSentAccount = []\<rparr>),
      GetAccountAmounts = (\<lambda>a f. \<lparr>acc_nGenerated = 0,
        acc_nReceived = (if a = account then n else 0), acc_nSent = 0, acc_nFee = 0\<rparr>)\<rparr>"

subsection \<open>Sending to many addresses\<close>

text \<open>\<^verbatim>\<open>HelpRequiringPassphrase\<close> and \<^verbatim>\<open>EnsureWalletIsUnlocked\<close>.\<close>

definition HelpRequiringPassphrase :: "('w, 'a) externals \<Rightarrow> 'w node \<Rightarrow> string" where
  "HelpRequiringPassphrase X st =
     (if IsCrypted X (wallet st)
      then [CHR 0x0A, CHR 0x0A] @ ''Requires wallet passphrase to be set with walletpassphrase first''
      else [])"

definition EnsureWalletIsUnlocked :: "('w, 'a) externals \<Rightarrow> 'w node \<Rightarrow> exn + unit" where
  "EnsureWalletIsUnlocked X st =
     (if IsLocked X (wallet st)
      then Inl (JSONRPCError RPC_WALLET_UNLOCK_NEEDED
             ''Error: Please enter the wallet passphrase with walletpassphrase first.'')
      else if fWalletUnlockMintOnly st
      then Inl (JSONRPCError RPC_WALLET_UNLOCK_NEEDED
             ''Error: Wallet unlocked for block minting only.'')
      else Inr ())"

text \<open>
  The loop of \<^verbatim>\<open>sendmany\<close> over the pairs of the object \<^verbatim>\<open>sendTo\<close>, with the set of
  addresses seen, the outputs collected and their total. The script of an output is
  determined by its address, which stands for it here.
\<close>

fun sendmany_loop ::
  "('w, 'a) externals \<Rightarrow> (string \<times> json) list \<Rightarrow> 'a set \<Rightarrow> ('a \<times> int64_t) list \<Rightarrow> int64_t
    \<Rightarrow> exn + (('a \<times> int64_t) list \<times> int64_t)" where
  "sendmany_loop X [] setAddress vecSend totalAmount = Inr (vecSend, totalAmount)"
| "sendmany_loop X ((name', value') # sendTo) setAddress vecSend totalAmount =
     (let address = CBitcoinAddress X name' in
      if \<not> IsValid X address
      then Inl (JSONRPCError RPC_INVALID_ADDRESS_OR_KEY (''Invalid 42 address: '' @ name'))
      else if \<not> IsPair X address \<and> address \<in> setAddress
      then Inl (JSONRPCError RPC_INVALID_PARAMETER
             (''Invalid parameter, duplicated address: '' @ name'))
      else
        let setAddress = (if \<not> IsPair X address then insert address setAddress else setAddress) in
        case AmountFromValue X value' of
          Inl e \<Rightarrow> Inl e
        | Inr nAmount \<Rightarrow>
            if nAmount <s nMinimumInputValue X
            then Inl (JSONRPCError (RPC_CODE (- 101)) ''Send amount too small'')
            else sendmany_loop X sendTo setAddress (vecSend @ [(address, nAmount)])
                   (totalAmount + nAmount))"

text \<open>The optional parameters of \<^verbatim>\<open>sendmany\<close>: \<^verbatim>\<open>minconf\<close> and the comment.\<close>

definition sendmany_minconf :: "json list \<Rightarrow> exn + int32_t" where
  "sendmany_minconf params = (if length params > 2 then get_int (params ! 2) else Inr 1)"

definition sendmany_mapValue :: "json list \<Rightarrow> exn + (string \<times> string) list" where
  "sendmany_mapValue params =
     (if length params > 3 \<and> params ! 3 \<noteq> JNull then
        case get_str (params ! 3) of
          Inl e \<Rightarrow> Inl e
        | Inr s \<Rightarrow> if s \<noteq> [] then Inr [(''comment'', s)] else Inr []
      else Inr [])"

definition sendmany_help :: string where
  "sendmany_help =
     ''sendmany <fromaccount> '' @ [CHR 0x27] @ ''{address:amount,...}'' @ [CHR 0x27]
       @ '' [minconf=1] [comment]'' @ [CHR 0x0A] @
     ''amounts are double-precision floating point numbers''"

text \<open>\<^verbatim>\<open>sendmany\<close>.\<close>

definition sendmany ::
  "('w, 'a) externals \<Rightarrow> json list \<Rightarrow> bool \<Rightarrow> 'w node \<Rightarrow> (exn + json) \<times> 'w node" where
  "sendmany X params fHelp st =
     (if fHelp \<or> length params < 2 \<or> length params > 4
      then (Inl (runtime_error (sendmany_help @ HelpRequiringPassphrase X st)), st)
      else
        case AccountFromValue (params ! 0) of Inl e \<Rightarrow> (Inl e, st) | Inr account \<Rightarrow>
        case get_obj (params ! 1) of Inl e \<Rightarrow> (Inl e, st) | Inr sendTo \<Rightarrow>
        case sendmany_minconf params of Inl e \<Rightarrow> (Inl e, st) | Inr nMinDepth \<Rightarrow>
        case sendmany_mapValue params of Inl e \<Rightarrow> (Inl e, st) | Inr mv \<Rightarrow>
        let wtx = \<lparr>strFromAccount = account, new_mapValue = mv\<rparr> in
        case sendmany_loop X sendTo {} [] 0 of
          Inl e \<Rightarrow> (Inl e, st)
        | Inr (vecSend, totalAmount) \<Rightarrow>
        case EnsureWalletIsUnlocked X st of Inl e \<Rightarrow> (Inl e, st) | Inr u \<Rightarrow>
        let nBalance = GetAccountBalance X st account nMinDepth {MINE_SPENDABLE} in
        if nBalance <s totalAmount
        then (Inl (JSONRPCError RPC_WALLET_INSUFFICIENT_FUNDS ''Account has insufficient funds''), st)
        else
          let ((fCreated, nFeeRequired, txid), w) = CreateTransaction X vecSend wtx (wallet st);
              st = st\<lparr>wallet := w\<rparr>
          in
            if \<not> fCreated then
              let nTotal = GetBalance X (wallet st);
                  nWatchOnly = GetWatchOnlyBalance X (wallet st)
              in
                if nTotal - nWatchOnly <s totalAmount + nFeeRequired
                then (Inl (JSONRPCError RPC_WALLET_INSUFFICIENT_FUNDS ''Insufficient funds''), st)
                else (Inl (JSONRPCError RPC_WALLET_ERROR ''Transaction creation failed''), st)
            else
              let (committed, w) = CommitTransaction X txid (wallet st);
                  st = st\<lparr>wallet := w\<rparr>
              in
                if \<not> committed
                then (Inl (JSONRPCError RPC_WALLET_ERROR ''Transaction commit failed''), st)
                else (Inr (JStr txid), st))"

text \<open>
  A destination object names an address twice when two of its pairs give the same
  address, and that address is valid and not a pair address.
\<close>

definition names_twice :: "('w, 'a) externals \<Rightarrow> (string \<times> json) list \<Rightarrow> bool" where
  "names_twice X sendTo \<longleftrightarrow>
     \<not> distinct (filter (\<lambda>a. IsValid X a \<and> \<not> IsPair X a) (map (\<lambda>p. CBitcoinAddress X (fst p)) sendTo))"

subsection \<open>Listing transactions since a block\<close>

text \<open>
  \<^verbatim>\<open>CBlockIndex\<close>, the fields that \<^verbatim>\<open>listsinceblock\<close> reads: the hash of the block, its
  height and the pointer to its predecessor, which is \<^verbatim>\<open>NULL\<close> for the genesis block.
\<close>

datatype CBlockIndex =
  CBlockIndex (GetBlockHash: uint256) (nHeight: int32_t) (pprev: "CBlockIndex option")

text \<open>
  The globals of the block chain that \<^verbatim>\<open>listsinceblock\<close> reads, and the code it calls
  that is outside the sources at hand: \<^verbatim>\<open>uint256::SetHex\<close>, \<^verbatim>\<open>uint256::GetHex\<close>, and
  \<^verbatim>\<open>CBlockLocator(blockId).GetBlockIndex()\<close> under the name \<open>GetBlockIndex\<close>.
\<close>

record chain =
  nBestHeight :: int32_t
  hashBestChain :: uint256
  pindexBest :: "CBlockIndex option"
  SetHex :: "string \<Rightarrow> uint256"
  GetHex :: "uint256 \<Rightarrow> string"
  GetBlockIndex :: "uint256 \<Rightarrow> CBlockIndex option"

text \<open>\<^verbatim>\<open>ValueFromAmount\<close> makes the JSON number of an amount.\<close>

definition ValueFromAmount :: "int64_t \<Rightarrow> json" where
  "ValueFromAmount amount = JAmount amount"

text \<open>\<^verbatim>\<open>WalletTxToJSON\<close> appends the pairs of a wallet transaction to an entry.\<close>

definition WalletTxToJSON :: "'a CWalletTx \<Rightarrow> (string \<times> json) list \<Rightarrow> (string \<times> json) list" where
  "WalletTxToJSON wtx entry =
     (let confirms = GetDepthInMainChain wtx in
      entry
      @ [(''confirmations'', JInt (scast confirms))]
      @ (if IsCoinBase wtx \<or> IsCoinStake wtx then [(''generated'', JBool True)] else [])
      @ (if confirms \<noteq> 0
         then [(''blockhash'', JStr (hashBlock wtx)),
               (''blockindex'', JInt (scast (nIndex wtx))),
               (''blocktime'', JInt (blocktime wtx))]
         else [])
      @ [(''txid'', JStr (GetHash wtx)),
         (''time'', JInt (GetTxTime wtx)),
         (''timereceived'', JInt (nTimeReceived wtx))]
      @ map (\<lambda>item. (fst item, JStr (snd item))) (mapValue wtx))"

definition MaybePushAddress ::
  "('w, 'a) externals \<Rightarrow> (string \<times> json) list \<Rightarrow> 'a \<Rightarrow> (string \<times> json) list" where
  "MaybePushAddress X entry dest = entry @ [(''address'', JStr (ToString X dest))]"

text \<open>
  \<^verbatim>\<open>ListTransactions\<close>: the entries that one wallet transaction adds to the array
  \<^verbatim>\<open>ret\<close>, in order: for generated coins, for the outputs sent, for the outputs received.
\<close>

definition generated_entries :: "'a CWalletTx \<Rightarrow> 'a Amounts \<Rightarrow> string \<Rightarrow> bool \<Rightarrow> json list" where
  "generated_entries wtx am strAccount' fLong =
     (let fAllAccounts = (strAccount' = ''*'') in
      if nGeneratedMature am + nGeneratedImmature am \<noteq> 0 \<and> (fAllAccounts \<or> strAccount' = [])
      then
        let entry = [(''account'', JStr [])];
            entry =
              (if nGeneratedImmature am \<noteq> 0
               then entry
                 @ [(''category'',
                      JStr (if GetDepthInMainChain wtx \<noteq> 0 then ''immature'' else ''orphan'')),
                    (''amount'', ValueFromAmount (nGeneratedImmature am))]
               else entry
                 @ [(''category'', JStr ''generate''),
                    (''amount'', ValueFromAmount (nGeneratedMature am))]);
            entry = (if fLong then WalletTxToJSON wtx entry else entry)
        in [JObj entry]
      else [])"

definition sent_entry ::
  "('w, 'a) externals \<Rightarrow> 'w \<Rightarrow> 'a CWalletTx \<Rightarrow> 'a Amounts \<Rightarrow> bool \<Rightarrow> 'a \<times> int64_t \<Rightarrow> json" where
  "sent_entry X w wtx am fLong s =
     (let involvesWatchonly = IsFromMe_watchonly wtx;
          entry = [(''account'', JStr (strSentAccount am))];
          entry =
            (if involvesWatchonly \<or> MINE_WATCH_ONLY \<in> IsMine X w (fst s)
             then entry @ [(''involvesWatchonly'', JBool True)] else entry);
          entry = MaybePushAddress X entry (fst s);
          entry =
            (if GetDepthInMainChain wtx <s 0
             then entry @ [(''category'', JStr ''conflicted'')]
             else entry @ [(''category'', JStr ''send'')]);
          entry = entry
            @ [(''amount'', ValueFromAmount (- snd s)), (''fee'', ValueFromAmount (- nFee am))];
          entry = (if fLong then WalletTxToJSON wtx entry else entry)
      in JObj entry)"

definition received_entries ::
  "('w, 'a) externals \<Rightarrow> 'w \<Rightarrow> 'a CWalletTx \<Rightarrow> string \<Rightarrow> bool \<Rightarrow> 'a \<times> int64_t \<Rightarrow> json list" where
  "received_entries X w wtx strAccount' fLong r =
     (let fAllAccounts = (strAccount' = ''*'');
          involvesWatchonly = IsFromMe_watchonly wtx;
          account = (case mapAddressBook X w (fst r) of Some a \<Rightarrow> a | None \<Rightarrow> [])
      in
        if fAllAccounts \<or> account = strAccount' then
          let entry = [(''account'', JStr account)];
              entry =
                (if involvesWatchonly \<or> MINE_WATCH_ONLY \<in> IsMine X w (fst r)
                 then entry @ [(''involvesWatchonly'', JBool True)] else entry);
              entry = MaybePushAddress X entry (fst r);
              entry =
                (if IsCoinBase wtx then
                   if GetDepthInMainChain wtx <s 1
                   then entry @ [(''category'', JStr ''orphan'')]
                   else if 0 <s GetBlocksToMaturity wtx
                   then entry @ [(''category'', JStr ''immature'')]
                   else entry @ [(''category'', JStr ''generate'')]
                 else entry @ [(''category'', JStr ''receive'')]);
              entry = entry @ [(''amount'', ValueFromAmount (snd r))];
              entry = (if fLong then WalletTxToJSON wtx entry else entry)
          in [JObj entry]
        else [])"

definition ListTransactions ::
  "('w, 'a) externals \<Rightarrow> 'w \<Rightarrow> 'a CWalletTx \<Rightarrow> string \<Rightarrow> int32_t \<Rightarrow> bool \<Rightarrow> isminefilter
    \<Rightarrow> json list" where
  "ListTransactions X w wtx strAccount' nMinDepth fLong filter' =
     (let am = GetAmounts wtx filter';
          fAllAccounts = (strAccount' = ''*'')
      in
        generated_entries wtx am strAccount' fLong
        @ (if (listSent am \<noteq> [] \<or> nFee am \<noteq> 0) \<and> (fAllAccounts \<or> strAccount' = strSentAccount am)
           then map (sent_entry X w wtx am fLong) (listSent am)
           else [])
        @ (if length (listReceived am) > 0 \<and> nMinDepth \<le>s GetDepthInMainChain wtx
           then concat (map (received_entries X w wtx strAccount' fLong) (listReceived am))
           else []))"

text \<open>
  The loop of \<^verbatim>\<open>listsinceblock\<close> that goes back from the best block to the first block
  whose height is not above \<^verbatim>\<open>target_height\<close>.
\<close>

fun walk_back :: "int32_t \<Rightarrow> CBlockIndex option \<Rightarrow> CBlockIndex option" where
  "walk_back target_height None = None"
| "walk_back target_height (Some (CBlockIndex h n p)) =
     (if target_height <s n then walk_back target_height p else Some (CBlockIndex h n p))"

text \<open>The parameters of \<^verbatim>\<open>listsinceblock\<close>, each with its default.\<close>

definition listsinceblock_pindex :: "chain \<Rightarrow> json list \<Rightarrow> exn + CBlockIndex option" where
  "listsinceblock_pindex C params =
     (if length params > 0 then
        case get_str (params ! 0) of
          Inl e \<Rightarrow> Inl e
        | Inr s \<Rightarrow> Inr (GetBlockIndex C (SetHex C s))
      else Inr None)"

definition listsinceblock_confirms :: "json list \<Rightarrow> exn + int32_t" where
  "listsinceblock_confirms params =
     (if length params > 1 then
        case get_int (params ! 1) of
          Inl e \<Rightarrow> Inl e
        | Inr target_confirms \<Rightarrow>
            if target_confirms <s 1
            then Inl (JSONRPCError RPC_INVALID_PARAMETER ''Invalid parameter'')
            else Inr target_confirms
      else Inr 1)"

definition listsinceblock_filter :: "json list \<Rightarrow> exn + isminefilter" where
  "listsinceblock_filter params =
     (if length params > 2 then
        case get_bool (params ! 2) of
          Inl e \<Rightarrow> Inl e
        | Inr b \<Rightarrow> Inr (if b then {MINE_SPENDABLE, MINE_WATCH_ONLY} else {MINE_SPENDABLE})
      else Inr {MINE_SPENDABLE})"

definition listsinceblock_help :: string where
  "listsinceblock_help =
     ''listsinceblock [blockhash] [target-confirmations]'' @ [CHR 0x0A] @
     ''Get all transactions in blocks since block [blockhash], or all transactions if omitted''"

text \<open>
  \<^verbatim>\<open>listsinceblock\<close>. The wallet and the chain are only read. \<^verbatim>\<open>pindexBest\<close> is read
  without a check when \<^verbatim>\<open>target_confirms\<close> is not 1: where it is \<^verbatim>\<open>NULL\<close> the call does not
  return, which is the value \<open>None\<close>.
\<close>

definition listsinceblock ::
  "('w, 'a) externals \<Rightarrow> chain \<Rightarrow> json list \<Rightarrow> bool \<Rightarrow> 'w node \<Rightarrow> (exn + json) option" where
  "listsinceblock X C params fHelp st =
     (if fHelp then Some (Inl (runtime_error listsinceblock_help))
      else
        case listsinceblock_pindex C params of Inl e \<Rightarrow> Some (Inl e) | Inr pindex \<Rightarrow>
        case listsinceblock_confirms params of Inl e \<Rightarrow> Some (Inl e) | Inr target_confirms \<Rightarrow>
        case listsinceblock_filter params of Inl e \<Rightarrow> Some (Inl e) | Inr filter' \<Rightarrow>
        let depth = (case pindex of Some b \<Rightarrow> 1 + nBestHeight C - nHeight b | None \<Rightarrow> - 1);
            transactions =
              concat (map (\<lambda>tx.
                  if depth = - 1 \<or> GetDepthInMainChain tx <s depth
                  then ListTransactions X (wallet st) tx ''*'' 0 True filter'
                  else [])
                (mapWallet X (wallet st)));
            ret = (\<lambda>lastblock.
              JObj [(''transactions'', JArr transactions), (''lastblock'', JStr (GetHex C lastblock))])
        in
          if target_confirms = 1 then Some (Inr (ret (hashBestChain C)))
          else
            case pindexBest C of
              None \<Rightarrow> None
            | Some best \<Rightarrow>
                let target_height = nHeight best + 1 - target_confirms in
                case walk_back target_height (Some best) of
                  Some block \<Rightarrow> Some (Inr (ret (GetBlockHash block)))
                | None \<Rightarrow> Some (Inr (ret 0)))"

text \<open>
  The main chain is the list of blocks from the best block back to the genesis block.
  It is consistent when the heights go down by one to the height 0 of the genesis
  block, and the globals \<^verbatim>\<open>nBestHeight\<close> and \<^verbatim>\<open>hashBestChain\<close> are those of the best block.
\<close>

fun ancestors :: "CBlockIndex option \<Rightarrow> CBlockIndex list" where
  "ancestors None = []"
| "ancestors (Some (CBlockIndex h n p)) = CBlockIndex h n p # ancestors p"

fun well_linked :: "CBlockIndex \<Rightarrow> bool" where
  "well_linked (CBlockIndex h n None) \<longleftrightarrow> n = 0"
| "well_linked (CBlockIndex h n (Some b)) \<longleftrightarrow> sint n = sint (nHeight b) + 1 \<and> well_linked b"

definition main_chain :: "chain \<Rightarrow> CBlockIndex list" where
  "main_chain C = ancestors (pindexBest C)"

definition consistent :: "chain \<Rightarrow> bool" where
  "consistent C \<longleftrightarrow>
     (case pindexBest C of
        None \<Rightarrow> False
      | Some best \<Rightarrow>
          well_linked best \<and> nBestHeight C = nHeight best \<and> hashBestChain C = GetBlockHash best)"

text \<open>
  A chain of three blocks for the examples, with the hashes \<^verbatim>\<open>a0\<close>, \<^verbatim>\<open>a1\<close> and \<^verbatim>\<open>a2\<close>
  written with two digits, and \<open>receipt\<close>, a wallet transaction at a given depth that
  receives an amount at the address \<^verbatim>\<open>addr1\<close>.
\<close>

definition block0 :: CBlockIndex where
  "block0 = CBlockIndex 0xa0 0 None"

definition block1 :: CBlockIndex where
  "block1 = CBlockIndex 0xa1 1 (Some block0)"

definition block2 :: CBlockIndex where
  "block2 = CBlockIndex 0xa2 2 (Some block1)"

definition hex_names :: "(string \<times> uint256) list" where
  "hex_names = [(''00'', 0), (''a0'', 0xa0), (''a1'', 0xa1), (''a2'', 0xa2)]"

definition three_blocks :: chain where
  "three_blocks =
     \<lparr>nBestHeight = 2, hashBestChain = 0xa2, pindexBest = Some block2,
      SetHex = (\<lambda>s. case map_of hex_names s of Some h \<Rightarrow> h | None \<Rightarrow> 0),
      GetHex = (\<lambda>h. case find (\<lambda>p. snd p = h) hex_names of Some p \<Rightarrow> fst p | None \<Rightarrow> ''00''),
      GetBlockIndex = (\<lambda>h. find (\<lambda>b. GetBlockHash b = h) [block2, block1, block0])\<rparr>"

definition receipt :: "string \<Rightarrow> int32_t \<Rightarrow> int64_t \<Rightarrow> string CWalletTx" where
  "receipt txid depth n =
     \<lparr>GetHash = txid, IsFinal = True, IsCoinBase = False, IsCoinStake = False,
      GetDepthInMainChain = depth, GetBlocksToMaturity = 0, hashBlock = ''b10c'', nIndex = 1,
      blocktime = 1700000000, GetTxTime = 1700000000, nTimeReceived = 1700000000,
      mapValue = [], IsFromMe_watchonly = False,
      GetAmounts = (\<lambda>f. \<lparr>nGeneratedImmature = 0, nGeneratedMature = 0,
        listReceived = [(''addr1'', n)], listSent = [], nFee = 0, strSentAccount = []\<rparr>),
      GetAccountAmounts = (\<lambda>a f. \<lparr>acc_nGenerated = 0,
        acc_nReceived = (if a = [] then n else 0), acc_nSent = 0, acc_nFee = 0\<rparr>)\<rparr>"

subsection \<open>The states that a wallet reaches\<close>

text \<open>
  A wallet is created with an empty database and the counter of order positions at 0.
  Every call of this file takes it to a next state, and so does the wallet code outside
  the sources at hand, which changes the wallet and its transactions and, modelled from
  the spec (order positions are monotone and global), gives a transaction that it adds
  the next order position. \<open>reachable_in X n st\<close> says that \<open>st\<close> is reached from a new
  wallet in \<open>n\<close> such steps.
\<close>

inductive reachable_in :: "('w, 'a) externals \<Rightarrow> nat \<Rightarrow> 'w node \<Rightarrow> bool" for X where
  created: "acentries st = [] \<Longrightarrow> nOrderPosNext st = 0 \<Longrightarrow> reachable_in X 0 st"
| moved: "reachable_in X n st \<Longrightarrow>
    movecmd X TxnBegin TxnCommit nNow params fHelp st = (r, st') \<Longrightarrow>
    reachable_in X (Suc n) st'"
| sent: "reachable_in X n st \<Longrightarrow>
    sendmany X params fHelp st = (r, st') \<Longrightarrow>
    reachable_in X (Suc n) st'"
| unlocked: "reachable_in X n st \<Longrightarrow>
    walletpassphrase X params fHelp st = (r, st') \<Longrightarrow>
    reachable_in X (Suc n) st'"
| locked: "reachable_in X n st \<Longrightarrow>
    walletlock X params fHelp st = (r, st') \<Longrightarrow>
    reachable_in X (Suc n) st'"
| relocker_entered: "reachable_in X n st \<Longrightarrow>
    relocker_enter X nMyWakeTime now st = (k, st') \<Longrightarrow>
    reachable_in X (Suc n) st'"
| relocker_woken: "reachable_in X n st \<Longrightarrow>
    relocker_loop X now st = (k, st') \<Longrightarrow>
    reachable_in X (Suc n) st'"
| wallet_changed: "reachable_in X n st \<Longrightarrow>
    reachable_in X (Suc n) (st\<lparr>wallet := w\<rparr>)"
| transaction_added: "reachable_in X n st \<Longrightarrow>
    reachable_in X (Suc n) (st\<lparr>wallet := w, nOrderPosNext := nOrderPosNext st + 1\<rparr>)"

section \<open>Word arithmetic without overflow\<close>

lemma sint_sub64: "in_int64 (sint a - sint b) \<Longrightarrow> sint (a - b :: 64 word) = sint a - sint b"
  by (simp add: sint_word_ariths in_int64_def signed_take_bit_int_eq_self)

lemma sint_add64: "in_int64 (sint a + sint b) \<Longrightarrow> sint (a + b :: 64 word) = sint a + sint b"
  by (simp add: sint_word_ariths in_int64_def signed_take_bit_int_eq_self)

lemma sint_mult64: "in_int64 (sint a * sint b) \<Longrightarrow> sint (a * b :: 64 word) = sint a * sint b"
  by (simp add: sint_word_ariths in_int64_def signed_take_bit_int_eq_self)

lemma uint32_bounds: "0 \<le> uint (w :: 32 word)" "uint (w :: 32 word) < 4294967296"
  using uint_lt2p [of w] by simp_all

lemma sint_ucast32: "sint (ucast (w :: 32 word) :: 64 word) = uint w"
proof -
  have b: "- (2 ^ 63) \<le> uint w" "uint w < 2 ^ 63"
    by (rule order_trans [OF _ uint32_bounds(1)], simp)
      (rule less_trans [OF uint32_bounds(2)], simp)
  have "sint (ucast w :: 64 word) = signed_take_bit 63 (uint w)"
    by (simp add: signed_ucast_eq)
  also have "\<dots> = uint w"
    using b by (rule signed_take_bit_int_eq_self)
  finally show ?thesis .
qed

lemma sint_min_int64: "sint (min_int64 a b) = min (sint a) (sint b)"
  by (simp add: min_int64_def word_sless_alt min_def)

lemma sint_COIN_day: "sint (COIN * nOneDay) = 8640000000000"
  by (simp add: COIN_def nOneDay_def)

lemma sdiv_nonneg: "0 \<le> a \<Longrightarrow> 0 < b \<Longrightarrow> (a :: int) sdiv b = a div b"
  by (simp add: signed_divide_int_def sgn_if)

lemma getCoinDay_weight:
  assumes sw: "sint (now - nTime r - ucast (nStakeMinAge P)) = w"
    and v: "0 \<le> sint (nValue r)"
    and m: "in_int64 (sint (nValue r) * min (max w 0) (uint (nStakeMaxAge P)))"
  shows "getCoinDay P now r =
    (if w < 0 then 0
     else word_of_int ((sint (nValue r) * min w (uint (nStakeMaxAge P))) div 8640000000000))"
proof (cases "w < 0")
  case True
  then show ?thesis
    by (simp add: getCoinDay_def Let_def word_sless_alt sw)
next
  case False
  let ?w = "now - nTime r - ucast (nStakeMinAge P) :: 64 word"
  let ?c = "min w (uint (nStakeMaxAge P))"
  have c: "sint (min_int64 ?w (ucast (nStakeMaxAge P))) = ?c"
    by (simp add: sint_min_int64 sw sint_ucast32)
  have c0: "0 \<le> ?c" "?c \<le> uint (nStakeMaxAge P)"
    using False by simp_all
  have nn: "0 \<le> sint (nValue r) * ?c"
    using v c0 by simp
  from False have "max w 0 = w" by simp
  with m have r: "in_int64 (sint (nValue r) * ?c)"
    by simp
  have p: "sint (nValue r * min_int64 ?w (ucast (nStakeMaxAge P))) = sint (nValue r) * ?c"
    using r by (simp add: sint_mult64 c)
  show ?thesis
    using False nn
    by (simp add: getCoinDay_def Let_def word_sless_alt sw sdiv64_def p sint_COIN_day sdiv_nonneg)
qed

lemma sint_coin_weight:
  assumes "in_int64 (sint now - sint (nTime r))" "in_int64 (coin_weight P now r)"
  shows "sint (now - nTime r - ucast (nStakeMinAge P)) = coin_weight P now r"
  using assms by (simp add: sint_sub64 sint_ucast32 coin_weight_def)

lemma getCoinDay_int:
  assumes "coin_day_exact P now r"
  shows "getCoinDay P now r =
    (if coin_weight P now r < 0 then 0
     else word_of_int ((sint (nValue r) * min (coin_weight P now r) (uint (nStakeMaxAge P)))
            div 8640000000000))"
  using assms by (intro getCoinDay_weight sint_coin_weight) (simp_all add: coin_day_exact_def)

lemma uint_word_of_int64: "0 \<le> k \<Longrightarrow> k < 2 ^ 63 \<Longrightarrow> uint (word_of_int k :: 64 word) = k"
  by (simp add: uint_word_of_int_eq take_bit_int_eq_self)

lemma coin_quotient_bounds:
  assumes "0 \<le> (v :: int)" "0 \<le> c" "c \<le> m" "in_int64 (v * m)"
  shows "0 \<le> v * c div 8640000000000" "v * c div 8640000000000 < 2 ^ 63"
proof -
  have nn: "0 \<le> v * c" using assms by simp
  then show "0 \<le> v * c div 8640000000000" by simp
  have "v * c \<le> v * m" using assms by (intro mult_left_mono) simp_all
  moreover have "v * c div 8640000000000 \<le> v * c div 1"
    using nn by (intro zdiv_mono2) simp_all
  ultimately show "v * c div 8640000000000 < 2 ^ 63"
    using assms(4) by (simp add: in_int64_def)
qed

lemma uint_getCoinDay:
  assumes "coin_day_exact P now r"
  shows "uint (getCoinDay P now r) =
     (sint (nValue r) * min (max (coin_weight P now r) 0) (uint (nStakeMaxAge P)))
       div 8640000000000"
proof (cases "coin_weight P now r < 0")
  case True
  then have "max (coin_weight P now r) 0 = 0" by simp
  then show ?thesis
    using True uint32_bounds(1) [of "nStakeMaxAge P"]
    by (simp add: getCoinDay_int [OF assms])
next
  case False
  then have mx: "max (coin_weight P now r) 0 = coin_weight P now r" by simp
  let ?c = "min (coin_weight P now r) (uint (nStakeMaxAge P))"
  have c0: "0 \<le> ?c" "?c \<le> uint (nStakeMaxAge P)"
    using False by simp_all
  from assms have v: "0 \<le> sint (nValue r)"
    and m: "in_int64 (sint (nValue r) * ?c)"
    by (simp_all add: coin_day_exact_def mx)
  note coin_quotient_bounds [OF v c0(1) order_refl m]
  then show ?thesis
    using False by (simp add: getCoinDay_int [OF assms] mx uint_word_of_int64)
qed

lemma in_int64I: "0 \<le> k \<Longrightarrow> k < 2 ^ 63 \<Longrightarrow> in_int64 k"
  by (simp add: in_int64_def)

lemma sint_word_of_int64: "in_int64 k \<Longrightarrow> sint (word_of_int k :: 64 word) = k"
  by (simp add: sint_sbintrunc' in_int64_def signed_take_bit_int_eq_self)

lemma scenario_weight:
  assumes "uint (nStakeMinAge P) \<le> k" "k \<le> 4294967296"
    and "nTime r = now - ucast (nStakeMaxAge P) - word_of_int k"
  shows "sint (now - nTime r - ucast (nStakeMinAge P)) = uint (nStakeMaxAge P) + k - uint (nStakeMinAge P)"
proof -
  define a where "a = uint (nStakeMinAge P)"
  define b where "b = uint (nStakeMaxAge P)"
  have ab: "0 \<le> a" "a < 4294967296" "0 \<le> b" "b < 4294967296"
    by (simp_all add: a_def b_def uint32_bounds)
  have ak: "a \<le> k" using assms(1) by (simp add: a_def)
  have k: "sint (word_of_int k :: 64 word) = k"
    using ab ak assms(2) by (intro sint_word_of_int64 in_int64I) simp_all
  have e: "now - nTime r - ucast (nStakeMinAge P)
      = ucast (nStakeMaxAge P) + word_of_int k - ucast (nStakeMinAge P)"
    by (simp add: assms(3))
  have "in_int64 (b + k)"
    using ab ak assms(2) by (intro in_int64I) simp_all
  then have s: "sint (ucast (nStakeMaxAge P) + word_of_int k :: 64 word) = b + k"
    by (simp add: sint_add64 sint_ucast32 k b_def)
  have "in_int64 (b + k - a)"
    using ab ak assms(2) by (intro in_int64I) simp_all
  then have "sint (ucast (nStakeMaxAge P) + word_of_int k - ucast (nStakeMinAge P) :: 64 word)
      = b + k - a"
    by (simp add: sint_sub64 s sint_ucast32 a_def)
  then show ?thesis
    by (simp add: e a_def b_def)
qed

lemma scenario_coin_day:
  assumes "uint (nStakeMinAge P) \<le> k" "k \<le> 4294967296"
    and "nTime r = now - ucast (nStakeMaxAge P) - word_of_int k"
    and "nValue r = 100 * COIN"
    and "10000000000 * uint (nStakeMaxAge P) < 2 ^ 63"
  shows "getCoinDay P now r = word_of_int (100 * uint (nStakeMaxAge P) div 86400)"
proof -
  define b where "b = uint (nStakeMaxAge P)"
  have b0: "0 \<le> b" by (simp add: b_def)
  have v: "sint (nValue r) = 10000000000"
    by (simp add: assms(4) COIN_def)
  have "in_int64 (10000000000 * b)"
    using b0 assms(5) unfolding b_def by (intro in_int64I) simp_all
  then have m: "in_int64 (sint (nValue r) * uint (nStakeMaxAge P))"
    by (simp add: v b_def)
  have d: "10000000000 * b div 8640000000000 = 100 * b div 86400"
    using div_mult_mult1 [of "100000000 :: int" "100 * b" 86400] by simp
  define a where "a = uint (nStakeMinAge P)"
  have ak: "a \<le> k" using assms(1) by (simp add: a_def)
  have w: "\<not> b + k - a < 0" "min (b + k - a) b = b"
    using ak b0 by simp_all
  have mm: "min (max (b + k - a) 0) b = b"
    using ak b0 by simp
  have m': "in_int64 (sint (nValue r) * min (max (b + k - a) 0) b)"
    unfolding mm using m by (simp add: b_def)
  have "getCoinDay P now r =
      (if b + k - a < 0 then 0 else word_of_int (10000000000 * min (b + k - a) b div 8640000000000))"
    using getCoinDay_weight [OF scenario_weight [OF assms(1,2,3)] _ m' [unfolded a_def b_def]]
    by (simp add: v a_def b_def)
  then have "getCoinDay P now r = word_of_int (10000000000 * b div 8640000000000)"
    by (simp only: w if_False)
  then show ?thesis
    unfolding d unfolding b_def .
qed

lemma uint_scenario_quotient:
  assumes "10000000000 * uint (w :: 32 word) < 2 ^ 63"
  shows "uint (word_of_int (100 * uint w div 86400) :: 64 word) = 100 * uint w div 86400"
proof -
  define b where "b = uint w"
  have b0: "0 \<le> b" by (simp add: b_def)
  have "0 \<le> 100 * b div 86400"
    using b0 by (simp add: pos_imp_zdiv_nonneg_iff)
  moreover have "100 * b div 86400 \<le> 100 * b div 1"
    using b0 by (intro zdiv_mono2) simp_all
  then have "100 * b div 86400 < 2 ^ 63"
    using assms b0 unfolding b_def [symmetric] by simp
  ultimately show ?thesis
    unfolding b_def [symmetric] by (rule uint_word_of_int64)
qed

lemma clamp_mono: "(w :: int) \<le> w' \<Longrightarrow> min (max w 0) m \<le> min (max w' 0) m"
  by simp






section \<open>Coin-age of a kernel record\<close>

text \<open>
  Claim C1, as amended. When the value is non-negative and nothing overflows,
  \<^verbatim>\<open>getCoinDay\<close> returns \<open>nValue * clamped-weight / (COIN * ONE_DAY)\<close> where
  \<open>clamped-weight = min (max (now - nTime - stakeMinAge) 0) stakeMaxAge\<close>: the weight is
  cut off at \<open>stakeMaxAge\<close> itself, not at \<open>stakeMaxAge - stakeMinAge\<close>. In particular,
  when \<open>stakeMinAge\<close> is at most ten days (and \<open>100 * COIN * stakeMaxAge\<close> fits
  \<^verbatim>\<open>int64_t\<close>), a record of value \<open>100 * COIN\<close> created at
  \<open>now - stakeMaxAge - 10 * ONE_DAY\<close> has coin-age \<open>100 * stakeMaxAge / ONE_DAY\<close>, and
  the coin-age is the same ten days later.
\<close>

theorem getCoinDay_clamped_weight:
  "(coin_day_exact P now r \<longrightarrow>
      uint (getCoinDay P now r) =
        (sint (nValue r) * min (max (coin_weight P now r) 0) (uint (nStakeMaxAge P)))
          div (100000000 * 86400))
   \<and> (uint (nStakeMinAge P) \<le> 10 * 86400 \<longrightarrow>
        10000000000 * uint (nStakeMaxAge P) < 2 ^ 63 \<longrightarrow>
        nValue r = 100 * COIN \<longrightarrow>
        nTime r = now - ucast (nStakeMaxAge P) - 10 * nOneDay \<longrightarrow>
          uint (getCoinDay P now r) = 100 * uint (nStakeMaxAge P) div 86400 \<and>
          getCoinDay P (now + 10 * nOneDay) r = getCoinDay P now r)"
proof (intro conjI impI)
  assume "coin_day_exact P now r"
  then show "uint (getCoinDay P now r) =
        (sint (nValue r) * min (max (coin_weight P now r) 0) (uint (nStakeMaxAge P)))
          div (100000000 * 86400)"
    by (simp add: uint_getCoinDay)
next
  assume a: "uint (nStakeMinAge P) \<le> 10 * 86400"
    and b: "10000000000 * uint (nStakeMaxAge P) < 2 ^ 63"
    and v: "nValue r = 100 * COIN"
    and t: "nTime r = now - ucast (nStakeMaxAge P) - 10 * nOneDay"
  have t1: "nTime r = now - ucast (nStakeMaxAge P) - word_of_int 864000"
    by (simp add: t nOneDay_def)
  have t2: "nTime r = (now + 10 * nOneDay) - ucast (nStakeMaxAge P) - word_of_int 1728000"
    by (simp add: t nOneDay_def)
  have c1: "getCoinDay P now r = word_of_int (100 * uint (nStakeMaxAge P) div 86400)"
    using a by (intro scenario_coin_day [OF _ _ t1 v b]) simp_all
  have c2: "getCoinDay P (now + 10 * nOneDay) r
      = word_of_int (100 * uint (nStakeMaxAge P) div 86400)"
    using a by (intro scenario_coin_day [OF _ _ t2 v b]) simp_all
  show "uint (getCoinDay P now r) = 100 * uint (nStakeMaxAge P) div 86400"
    unfolding c1 using b by (rule uint_scenario_quotient)
  show "getCoinDay P (now + 10 * nOneDay) r = getCoinDay P now r"
    by (simp add: c1 c2)
qed

text \<open>
  The theorem at a minimum age of one day and a maximum age of ninety days: the record
  of the scenario, a hundred days old, has coin-age 9000, now and ten days later.
\<close>

theorem getCoinDay_clamped_weight_witness:
  "coin_day_exact \<lparr>nStakeMinAge = 86400, nStakeMaxAge = 7776000\<rparr> 1700000000
     \<lparr>hash = 0, nTime = 1691360000, address = [], nValue = 10000000000, idx = 0,
      spent = False\<rparr>
   \<and> uint (getCoinDay \<lparr>nStakeMinAge = 86400, nStakeMaxAge = 7776000\<rparr> 1700000000
       \<lparr>hash = 0, nTime = 1691360000, address = [], nValue = 10000000000, idx = 0,
        spent = False\<rparr>) = 9000
   \<and> getCoinDay \<lparr>nStakeMinAge = 86400, nStakeMaxAge = 7776000\<rparr> (1700000000 + 10 * nOneDay)
       \<lparr>hash = 0, nTime = 1691360000, address = [], nValue = 10000000000, idx = 0,
        spent = False\<rparr>
     = getCoinDay \<lparr>nStakeMinAge = 86400, nStakeMaxAge = 7776000\<rparr> 1700000000
       \<lparr>hash = 0, nTime = 1691360000, address = [], nValue = 10000000000, idx = 0,
        spent = False\<rparr>"
  using getCoinDay_clamped_weight [of "\<lparr>nStakeMinAge = 86400, nStakeMaxAge = 7776000\<rparr>"
      1700000000
      "\<lparr>hash = 0, nTime = 1691360000, address = [], nValue = 10000000000, idx = 0,
        spent = False\<rparr>"]
  by (simp add: coin_day_exact_def coin_weight_def in_int64_def COIN_def nOneDay_def)

text \<open>
  Claim C1 as stated fails. With a minimum age of 30 days and a maximum age of 90 days, a
  record of value \<open>100 * COIN\<close> that is 95 days old has weight \<open>min (65 days) (90 days)\<close>
  in the code, hence coin-age 6500; the formula of the claim cuts the weight off at
  \<open>90 - 30 = 60\<close> days and gives 6000.
\<close>

theorem getCoinDay_clamp_counterexample:
  "uint (getCoinDay \<lparr>nStakeMinAge = 2592000, nStakeMaxAge = 7776000\<rparr> 1700000000
       \<lparr>hash = 0, nTime = 1691792000, address = [], nValue = 10000000000, idx = 0,
        spent = False\<rparr>) = 6500
   \<and> spec_coinAge 2592000 7776000 1700000000 1691792000 10000000000 = 6000"
  by (simp add: getCoinDay_def min_int64_def sdiv64_def COIN_def nOneDay_def word_sless_alt
      spec_coinAge_def)

text \<open>
  Claim C2, as amended. For a fixed non-negative value and a fixed adjusted time, and as
  long as nothing overflows, \<^verbatim>\<open>getCoinDay\<close> is non-increasing in the record's \<open>nTime\<close>;
  it is zero whenever \<open>now - nTime < stakeMinAge\<close>; and it is constant, equal to
  \<open>nValue * stakeMaxAge / (COIN * ONE_DAY)\<close>, whenever
  \<open>now - nTime \<ge> stakeMinAge + stakeMaxAge\<close>.
\<close>

theorem getCoinDay_nonincreasing:
  "(coin_day_exact P now r \<longrightarrow> coin_day_exact P now r' \<longrightarrow> nValue r' = nValue r \<longrightarrow>
      sint (nTime r) \<le> sint (nTime r') \<longrightarrow> getCoinDay P now r' \<le> getCoinDay P now r)
   \<and> (in_int64 (sint now - sint (nTime r)) \<longrightarrow> in_int64 (coin_weight P now r) \<longrightarrow>
        sint now - sint (nTime r) < uint (nStakeMinAge P) \<longrightarrow> getCoinDay P now r = 0)
   \<and> (coin_day_exact P now r \<longrightarrow>
        uint (nStakeMinAge P) + uint (nStakeMaxAge P) \<le> sint now - sint (nTime r) \<longrightarrow>
        uint (getCoinDay P now r) =
          sint (nValue r) * uint (nStakeMaxAge P) div (100000000 * 86400))"
proof (intro conjI impI)
  assume e: "coin_day_exact P now r" and e': "coin_day_exact P now r'"
    and v: "nValue r' = nValue r" and t: "sint (nTime r) \<le> sint (nTime r')"
  have w: "coin_weight P now r' \<le> coin_weight P now r"
    using t by (simp add: coin_weight_def)
  have v0: "0 \<le> sint (nValue r)"
    using e by (simp add: coin_day_exact_def)
  have "sint (nValue r) * min (max (coin_weight P now r') 0) (uint (nStakeMaxAge P))
      \<le> sint (nValue r) * min (max (coin_weight P now r) 0) (uint (nStakeMaxAge P))"
    using v0 clamp_mono [OF w] by (rule mult_left_mono [rotated])
  then have "uint (getCoinDay P now r') \<le> uint (getCoinDay P now r)"
    unfolding uint_getCoinDay [OF e] uint_getCoinDay [OF e'] v
    by (intro zdiv_mono1) simp_all
  then show "getCoinDay P now r' \<le> getCoinDay P now r"
    by (simp add: word_le_def)
next
  assume a: "in_int64 (sint now - sint (nTime r))" and w: "in_int64 (coin_weight P now r)"
    and l: "sint now - sint (nTime r) < uint (nStakeMinAge P)"
  have "coin_weight P now r < 0"
    using l by (simp add: coin_weight_def)
  then show "getCoinDay P now r = 0"
    by (simp add: getCoinDay_def Let_def word_sless_alt sint_coin_weight [OF a w])
next
  assume e: "coin_day_exact P now r"
    and l: "uint (nStakeMinAge P) + uint (nStakeMaxAge P) \<le> sint now - sint (nTime r)"
  define b where "b = uint (nStakeMaxAge P)"
  have b0: "0 \<le> b" by (simp add: b_def)
  have "b \<le> coin_weight P now r"
    using l by (simp add: coin_weight_def b_def)
  with b0 have "min (max (coin_weight P now r) 0) b = b"
    by simp
  then show "uint (getCoinDay P now r) =
      sint (nValue r) * uint (nStakeMaxAge P) div (100000000 * 86400)"
    by (simp add: uint_getCoinDay [OF e] b_def)
qed

text \<open>
  The theorem at a minimum age of 30 days and a maximum age of 90 days, for a record
  200 days old (coin-age 9000) and one created a million seconds ago (coin-age 0).
\<close>

theorem getCoinDay_nonincreasing_witness:
  "getCoinDay \<lparr>nStakeMinAge = 2592000, nStakeMaxAge = 7776000\<rparr> 1700000000
       \<lparr>hash = 0, nTime = 1699000000, address = [], nValue = 10000000000, idx = 0,
        spent = False\<rparr>
     \<le> getCoinDay \<lparr>nStakeMinAge = 2592000, nStakeMaxAge = 7776000\<rparr> 1700000000
       \<lparr>hash = 0, nTime = 1682720000, address = [], nValue = 10000000000, idx = 0,
        spent = False\<rparr>
   \<and> getCoinDay \<lparr>nStakeMinAge = 2592000, nStakeMaxAge = 7776000\<rparr> 1700000000
       \<lparr>hash = 0, nTime = 1699000000, address = [], nValue = 10000000000, idx = 0,
        spent = False\<rparr> = 0
   \<and> uint (getCoinDay \<lparr>nStakeMinAge = 2592000, nStakeMaxAge = 7776000\<rparr> 1700000000
       \<lparr>hash = 0, nTime = 1682720000, address = [], nValue = 10000000000, idx = 0,
        spent = False\<rparr>) = 9000"
  using getCoinDay_nonincreasing [of "\<lparr>nStakeMinAge = 2592000, nStakeMaxAge = 7776000\<rparr>"
      1700000000
      "\<lparr>hash = 0, nTime = 1682720000, address = [], nValue = 10000000000, idx = 0,
        spent = False\<rparr>"
      "\<lparr>hash = 0, nTime = 1699000000, address = [], nValue = 10000000000, idx = 0,
        spent = False\<rparr>"]
    getCoinDay_nonincreasing [of "\<lparr>nStakeMinAge = 2592000, nStakeMaxAge = 7776000\<rparr>"
      1700000000
      "\<lparr>hash = 0, nTime = 1699000000, address = [], nValue = 10000000000, idx = 0,
        spent = False\<rparr>"]
  by (simp add: coin_day_exact_def coin_weight_def in_int64_def)

text \<open>
  Claim C2 as stated fails in its last part. With a minimum age of 30 days and a maximum
  age of 90 days, two records of value \<open>100 * COIN\<close> that are 91 and 92 days old are both
  older than \<open>stakeMaxAge\<close>, and their coin-ages differ: 6100 and 6200.
\<close>

theorem getCoinDay_constant_counterexample:
  "uint (nStakeMaxAge \<lparr>nStakeMinAge = 2592000, nStakeMaxAge = 7776000\<rparr>)
     < sint (1700000000 :: int64_t) - sint (1692137600 :: int64_t)
   \<and> uint (nStakeMaxAge \<lparr>nStakeMinAge = 2592000, nStakeMaxAge = 7776000\<rparr>)
     < sint (1700000000 :: int64_t) - sint (1692051200 :: int64_t)
   \<and> getCoinDay \<lparr>nStakeMinAge = 2592000, nStakeMaxAge = 7776000\<rparr> 1700000000
       \<lparr>hash = 0, nTime = 1692137600, address = [], nValue = 10000000000, idx = 0,
        spent = False\<rparr> = 6100
   \<and> getCoinDay \<lparr>nStakeMinAge = 2592000, nStakeMaxAge = 7776000\<rparr> 1700000000
       \<lparr>hash = 0, nTime = 1692051200, address = [], nValue = 10000000000, idx = 0,
        spent = False\<rparr> = 6200"
  by (simp add: getCoinDay_def min_int64_def sdiv64_def COIN_def nOneDay_def word_sless_alt)

section \<open>Expected proof-of-stake reward of a kernel record\<close>




section \<open>The scan for an external address\<close>

lemma next_rnd_8: "(next_rnd ^^ 8) rnd = - 1"
proof -
  have "NOT ((next_rnd ^^ n) rnd) = drop_bit (8 * n) (NOT rnd)" for n
    by (induction n) (simp_all add: NOT_next_rnd ac_simps)
  then have "NOT ((next_rnd ^^ 8) rnd) = 0"
    by simp
  then show ?thesis
    by (metis bit.compl_zero bit.double_compl)
qed

lemma select_step_within_saturating:
  "(next_rnd ^^ n) rnd = - 1 \<Longrightarrow> 0 < n \<Longrightarrow> select_step_within n rnd = Some (select_step rnd)"
proof (induction n arbitrary: rnd)
  case 0
  then show ?case by simp
next
  case (Suc n)
  show ?case
  proof (cases "step_of (next_rnd rnd) = 0")
    case False
    then show ?thesis
      by (simp add: select_step.simps [of rnd] Let_def)
  next
    case True
    have s: "(next_rnd ^^ n) (next_rnd rnd) = - 1"
      using Suc.prems(1) by (simp add: funpow_swap1)
    have "0 < n"
    proof (rule ccontr)
      assume "\<not> 0 < n"
      with s have "next_rnd rnd = - 1" by simp
      with True show False by (simp add: step_of_saturated)
    qed
    with Suc.IH [OF s] True show ?thesis
      by (simp add: select_step.simps [of rnd] Let_def)
  qed
qed

lemma select_step_within_8: "select_step_within 8 rnd = Some (select_step rnd)"
  by (rule select_step_within_saturating [OF next_rnd_8]) simp

lemma select_step_nonzero: "select_step rnd \<noteq> 0"
proof (induction rnd rule: select_step.induct)
  case (1 rnd)
  then show ?case
    by (cases "step_of (next_rnd rnd) = 0") (simp_all add: select_step.simps [of rnd] Let_def)
qed

lemma unat_ucast_small:
  "unat (w :: 'a::len word) < 2 ^ LENGTH('b::len) \<Longrightarrow> unat (ucast w :: 'b word) = unat w"
  by (simp add: unsigned_ucast_eq take_bit_nat_eq_self)

lemma unat_step_of: "unat (step_of rnd) = unat rnd mod 893"
proof -
  have "unat (rnd mod 893) = unat rnd mod 893"
    by (simp add: unat_mod_distrib)
  moreover have "unat rnd mod 893 < 2 ^ 16"
    by (rule less_trans [of _ 893]) simp_all
  ultimately show ?thesis
    by (simp add: step_of_def scast_StunSrvListQty unat_ucast_small)
qed

lemma unat_next_pos: "unat (next_pos pos step) = (unat pos + unat step) mod 893"
proof -
  define a where "a = uint pos"
  define b where "b = uint step"
  have ab: "0 \<le> a" "a < 65536" "0 \<le> b" "b < 65536"
    using uint_lt2p [of pos] uint_lt2p [of step] by (simp_all add: a_def b_def)
  have "sint (ucast pos + ucast step :: int32_t) = signed_take_bit 31 (a + b)"
    by (simp add: sint_word_ariths sint_ucast16 a_def b_def)
  also have "\<dots> = a + b"
    using ab by (intro signed_take_bit_int_eq_self) simp_all
  finally have s: "sint (ucast pos + ucast step :: int32_t) = a + b" .
  have m: "(a + b) smod 893 = (a + b) mod 893"
    using ab by (simp add: signed_modulo_int_def sgn_if)
  have r: "0 \<le> (a + b) mod 893" "(a + b) mod 893 < 893"
    by simp_all
  have "unat (word_of_int ((a + b) mod 893) :: int32_t) = nat ((a + b) mod 893)"
    using r by (simp add: unsigned_of_int take_bit_int_eq_self)
  moreover have "nat ((a + b) mod 893) < 2 ^ 16"
    using r by simp
  ultimately have "unat (next_pos pos step) = nat ((a + b) mod 893)"
    by (simp add: next_pos_def smod32_def StunSrvListQty_eq s m unat_ucast_small)
  also have "\<dots> = (unat pos + unat step) mod 893"
    by (simp add: a_def b_def nat_mod_distrib nat_add_distrib)
  finally show ?thesis .
qed

lemma next_pos_less: "unat (next_pos pos step) < length StunSrvList"
  by (simp add: unat_next_pos length_StunSrvList)


lemma uint_less_iff_unat: "(uint (a :: uint16_t) < 1786) = (unat a < 1786)"
  unfolding uint_nat by linarith

lemma attempt_guard:
  "(ucast (attempt :: uint16_t) :: int32_t) <s StunSrvListQty * 2 \<longleftrightarrow> unat attempt < 1786"
  by (simp add: word_sless_alt StunSrvListQty_eq sint_ucast16 uint_less_iff_unat)

lemma sint_ucast_attempt: "sint (ucast (attempt :: uint16_t) :: int32_t) = int (unat attempt)"
  by (simp only: sint_ucast16 uint_nat)

lemma unat_attempt_Suc: "unat (attempt :: uint16_t) < 1786 \<Longrightarrow> unat (attempt + 1) = Suc (unat attempt)"
  using attempt_increases(2) [of attempt] by (simp add: attempt_guard)

lemma not_sle_iff: "\<not> 0 \<le>s (rc :: int32_t) \<longleftrightarrow> rc <s 0"
  by (simp add: word_sle_eq word_sless_alt not_le)

lemma probe_loop_step:
  assumes "unat attempt < 1786"
    and "SR w (srv_at (next_pos pos step)) (port (StunSrvList ! unat (next_pos pos step))) mapped
      = ((rc1, m1), w1)"
  shows "probe_loop SR step attempt pos mapped srv w =
      (if 0 \<le>s rc1 then ((ucast attempt, m1, srv_at (next_pos pos step)), w1)
       else probe_loop SR step (attempt + 1) (next_pos pos step) m1 (srv_at (next_pos pos step)) w1)"
  using assms unfolding srv_at_def
  by (subst probe_loop.simps) (simp add: attempt_guard Let_def)

lemma probe_loop_logged:
  "1786 - unat attempt = n \<Longrightarrow> 0 < unat attempt \<Longrightarrow>
   probe_loop (logged SR) step attempt pos mapped srv (w, log) = ((rc, mapped', srv'), (w', log')) \<Longrightarrow>
   \<exists>ext. log' = log @ ext
     \<and> length ext \<le> n
     \<and> list_all failed (butlast ext)
     \<and> map p_host ext = map srv_at (walk pos step (length ext))
     \<and> map p_port ext = map port_at (walk pos step (length ext))
     \<and> (if 0 \<le>s rc
         then ext \<noteq> [] \<and> sint rc = int (unat attempt + length ext) - 1 \<and> 0 \<le>s p_rc (last ext)
           \<and> mapped' = p_mapped (last ext) \<and> srv' = p_host (last ext)
         else rc = - 1 \<and> length ext = n \<and> list_all failed ext)"
proof (induction n arbitrary: attempt pos mapped srv w log)
  case 0
  then have "\<not> unat attempt < 1786" by simp
  with 0 have "rc = - 1" "log' = log"
    by (simp_all add: probe_loop.simps [of _ _ attempt] attempt_guard)
  then show ?case
    by (intro exI [of _ "[]"]) (simp add: word_sle_eq)
next
  case (Suc n)
  then have g: "unat attempt < 1786" by simp
  define p where "p = next_pos pos step"
  obtain rc1 m1 w1 where a: "SR w (srv_at p) (port (StunSrvList ! unat p)) mapped = ((rc1, m1), w1)"
    by (metis surj_pair)
  define e where "e = \<lparr>p_host = srv_at p, p_port = port (StunSrvList ! unat p),
    p_rc = rc1, p_mapped = m1\<rparr>"
  have l: "logged SR (w, log) (srv_at p) (port (StunSrvList ! unat p)) mapped
      = ((rc1, m1), (w1, log @ [e]))"
    by (simp add: logged_def a e_def)
  have u: "probe_loop (logged SR) step attempt pos mapped srv (w, log) =
      (if 0 \<le>s rc1 then ((ucast attempt, m1, srv_at p), (w1, log @ [e]))
       else probe_loop (logged SR) step (attempt + 1) p m1 (srv_at p) (w1, log @ [e]))"
    using g l unfolding p_def srv_at_def
    by (subst probe_loop.simps) (simp add: attempt_guard Let_def)
  show ?case
  proof (cases "0 \<le>s rc1")
    case True
    with Suc.prems(3) have r: "rc = ucast attempt" "mapped' = m1" "srv' = srv_at p"
      "log' = log @ [e]"
      by (simp_all add: u)
    have "0 \<le>s rc"
      by (simp add: r word_sle_eq sint_ucast_attempt)
    moreover have "sint rc = int (unat attempt + 1) - 1"
      by (simp add: r sint_ucast_attempt)
    ultimately show ?thesis
      using True Suc.prems(1)
      by (intro exI [of _ "[e]"]) (simp add: r e_def p_def port_at_def)
  next
    case False
    with Suc.prems(3)
    have r: "probe_loop (logged SR) step (attempt + 1) p m1 (srv_at p) (w1, log @ [e])
        = ((rc, mapped', srv'), (w', log'))"
      by (simp add: u)
    have m: "1786 - unat (attempt + 1) = n" "0 < unat (attempt + 1)"
      using Suc.prems(1) g by (simp_all add: unat_attempt_Suc)
    from Suc.IH [OF m r] obtain ext where ext: "log' = (log @ [e]) @ ext" "length ext \<le> n"
      "list_all failed (butlast ext)"
      "map p_host ext = map srv_at (walk p step (length ext))"
      "map p_port ext = map port_at (walk p step (length ext))"
      "if 0 \<le>s rc
         then ext \<noteq> [] \<and> sint rc = int (unat (attempt + 1) + length ext) - 1 \<and> 0 \<le>s p_rc (last ext)
           \<and> mapped' = p_mapped (last ext) \<and> srv' = p_host (last ext)
         else rc = - 1 \<and> length ext = n \<and> list_all failed ext"
      by blast
    have f: "failed e"
      using False by (simp add: failed_def e_def not_sle_iff)
    have "list_all failed (butlast (e # ext))"
      using f ext(3) by simp
    moreover have "map p_host (e # ext) = map srv_at (walk pos step (length (e # ext)))"
      using ext(4) by (simp add: e_def p_def)
    moreover have "map p_port (e # ext) = map port_at (walk pos step (length (e # ext)))"
      using ext(5) by (simp add: e_def p_def port_at_def)
    moreover have "if 0 \<le>s rc
         then e # ext \<noteq> [] \<and> sint rc = int (unat attempt + length (e # ext)) - 1
           \<and> 0 \<le>s p_rc (last (e # ext))
           \<and> mapped' = p_mapped (last (e # ext)) \<and> srv' = p_host (last (e # ext))
         else rc = - 1 \<and> length (e # ext) = Suc n \<and> list_all failed (e # ext)"
      using ext(6) f g by (simp add: unat_attempt_Suc)
    ultimately show ?thesis
      using ext(1,2) by (intro exI [of _ "e # ext"]) simp
  qed
qed

lemma probe_loop_unlogged:
  "1786 - unat attempt = n \<Longrightarrow>
   fst (probe_loop (logged SR) step attempt pos mapped srv (w, log))
     = fst (probe_loop SR step attempt pos mapped srv w)
   \<and> fst (snd (probe_loop (logged SR) step attempt pos mapped srv (w, log)))
     = snd (probe_loop SR step attempt pos mapped srv w)"
proof (induction n arbitrary: attempt pos mapped srv w log)
  case 0
  then have "\<not> unat attempt < 1786" by simp
  then show ?case
    by (simp add: probe_loop.simps [of _ _ attempt] attempt_guard)
next
  case (Suc n)
  then have g: "unat attempt < 1786" by simp
  define p where "p = next_pos pos step"
  obtain rc1 m1 w1 where a: "SR w (srv_at p) (port (StunSrvList ! unat p)) mapped = ((rc1, m1), w1)"
    by (metis surj_pair)
  obtain log1 where l: "logged SR (w, log) (srv_at p) (port (StunSrvList ! unat p)) mapped
      = ((rc1, m1), (w1, log1))"
    by (simp add: logged_def a)
  have u: "probe_loop (logged SR) step attempt pos mapped srv (w, log) =
      (if 0 \<le>s rc1 then ((ucast attempt, m1, srv_at p), (w1, log1))
       else probe_loop (logged SR) step (attempt + 1) p m1 (srv_at p) (w1, log1))"
    using g l unfolding p_def srv_at_def
    by (subst probe_loop.simps) (simp add: attempt_guard Let_def)
  have v: "probe_loop SR step attempt pos mapped srv w =
      (if 0 \<le>s rc1 then ((ucast attempt, m1, srv_at p), w1)
       else probe_loop SR step (attempt + 1) p m1 (srv_at p) w1)"
    using g a unfolding p_def srv_at_def
    by (subst probe_loop.simps) (simp add: attempt_guard Let_def)
  have m: "1786 - unat (attempt + 1) = n"
    using Suc.prems g by (simp add: unat_attempt_Suc)
  show ?case
    using Suc.IH [OF m, of p m1 "srv_at p" w1 log1] by (simp add: u v)
qed


lemma walk_in_bounds: "list_all (\<lambda>p. unat p < length StunSrvList) (walk pos step n)"
  by (induction n arbitrary: pos) (simp_all add: next_pos_less)

subsection \<open>The scan for the external address\<close>

lemma be16_take: "Suc i < n \<Longrightarrow> be16 (take n data) i = be16 data i"
  by (simp add: be16_def)

lemma be32_take: "i + 3 < n \<Longrightarrow> be32 (take n data) i = be32 data i"
  by (simp add: be32_def be16_take)

lemma stun_get_mapped_take:
  assumes "x = unat (be16 data 2) + 4"
  shows "stun_get_mapped (take x data) sa = stun_get_mapped data sa"
proof (cases "be16 data 2 = 8")
  case True
  then have "x = 12" using assms by simp
  then show ?thesis
    by (simp add: stun_get_mapped_def be16_take be32_take)
next
  case False
  have "4 \<le> x" using assms by simp
  then have "be16 (take x data) 0 = be16 data 0" "be16 (take x data) 2 = be16 data 2"
    by (simp_all add: be16_take)
  with False show ?thesis
    by (simp add: stun_get_mapped_def)
qed

lemma handle_attributes_accepts:
  "handle_attributes data len ret arg = (ret', arg') \<Longrightarrow> 0 \<le>s ret' \<Longrightarrow> len \<le> length data \<Longrightarrow>
    ret' = ret
    \<and> arg' = foldl (\<lambda>sa a. snd (stun_get_mapped a sa)) arg (attributes (take len data))"
proof (induction data len ret arg rule: handle_attributes.induct)
  case (1 data len ret arg)
  show ?case
  proof (cases "len = 0")
    case True
    with 1(2) show ?thesis
      by (simp add: handle_attributes.simps [of data] attributes.simps [of "[]"])
  next
    case False
    note nz = this
    show ?thesis
    proof (cases "len < sizeof_stun_attr")
      case True
      with nz 1(2,3) show ?thesis
        by (simp add: handle_attributes.simps [of data] word_sle_eq)
    next
      case False
      then have l4: "4 \<le> len" by (simp add: sizeof_stun_attr_def)
      define x where "x = unat (be16 data 2) + sizeof_stun_attr"
      have x4: "x = unat (be16 data 2) + 4" by (simp add: x_def sizeof_stun_attr_def)
      show ?thesis
      proof (cases "x > len")
        case True
        with nz False 1(2,3) show ?thesis
          by (simp add: handle_attributes.simps [of data] x_def Let_def word_sle_eq)
      next
        case le: False
        from nz False le 1(2)
        have run: "handle_attributes (drop x data) (len - x) ret (snd (stun_get_mapped data arg))
            = (ret', arg')"
          by (simp add: handle_attributes.simps [of data] x_def Let_def)
        have "len - x \<le> length (drop x data)"
          using 1(4) by simp
        from 1(1) [OF nz False x_def _ run 1(3) this] le
        have ih: "ret' = ret"
          "arg' = foldl (\<lambda>sa a. snd (stun_get_mapped a sa)) (snd (stun_get_mapped data arg))
             (attributes (take (len - x) (drop x data)))"
          by simp_all
        have len: "length (take len data) = len"
          using 1(4) by simp
        have b: "be16 (take len data) 2 = be16 data 2"
          using l4 by (simp add: be16_take)
        have tk: "take x (take len data) = take x data"
          using le by (simp add: min_def)
        have dr: "drop x (take len data) = take (len - x) (drop x data)"
          by (simp add: drop_take)
        have "attributes (take len data) = take x data # attributes (take (len - x) (drop x data))"
          using l4 le 1(4)
          by (subst attributes.simps) (simp add: b x4 [symmetric] tk dr Let_def min_def)
        then show ?thesis
          by (simp add: ih stun_get_mapped_take [OF x4])
      qed
    qed
  qed
qed

lemma foldl_mapped:
  "foldl (\<lambda>sa a. snd (stun_get_mapped a sa)) sa as =
    (let ms = filter is_mapped_address as
     in if ms = [] then sa
        else sa\<lparr>sin_port := be16 (last ms) 6, sin_addr := be32 (last ms) 8\<rparr>)"
  by (induction as rule: rev_induct)
    (simp_all add: Let_def stun_get_mapped_def is_mapped_address_def STUN_MAPPED_ADDRESS_def)

lemma stun_handle_packet_accepts:
  assumes "stun_handle_packet reply (length reply) sockaddr_zero = (ret, m')" "0 \<le>s ret"
  shows "20 \<le> length reply \<and> ret = of_nat (length reply) \<and> m' = mapped_address reply"
proof -
  have l: "20 \<le> length reply"
    using assms by (cases "length reply < 20")
      (simp_all add: stun_handle_packet_def sizeof_stun_header_def word_sle_eq)
  define x where "x = unat (be16 reply 2)"
  define n where "n = (if x < length reply - 20 then x else length reply - 20)"
  from assms(1) l have run: "handle_attributes (drop 20 reply) n (of_nat (length reply)) sockaddr_zero
      = (ret, m')"
    by (cases "x < length reply - 20")
      (simp_all add: stun_handle_packet_def sizeof_stun_header_def Let_def x_def n_def)
  have "n \<le> length (drop 20 reply)"
    by (simp add: n_def)
  from handle_attributes_accepts [OF run assms(2) this]
  have r: "ret = of_nat (length reply)"
    "m' = foldl (\<lambda>sa a. snd (stun_get_mapped a sa)) sockaddr_zero (attributes (take n (drop 20 reply)))"
    by simp_all
  have "take n (drop 20 reply) = take x (drop 20 reply)"
    by (simp add: n_def)
  with r(2) have "m' = mapped_address reply"
    by (simp add: foldl_mapped mapped_address_def x_def Let_def sockaddr_zero_def)
  with l r(1) show ?thesis by simp
qed


lemma stored_length:
  "unat (of_nat (min n 1023) :: int32_t) = min n 1023"
  "sint (of_nat (min n 1023) :: int32_t) = int (min n 1023)"
proof -
  define k where "k = min n 1023"
  have k: "k \<le> 1023" by (simp add: k_def)
  then have "k < 2 ^ 32" by simp
  then have "take_bit 32 k = k"
    by (intro take_bit_nat_eq_self) simp
  then show "unat (of_nat (min n 1023) :: int32_t) = min n 1023"
    by (simp add: unsigned_of_nat k_def)
  from k have "int k < 2 ^ 31" by simp
  then have "signed_take_bit 31 (int k) = int k"
    by (intro signed_take_bit_int_eq_self) simp_all
  then show "sint (of_nat (min n 1023) :: int32_t) = int (min n 1023)"
    by (simp add: signed_of_nat k_def)
qed

lemma StunRequest2_answered:
  assumes "StunRequest2 os sock server mapped w = ((rc, m'), w')" "0 \<le>s rc"
  shows "\<exists>w0 datagram. recvfrom os sock 1023 w0 = (Some datagram, w')
    \<and> 20 \<le> length datagram
    \<and> sint rc = int (length (take 1023 datagram))
    \<and> m' = mapped_address (take 1023 datagram)"
proof -
  from assms obtain w0 datagram where r: "recvfrom os sock 1023 w0 = (Some datagram, w')"
    and h: "stun_handle_packet (take 1023 datagram) (length (take 1023 datagram)) sockaddr_zero
      = (rc, m')"
    by (auto simp: StunRequest2_def Let_def stored_length word_sle_eq
        split: prod.splits if_splits option.splits)
  from stun_handle_packet_accepts [OF h assms(2)]
  have a: "20 \<le> length (take 1023 datagram)" "rc = of_nat (length (take 1023 datagram))"
    "m' = mapped_address (take 1023 datagram)"
    by simp_all
  from a(1) have "20 \<le> length datagram" by simp
  moreover have "sint rc = int (length (take 1023 datagram))"
    unfolding a(2) by (simp add: stored_length)
  ultimately show ?thesis
    using r a(3) by blast
qed

lemma StunRequest_answered:
  assumes "StunRequest os w host prt mapped = ((rc, m'), w')" "0 \<le>s rc"
  shows "\<exists>sock w0 w1 datagram. recvfrom os sock 1023 w0 = (Some datagram, w1)
    \<and> w' = CloseSocket os sock w1
    \<and> 20 \<le> length datagram
    \<and> sint rc = int (length (take 1023 datagram))
    \<and> m' = mapped_address (take 1023 datagram)"
proof -
  from assms obtain sock server wa w1 where
    c: "StunRequest2 os sock server mapped wa = ((rc, m'), w1)" "w' = CloseSocket os sock w1"
    by (auto simp: StunRequest_def Let_def word_sle_eq split: prod.splits if_splits option.splits)
  from StunRequest2_answered [OF c(1) assms(2)] c(2) show ?thesis
    by blast
qed

lemma probe_loop_last:
  assumes R: "\<And>w host prt m rc m' w'. SR w host prt m = ((rc, m'), w') \<Longrightarrow>
      R \<lparr>p_host = host, p_port = prt, p_rc = rc, p_mapped = m'\<rparr> w'"
  shows "1786 - unat attempt = n \<Longrightarrow>
    probe_loop (logged SR) step attempt pos mapped srv (w, log) = ((rc, mapped', srv'), (w', log')) \<Longrightarrow>
    (log' = log \<and> w' = w) \<or> (log' \<noteq> [] \<and> R (last log') w')"
proof (induction n arbitrary: attempt pos mapped srv w log)
  case 0
  then have "\<not> unat attempt < 1786" by simp
  with 0 show ?case
    by (simp add: probe_loop.simps [of _ _ attempt] attempt_guard)
next
  case (Suc n)
  then have g: "unat attempt < 1786" by simp
  define p where "p = next_pos pos step"
  obtain rc1 m1 w1 where a: "SR w (srv_at p) (port (StunSrvList ! unat p)) mapped = ((rc1, m1), w1)"
    by (metis surj_pair)
  define e where "e = \<lparr>p_host = srv_at p, p_port = port (StunSrvList ! unat p),
    p_rc = rc1, p_mapped = m1\<rparr>"
  have Re: "R e w1"
    unfolding e_def by (rule R [OF a])
  have l: "logged SR (w, log) (srv_at p) (port (StunSrvList ! unat p)) mapped
      = ((rc1, m1), (w1, log @ [e]))"
    by (simp add: logged_def a e_def)
  have u: "probe_loop (logged SR) step attempt pos mapped srv (w, log) =
      (if 0 \<le>s rc1 then ((ucast attempt, m1, srv_at p), (w1, log @ [e]))
       else probe_loop (logged SR) step (attempt + 1) p m1 (srv_at p) (w1, log @ [e]))"
    using g l unfolding p_def srv_at_def
    by (subst probe_loop.simps) (simp add: attempt_guard Let_def)
  show ?case
  proof (cases "0 \<le>s rc1")
    case True
    with Suc.prems(2) have "log' = log @ [e]" "w' = w1"
      by (simp_all add: u)
    with Re show ?thesis by simp
  next
    case False
    with Suc.prems(2)
    have r: "probe_loop (logged SR) step (attempt + 1) p m1 (srv_at p) (w1, log @ [e])
        = ((rc, mapped', srv'), (w', log'))"
      by (simp add: u)
    have m: "1786 - unat (attempt + 1) = n"
      using Suc.prems(1) g by (simp add: unat_attempt_Suc)
    from Suc.IH [OF m r] Re show ?thesis
      by auto
  qed
qed

lemma binding_response_handled:
  "stun_handle_packet binding_response 32 sockaddr_zero
    = (32, \<lparr>sin_family = 0, sin_port = 40000, sin_addr = 0xCB007107\<rparr>)"
  by (simp add: stun_handle_packet_def handle_attributes.simps stun_get_mapped_def
      binding_response_def sockaddr_zero_def be16_def be32_def word_cat_eq
      sizeof_stun_header_def sizeof_stun_attr_def STUN_MAPPED_ADDRESS_def Let_def)

lemma header_alone_handled:
  "stun_handle_packet header_alone 20 sockaddr_zero = (20, sockaddr_zero)"
  by (simp add: stun_handle_packet_def handle_attributes.simps header_alone_def
      be16_def word_cat_eq sizeof_stun_header_def Let_def)

lemma table_entries:
  "StunSrvList ! 5 = \<lparr>name = ''stun-1.server.yesing.com'', port = 3478\<rparr>"
  "StunSrvList ! 0 = \<lparr>name = ''freestun.net'', port = 3478\<rparr>"
  by (simp_all add: StunSrvList_def)

lemma scan_start:
  "select_step 0x23b57 = 888" "(ucast (0x23b57 :: uint64_t) :: uint16_t) = 15191"
  "next_pos 15191 888 = 5" "next_pos 5 888 = 0"
  by (simp_all add: select_step.simps next_rnd_def step_of_def scast_StunSrvListQty
      next_pos_def smod32_def StunSrvListQty_eq signed_modulo_int_def)

lemma network_silent:
  assumes "map_of hosts host = Some a" "map_of replies a = None"
  shows "StunRequest (network hosts replies) w host prt m = ((- 11, m), None)"
  using assms
  by (simp add: StunRequest_def StunRequest2_def stun_send_def network_def Let_def sizeof_stun_header_def
      word_sless_alt word_sle_eq)

lemma network_answers:
  assumes "map_of hosts host = Some a" "map_of replies a = Some d" "0 < length d" "length d \<le> 1023"
  shows "StunRequest (network hosts replies) w host prt m
    = (stun_handle_packet d (length d) sockaddr_zero, None)"
proof -
  from assms(3,4) have "min (length d) 1023 = length d" by simp
  with stored_length [of "length d"] assms(3)
  have l: "unat (of_nat (length d) :: int32_t) = length d"
    "sint (of_nat (length d) :: int32_t) = int (length d)"
    by simp_all
  show ?thesis
    using assms
    by (simp add: StunRequest_def StunRequest2_def stun_send_def network_def Let_def sizeof_stun_header_def
        word_sless_alt word_sle_eq l split: prod.splits)
qed

text \<open>
  Claim C8, as amended. For every entropy value \<open>rnd\<close> and every behaviour of the system
  calls, \<^verbatim>\<open>GetExternalIPbySTUN\<close> calls \<^verbatim>\<open>StunRequest\<close> fewer than \<open>2 * server-list-size\<close>
  times, with the names and ports of the table entries at the positions of the walk that
  starts at \<open>pos = (uint16_t) rnd\<close> with the step selected from \<open>rnd\<close>. Every probe but the
  last one failed. If the last probe returned a code that is not negative, the function
  returns the number of probes made, which is positive, with \<^verbatim>\<open>*srv\<close> the name of the
  server of that probe; the code is then the number of bytes stored of a datagram of at
  least 20 bytes that \<^verbatim>\<open>recvfrom\<close> delivered, after which the socket was closed, and
  \<^verbatim>\<open>*mapped\<close> is the mapped address of those bytes: family 0 and the port and address of
  their last \<^verbatim>\<open>MAPPED-ADDRESS\<close> attribute of length 8, or all zero when they have none.
  Otherwise the function returns -1, after \<open>2 * server-list-size - 1\<close> failed probes. The
  log of the probes is kept by the environment and does not change what the function
  returns.
\<close>

theorem GetExternalIPbySTUN_bounded:
  "(case GetExternalIPbySTUN (logged (StunRequest os)) rnd mapped srv (w, []) of
      ((rc, mapped', srv'), (w', log)) \<Rightarrow>
        length log < 2 * length StunSrvList
        \<and> map p_host log = map srv_at (walk (ucast rnd) (select_step rnd) (length log))
        \<and> map p_port log = map port_at (walk (ucast rnd) (select_step rnd) (length log))
        \<and> list_all failed (butlast log)
        \<and> (if 0 \<le>s rc
            then log \<noteq> [] \<and> sint rc = int (length log) \<and> 0 \<le>s p_rc (last log)
              \<and> mapped' = p_mapped (last log) \<and> srv' = p_host (last log)
              \<and> (\<exists>sock w0 w1 datagram.
                    recvfrom os sock 1023 w0 = (Some datagram, w1)
                    \<and> w' = CloseSocket os sock w1
                    \<and> 20 \<le> length datagram
                    \<and> sint (p_rc (last log)) = int (length (take 1023 datagram))
                    \<and> mapped' = mapped_address (take 1023 datagram))
            else rc = - 1 \<and> length log = 2 * length StunSrvList - 1 \<and> list_all failed log)
        \<and> GetExternalIPbySTUN (StunRequest os) rnd mapped srv w = ((rc, mapped', srv'), w'))"
proof -
  obtain rc mapped' srv' w' log
    where r: "probe_loop (logged (StunRequest os)) (select_step rnd) 1 (ucast rnd) mapped srv (w, [])
      = ((rc, mapped', srv'), (w', log))"
    by (metis surj_pair)
  have "1786 - unat (1 :: uint16_t) = 1785" "0 < unat (1 :: uint16_t)"
    by simp_all
  from probe_loop_logged [OF this r]
  have i: "length log \<le> 1785" "list_all failed (butlast log)"
    "map p_host log = map srv_at (walk (ucast rnd) (select_step rnd) (length log))"
    "map p_port log = map port_at (walk (ucast rnd) (select_step rnd) (length log))"
    "if 0 \<le>s rc
       then log \<noteq> [] \<and> sint rc = int (unat (1 :: uint16_t) + length log) - 1 \<and> 0 \<le>s p_rc (last log)
         \<and> mapped' = p_mapped (last log) \<and> srv' = p_host (last log)
       else rc = - 1 \<and> length log = 1785 \<and> list_all failed log"
    by auto
  define R where "R = (\<lambda>(e :: probe) w'. 0 \<le>s p_rc e \<longrightarrow>
      (\<exists>sock w0 w1 datagram.
          recvfrom os sock 1023 w0 = (Some datagram, w1)
          \<and> w' = CloseSocket os sock w1
          \<and> 20 \<le> length datagram
          \<and> sint (p_rc e) = int (length (take 1023 datagram))
          \<and> p_mapped e = mapped_address (take 1023 datagram)))"
  have "R \<lparr>p_host = host, p_port = prt, p_rc = rc, p_mapped = m'\<rparr> w'"
    if "StunRequest os w host prt m = ((rc, m'), w')" for w host prt m rc m' w'
    unfolding R_def using StunRequest_answered [OF that] by simp
  from probe_loop_last [where R = R and SR = "StunRequest os", OF this _ r]
  have "(log = [] \<and> w' = w) \<or> (log \<noteq> [] \<and> R (last log) w')"
    by simp
  with i(5) have j: "0 \<le>s rc \<longrightarrow> (\<exists>sock w0 w1 datagram.
          recvfrom os sock 1023 w0 = (Some datagram, w1)
          \<and> w' = CloseSocket os sock w1
          \<and> 20 \<le> length datagram
          \<and> sint (p_rc (last log)) = int (length (take 1023 datagram))
          \<and> mapped' = mapped_address (take 1023 datagram))"
    by (auto simp: R_def)
  have s: "probe_loop (StunRequest os) (select_step rnd) 1 (ucast rnd) mapped srv w
      = ((rc, mapped', srv'), w')"
    using probe_loop_unlogged [of 1 1785 "StunRequest os" "select_step rnd" "ucast rnd" mapped srv w "[]"] r
    by (simp add: prod_eq_iff)
  show ?thesis
    using i j by (simp add: GetExternalIPbySTUN_def r s length_StunSrvList)
qed

text \<open>
  A run of the scan: with \<open>rnd = 0x23b57\<close> the walk starts at position 15191 with step
  888 and visits positions 5 and 0 of the table. In a network where the two names
  resolve and only the server of \<^verbatim>\<open>freestun.net\<close> (position 0) answers, with a binding
  response that carries the mapped address 203.0.113.7:40000, the first probe times out,
  the second one succeeds and the function returns 2, with or without the log; what
  \<^verbatim>\<open>*mapped\<close> held before is gone.
\<close>

theorem GetExternalIPbySTUN_bounded_witness:
  "GetExternalIPbySTUN
     (logged (StunRequest (network [(''stun-1.server.yesing.com'', 0xC0000201), (''freestun.net'', 0xC0000202)]
        [(0xC0000202, binding_response)])))
     0x23b57 \<lparr>sin_family = 2, sin_port = 1234, sin_addr = 0xC6336401\<rparr> [] (None, [])
   = ((2, \<lparr>sin_family = 0, sin_port = 40000, sin_addr = 0xCB007107\<rparr>, ''freestun.net''),
      (None, [\<lparr>p_host = ''stun-1.server.yesing.com'', p_port = 3478, p_rc = - 11,
              p_mapped = \<lparr>sin_family = 2, sin_port = 1234, sin_addr = 0xC6336401\<rparr>\<rparr>,
            \<lparr>p_host = ''freestun.net'', p_port = 3478, p_rc = 32,
              p_mapped = \<lparr>sin_family = 0, sin_port = 40000, sin_addr = 0xCB007107\<rparr>\<rparr>]))
   \<and> GetExternalIPbySTUN
     (StunRequest (network [(''stun-1.server.yesing.com'', 0xC0000201), (''freestun.net'', 0xC0000202)]
        [(0xC0000202, binding_response)]))
     0x23b57 \<lparr>sin_family = 2, sin_port = 1234, sin_addr = 0xC6336401\<rparr> [] None
   = ((2, \<lparr>sin_family = 0, sin_port = 40000, sin_addr = 0xCB007107\<rparr>, ''freestun.net''), None)
   \<and> mapped_address binding_response
   = \<lparr>sin_family = 0, sin_port = 40000, sin_addr = 0xCB007107\<rparr>"
proof -
  let ?addr = "\<lparr>sin_family = 0, sin_port = 40000, sin_addr = 0xCB007107\<rparr>"
  let ?m0 = "\<lparr>sin_family = 2, sin_port = 1234, sin_addr = 0xC6336401\<rparr>"
  let ?N = "network [(''stun-1.server.yesing.com'', 0xC0000201), (''freestun.net'', 0xC0000202)]
        [(0xC0000202, binding_response)]"
  let ?E = "logged (StunRequest ?N)"
  let ?p1 = "\<lparr>p_host = ''stun-1.server.yesing.com'', p_port = 3478, p_rc = - 11, p_mapped = ?m0\<rparr>"
  let ?p2 = "\<lparr>p_host = ''freestun.net'', p_port = 3478, p_rc = 32, p_mapped = ?addr\<rparr>"
  have len: "length binding_response = 32"
    by (simp add: binding_response_def)
  have q1: "StunRequest ?N w ''stun-1.server.yesing.com'' 3478 ?m0 = ((- 11, ?m0), None)" for w
    by (rule network_silent [where a = "0xC0000201"]) simp_all
  have q2: "StunRequest ?N w ''freestun.net'' 3478 ?m0 = ((32, ?addr), None)" for w
    using network_answers [where hosts = "[(''stun-1.server.yesing.com'', 0xC0000201), (''freestun.net'', 0xC0000202)]"
        and replies = "[(0xC0000202, binding_response)]" and host = "''freestun.net''"
        and a = "0xC0000202" and d = binding_response and w = w and prt = 3478 and m = ?m0]
    by (simp add: len binding_response_handled)
  have e1: "?E (None, []) (srv_at (next_pos 15191 888))
      (port (StunSrvList ! unat (next_pos 15191 888))) ?m0 = ((- 11, ?m0), (None, [?p1]))"
    by (simp add: scan_start table_entries srv_at_def logged_def q1)
  have e2: "?E (None, [?p1]) (srv_at (next_pos 5 888))
      (port (StunSrvList ! unat (next_pos 5 888))) ?m0 = ((32, ?addr), (None, [?p1, ?p2]))"
    by (simp add: scan_start table_entries srv_at_def logged_def q2)
  have "probe_loop ?E 888 1 15191 ?m0 [] (None, [])
      = probe_loop ?E 888 (1 + 1) 5 ?m0 ''stun-1.server.yesing.com'' (None, [?p1])"
    using probe_loop_step [where SR = ?E and w = "(None, [])" and attempt = 1 and pos = 15191
        and step = 888 and mapped = ?m0 and srv = "[]", OF _ e1]
    by (simp add: scan_start table_entries srv_at_def word_sle_eq)
  also have "\<dots> = ((2, ?addr, ''freestun.net''), (None, [?p1, ?p2]))"
    using probe_loop_step [where SR = ?E and w = "(None, [?p1])" and attempt = "1 + 1" and pos = 5
        and step = 888 and mapped = ?m0 and srv = "''stun-1.server.yesing.com''", OF _ e2]
    by (simp add: scan_start table_entries srv_at_def word_sle_eq)
  finally have r: "GetExternalIPbySTUN ?E 0x23b57 ?m0 [] (None, [])
      = ((2, ?addr, ''freestun.net''), (None, [?p1, ?p2]))"
    by (simp only: GetExternalIPbySTUN_def scan_start Let_def)
  have u: "GetExternalIPbySTUN (StunRequest ?N) 0x23b57 ?m0 [] None
      = ((2, ?addr, ''freestun.net''), None)"
    using GetExternalIPbySTUN_bounded [where rnd = "0x23b57" and srv = "[]" and w = None
        and mapped = ?m0 and os = ?N]
    unfolding r prod.case by (elim conjE)
  have a: "mapped_address binding_response = ?addr"
    using stun_handle_packet_accepts [of binding_response 32 ?addr] binding_response_handled
    by (simp add: len word_sle_eq)
  show ?thesis
    by (intro conjI r u a)
qed

text \<open>
  Claim C8 as stated fails. In a network where the first server asked answers with a
  header alone, a datagram of 20 bytes without any attribute, the function returns 1,
  and \<^verbatim>\<open>*mapped\<close> is all zero: no mapped address is in it.
\<close>

theorem GetExternalIPbySTUN_unmapped_counterexample:
  "GetExternalIPbySTUN
     (StunRequest (network [(''stun-1.server.yesing.com'', 0xC0000201)]
        [(0xC0000201, header_alone)]))
     0x23b57 \<lparr>sin_family = 2, sin_port = 1234, sin_addr = 0xC6336401\<rparr> [] None
   = ((1, \<lparr>sin_family = 0, sin_port = 0, sin_addr = 0\<rparr>, ''stun-1.server.yesing.com''), None)
   \<and> length header_alone = 20
   \<and> attributes (drop 20 header_alone) = []"
proof -
  let ?m0 = "\<lparr>sin_family = 2, sin_port = 1234, sin_addr = 0xC6336401\<rparr>"
  let ?N = "network [(''stun-1.server.yesing.com'', 0xC0000201)] [(0xC0000201, header_alone)]"
  have len: "length header_alone = 20"
    by (simp add: header_alone_def)
  have q: "StunRequest ?N None ''stun-1.server.yesing.com'' 3478 ?m0 = ((20, sockaddr_zero), None)"
    using network_answers [where hosts = "[(''stun-1.server.yesing.com'', 0xC0000201)]"
        and replies = "[(0xC0000201, header_alone)]" and host = "''stun-1.server.yesing.com''"
        and a = "0xC0000201" and d = header_alone and w = None and prt = 3478 and m = ?m0]
    by (simp add: len header_alone_handled)
  have e: "StunRequest ?N None (srv_at (next_pos 15191 888))
      (port (StunSrvList ! unat (next_pos 15191 888))) ?m0 = ((20, sockaddr_zero), None)"
    by (simp add: scan_start table_entries srv_at_def q)
  have "probe_loop (StunRequest ?N) 888 1 15191 ?m0 [] None
      = ((1, sockaddr_zero, ''stun-1.server.yesing.com''), None)"
    using probe_loop_step [where SR = "StunRequest ?N" and w = None and attempt = 1
        and pos = 15191 and step = 888 and mapped = ?m0 and srv = "[]", OF _ e]
    by (simp add: scan_start table_entries srv_at_def word_sle_eq)
  then have r: "GetExternalIPbySTUN (StunRequest ?N) 0x23b57 ?m0 [] None
      = ((1, \<lparr>sin_family = 0, sin_port = 0, sin_addr = 0\<rparr>, ''stun-1.server.yesing.com''), None)"
    by (simp only: GetExternalIPbySTUN_def scan_start Let_def sockaddr_zero_def)
  have a: "attributes (drop 20 header_alone) = []"
    by (simp add: header_alone_def attributes.simps)
  show ?thesis
    by (intro conjI r len a)
qed

text \<open>
  Claim C10. For every 64-bit \<open>rnd\<close> the step-selection loop at the start of
  \<^verbatim>\<open>GetExternalIPbySTUN\<close> terminates, and eight iterations are enough: eight iterations
  turn \<open>rnd\<close> into \<open>0xFFFFFFFFFFFFFFFF\<close>, whose residue modulo the size of the server list
  is 776 and not 0. The step found is not 0 and less than the size of the list, and every
  position the scan visits afterwards is within the bounds of the list.
\<close>

theorem select_step_terminates:
  "select_step_within 8 rnd = Some (select_step rnd)
   \<and> (next_rnd ^^ 8) rnd = 0xFFFFFFFFFFFFFFFF
   \<and> unat (0xFFFFFFFFFFFFFFFF :: uint64_t) mod length StunSrvList = 776
   \<and> step_of 0xFFFFFFFFFFFFFFFF = 776
   \<and> select_step rnd \<noteq> 0
   \<and> unat (select_step rnd) < length StunSrvList
   \<and> unat (next_pos pos (select_step rnd)) < length StunSrvList
   \<and> list_all (\<lambda>p. unat p < length StunSrvList) (walk pos (select_step rnd) n)"
proof -
  have a: "select_step_within 8 rnd = Some (select_step rnd)"
    by (rule select_step_within_8)
  have b: "(next_rnd ^^ 8) rnd = 0xFFFFFFFFFFFFFFFF"
    using next_rnd_8 [of rnd] by simp
  have c: "unat (0xFFFFFFFFFFFFFFFF :: uint64_t) mod length StunSrvList = 776"
    by (simp add: length_StunSrvList)
  have d: "step_of 0xFFFFFFFFFFFFFFFF = 776"
    by (simp add: step_of_def scast_StunSrvListQty)
  have e: "select_step rnd \<noteq> 0"
    by (rule select_step_nonzero)
  have f: "unat (select_step rnd) < length StunSrvList"
  proof (induction rnd rule: select_step.induct)
    case (1 rnd)
    then show ?case
      by (cases "step_of (next_rnd rnd) = 0")
        (simp_all add: select_step.simps [of rnd] Let_def unat_step_of length_StunSrvList)
  qed
  have g: "unat (next_pos pos (select_step rnd)) < length StunSrvList"
    by (rule next_pos_less)
  have h: "list_all (\<lambda>p. unat p < length StunSrvList) (walk pos (select_step rnd) n)"
    by (rule walk_in_bounds)
  show ?thesis
    by (intro conjI a b c d e f g h)
qed

text \<open>
  An entropy value for which the first iteration finds no step: from \<open>rnd = 0x24000\<close> the
  first iteration yields \<open>0xff00000000000240\<close>, a multiple of 893, and the second one the
  step 540.
\<close>

theorem select_step_terminates_witness:
  "select_step_within 1 0x24000 = None
   \<and> select_step_within 8 0x24000 = Some 540
   \<and> select_step 0x24000 = 540
   \<and> unat (next_pos 15191 (select_step 0x24000)) < length StunSrvList"
proof -
  have s: "select_step 0x24000 = 540"
    by (simp add: select_step.simps next_rnd_def step_of_def scast_StunSrvListQty)
  have w: "select_step_within 1 0x24000 = None"
    by (simp add: next_rnd_def step_of_def scast_StunSrvListQty)
  show ?thesis
    using select_step_terminates [where rnd = "0x24000" and pos = 15191 and n = 0] w
    by (simp add: s del: select_step_within.simps)
qed

section \<open>Unlocking and re-locking the wallet\<close>

text \<open>
  Claim C9. Calling \<^verbatim>\<open>walletpassphrase\<close> on an encrypted wallet that is already unlocked
  fails and leaves the whole state unchanged: the unlock state, the re-lock deadline
  \<^verbatim>\<open>nWalletUnlockTime\<close>, the mint-only flag and the threads. The pass phrase is not
  checked: the result is the same whatever \<^verbatim>\<open>Unlock\<close> would do. For a call with two or
  three parameters the error is the wallet-already-unlocked one. Conversely, a call
  changes the state (and so schedules a re-lock) only when the wallet is encrypted and
  locked, as it is after \<^verbatim>\<open>walletlock\<close>.
\<close>

theorem walletpassphrase_already_unlocked:
  "(IsCrypted X (wallet st) \<and> \<not> IsLocked X (wallet st) \<longrightarrow>
      snd (walletpassphrase X params fHelp st) = st
      \<and> isl (fst (walletpassphrase X params fHelp st))
      \<and> walletpassphrase (X\<lparr>Unlock := U\<rparr>) params fHelp st = walletpassphrase X params fHelp st)
   \<and> (IsCrypted X (wallet st) \<and> \<not> IsLocked X (wallet st)
        \<and> \<not> fHelp \<and> 2 \<le> length params \<and> length params \<le> 3 \<longrightarrow>
      walletpassphrase X params fHelp st = (Inl already_unlocked, st))
   \<and> (snd (walletpassphrase X params fHelp st) \<noteq> st \<longrightarrow>
        IsCrypted X (wallet st) \<and> IsLocked X (wallet st))"
  by (auto simp: walletpassphrase_def Let_def split: sum.splits prod.splits)

text \<open>
  The theorem on an unlocked wallet with a re-lock scheduled: a call with a wrong pass
  phrase, a later timeout and the mint-only flag is refused as already unlocked, and
  nothing changes.
\<close>

theorem walletpassphrase_already_unlocked_witness:
  "walletpassphrase keystore_externals [JStr ''guess'', JInt 30, JBool True] False
     \<lparr>wallet = \<lparr>crypted = True, locked = False, passphrase = ''secret''\<rparr>,
      nOrderPosNext = 0, acentries = [], nWalletUnlockTime = 1700000010000,
      fWalletUnlockMintOnly = False,
      threads = [ThreadTopUpKeyPool, ThreadCleanWalletPassphrase 10]\<rparr>
   = (Inl already_unlocked,
      \<lparr>wallet = \<lparr>crypted = True, locked = False, passphrase = ''secret''\<rparr>,
       nOrderPosNext = 0, acentries = [], nWalletUnlockTime = 1700000010000,
       fWalletUnlockMintOnly = False,
       threads = [ThreadTopUpKeyPool, ThreadCleanWalletPassphrase 10]\<rparr>)"
  using walletpassphrase_already_unlocked [where X = keystore_externals and fHelp = False
      and params = "[JStr ''guess'', JInt 30, JBool True]"
      and st = "\<lparr>wallet = \<lparr>crypted = True, locked = False, passphrase = ''secret''\<rparr>,
        nOrderPosNext = 0, acentries = [], nWalletUnlockTime = 1700000010000,
        fWalletUnlockMintOnly = False,
        threads = [ThreadTopUpKeyPool, ThreadCleanWalletPassphrase 10]\<rparr>"]
  by (simp add: keystore_externals_def)




section \<open>Moves between accounts\<close>

lemma update_fresh: "k \<notin> fst ` set al \<Longrightarrow> AList.update k v al = al @ [(k, v)]"
  by (induction al) auto

lemma fresh_key:
  assumes "list_all (\<lambda>p. snd (fst p) <s n) al" "sint n \<le> sint m"
  shows "(acc, m) \<notin> fst ` set al"
proof
  assume "(acc, m) \<in> fst ` set al"
  then obtain p where "p \<in> set al" "fst p = (acc, m)" by auto
  with assms(1) have "m <s n" by (auto simp: list_all_iff)
  with assms(2) show False by (simp add: word_sless_alt)
qed

lemma sint_plus_small:
  assumes "sint (n :: int64_t) + k < 2 ^ 63" "0 \<le> k" "k \<le> 4"
  shows "sint (n + word_of_int k) = sint n + k"
proof -
  have k: "sint (word_of_int k :: int64_t) = k"
    using assms(2,3) by (simp add: sint_sbintrunc' signed_take_bit_int_eq_self)
  have "- (2 ^ 63) \<le> sint n"
    using sint_ge [of n] by simp
  with assms have "- (2 ^ 63) \<le> sint n + k" "sint n + k < 2 ^ 63"
    by simp_all
  then show ?thesis
    by (simp add: sint_word_ariths k signed_take_bit_int_eq_self)
qed

lemma movecmd_appends:
  assumes m: "movecmd X TB TC now (JStr a # JStr b # x # rest) h st = (Inr v, st')"
    and f: "list_all (\<lambda>p. snd (fst p) <s nOrderPosNext st) (acentries st)"
    and o: "sint (nOrderPosNext st) < 2 ^ 63 - 1"
  obtains amt d c where "AmountFromValue X x = Inr amt"
    "acentries st' = acentries st @ [((a, nOrderPosNext st), d), ((b, nOrderPosNext st + 1), c)]"
    "nCreditDebit d = - amt" "nCreditDebit c = amt"
    "nOrderPosNext st' = nOrderPosNext st + 2" "wallet st' = wallet st"
proof -
  define n where "n = nOrderPosNext st"
  from m obtain amt where amt: "AmountFromValue X x = Inr amt"
    by (auto simp: movecmd_def split: if_splits sum.splits)
  from m obtain cm where
    st': "st' = WriteAccountingEntry
        \<lparr>nOrderPos = n + 1, strAccount = b, nCreditDebit = amt, entry_nTime = now,
          strOtherAccount = a, strComment = cm\<rparr>
        (snd (IncOrderPosNext (WriteAccountingEntry
          \<lparr>nOrderPos = n, strAccount = a, nCreditDebit = - amt, entry_nTime = now,
            strOtherAccount = b, strComment = cm\<rparr>
          (snd (IncOrderPosNext st)))))"
    using amt
    by (auto simp: movecmd_def AccountFromValue_def Let_def IncOrderPosNext_def
        WriteAccountingEntry_def n_def split: if_splits sum.splits)
  let ?d = "\<lparr>nOrderPos = n, strAccount = a, nCreditDebit = - amt, entry_nTime = now,
            strOtherAccount = b, strComment = cm\<rparr>"
  let ?c = "\<lparr>nOrderPos = n + 1, strAccount = b, nCreditDebit = amt, entry_nTime = now,
          strOtherAccount = a, strComment = cm\<rparr>"
  have k1: "(a, n) \<notin> fst ` set (acentries st)"
    using f by (intro fresh_key [of n]) (simp_all add: n_def)
  have s1: "sint (n + 1) = sint n + 1"
    using sint_plus_small [of n 1] o by (simp add: n_def)
  have k2: "(b, n + 1) \<notin> fst ` set (acentries st)"
    using f s1 by (intro fresh_key [of n]) (simp_all add: n_def)
  have ne: "n + 1 \<noteq> n"
    by simp
  have k2': "(b, n + 1) \<notin> fst ` set (acentries st @ [((a, n), ?d)])"
    using k2 ne by auto
  have e: "acentries st' = acentries st @ [((a, n), ?d), ((b, n + 1), ?c)]"
    by (simp add: st' WriteAccountingEntry_def IncOrderPosNext_def update_fresh [OF k1]
        update_fresh [OF k2'])
  have p: "nOrderPosNext st' = n + 2" "wallet st' = wallet st"
    by (simp_all add: st' WriteAccountingEntry_def IncOrderPosNext_def n_def)
  show ?thesis
    using that [OF amt e [unfolded n_def] _ _ p(1) [unfolded n_def] p(2)] by simp
qed

lemma credit_debit_append:
  "acentries st' = acentries st @ ws \<Longrightarrow>
   GetAccountCreditDebit st' acc =
     GetAccountCreditDebit st acc
       + sum_list (map (\<lambda>p. nCreditDebit (snd p)) (filter (\<lambda>p. fst (fst p) = acc) ws))"
  by (simp add: GetAccountCreditDebit_def)

lemma balance_credit_debit:
  "wallet st' = wallet st \<Longrightarrow>
   GetAccountBalance X st' acc d f - GetAccountCreditDebit st' acc
     = GetAccountBalance X st acc d f - GetAccountCreditDebit st acc"
  by (simp add: GetAccountBalance_def Let_def)


lemma update_all:
  "\<forall>p \<in> set al. Q (fst p) \<Longrightarrow> Q k \<Longrightarrow> \<forall>p \<in> set (AList.update k v al). Q (fst p)"
  by (induction al) auto

lemma movecmd_cases:
  assumes "movecmd X TB TC now params h st = (r, st')"
  obtains (same) "nOrderPosNext st' = nOrderPosNext st" "acentries st' = acentries st"
  | (counted) "nOrderPosNext st' = nOrderPosNext st + 2" "acentries st' = acentries st"
  | (written) a b d c where "nOrderPosNext st' = nOrderPosNext st + 2"
      "acentries st' = AList.update (b, nOrderPosNext st + 1) c
         (AList.update (a, nOrderPosNext st) d (acentries st))"
  using assms
  by (auto simp: movecmd_def Let_def IncOrderPosNext_def WriteAccountingEntry_def
      split: if_splits sum.splits)

lemma movecmd_positions:
  assumes "movecmd X TB TC now params h st = (r, st')"
    and "\<forall>p \<in> set (acentries st). P (snd (fst p))"
    and "P (nOrderPosNext st)" "P (nOrderPosNext st + 1)"
  shows "\<forall>p \<in> set (acentries st'). P (snd (fst p))"
  using assms(1)
proof (cases rule: movecmd_cases)
  case same
  with assms(2) show ?thesis by simp
next
  case counted
  with assms(2) show ?thesis by simp
next
  case (written a b d c)
  let ?Q = "\<lambda>k :: string \<times> int64_t. P (snd k)"
  have 0: "\<forall>p \<in> set (acentries st). ?Q (fst p)"
    using assms(2) by simp
  have 1: "\<forall>p \<in> set (AList.update (a, nOrderPosNext st) d (acentries st)). ?Q (fst p)"
    using assms(3) by (intro update_all [where Q = ?Q, OF 0]) simp
  have 2: "\<forall>p \<in> set (AList.update (b, nOrderPosNext st + 1) c
      (AList.update (a, nOrderPosNext st) d (acentries st))). ?Q (fst p)"
    using assms(4) by (intro update_all [where Q = ?Q, OF 1]) simp
  then show ?thesis by (simp add: written)
qed

lemma sendmany_keeps:
  "sendmany X params h st = (r, st') \<Longrightarrow>
    nOrderPosNext st' = nOrderPosNext st \<and> acentries st' = acentries st"
  by (auto simp: sendmany_def Let_def split: if_splits sum.splits prod.splits)

lemma walletpassphrase_keeps:
  "walletpassphrase X params h st = (r, st') \<Longrightarrow>
    nOrderPosNext st' = nOrderPosNext st \<and> acentries st' = acentries st"
  by (auto simp: walletpassphrase_def Let_def split: if_splits sum.splits prod.splits)

lemma walletlock_keeps:
  "walletlock X params h st = (r, st') \<Longrightarrow>
    nOrderPosNext st' = nOrderPosNext st \<and> acentries st' = acentries st"
  by (auto simp: walletlock_def split: if_splits)

lemma relocker_loop_keeps:
  "relocker_loop X now st = (k, st') \<Longrightarrow>
    nOrderPosNext st' = nOrderPosNext st \<and> acentries st' = acentries st"
  by (auto simp: relocker_loop_def relocker_exit_def Let_def split: if_splits)

lemma relocker_enter_keeps:
  "relocker_enter X t now st = (k, st') \<Longrightarrow>
    nOrderPosNext st' = nOrderPosNext st \<and> acentries st' = acentries st"
  by (auto simp: relocker_enter_def split: if_splits dest: relocker_loop_keeps)

lemma reachable_in_positions:
  "reachable_in X n st \<Longrightarrow>
    \<exists>m \<le> 2 * n. nOrderPosNext st = of_nat m
      \<and> (\<forall>p \<in> set (acentries st). \<exists>k < m. snd (fst p) = of_nat k)"
proof (induction rule: reachable_in.induct)
  case (created st)
  then show ?case by simp
next
  case (moved n st TxnBegin TxnCommit nNow params fHelp r st')
  then obtain m where m: "m \<le> 2 * n" "nOrderPosNext st = of_nat m"
    "\<forall>p \<in> set (acentries st). \<exists>k < m. snd (fst p) = of_nat k"
    by blast
  have up: "\<forall>p \<in> set (acentries st). \<exists>k < m + 2. snd (fst p) = of_nat k"
    using m(3) by (meson trans_less_add1)
  have c0: "\<exists>k < m + 2. nOrderPosNext st = of_nat k"
    by (intro exI [of _ m]) (simp add: m(2))
  have c1: "\<exists>k < m + 2. nOrderPosNext st + 1 = of_nat k"
    by (intro exI [of _ "m + 1"]) (simp add: m(2))
  note all = movecmd_positions [OF moved(2),
      where P = "\<lambda>c. \<exists>k < m + 2. c = of_nat k", OF up c0 c1]
  from moved(2) show ?case
  proof (cases rule: movecmd_cases)
    case same
    with m show ?thesis
      by (intro exI [of _ m]) simp
  next
    case counted
    with m(1,2) all show ?thesis
      by (intro exI [of _ "m + 2"]) simp
  next
    case (written a b d c)
    with m(1,2) all show ?thesis
      by (intro exI [of _ "m + 2"]) simp
  qed
next
  case (sent n st params fHelp r st')
  then obtain m where m: "m \<le> 2 * n" "nOrderPosNext st = of_nat m"
    "\<forall>p \<in> set (acentries st). \<exists>k < m. snd (fst p) = of_nat k"
    by blast
  with sendmany_keeps [OF sent(2)] show ?case
    by (intro exI [of _ m]) simp
next
  case (unlocked n st params fHelp r st')
  then obtain m where m: "m \<le> 2 * n" "nOrderPosNext st = of_nat m"
    "\<forall>p \<in> set (acentries st). \<exists>k < m. snd (fst p) = of_nat k"
    by blast
  with walletpassphrase_keeps [OF unlocked(2)] show ?case
    by (intro exI [of _ m]) simp
next
  case (locked n st params fHelp r st')
  then obtain m where m: "m \<le> 2 * n" "nOrderPosNext st = of_nat m"
    "\<forall>p \<in> set (acentries st). \<exists>k < m. snd (fst p) = of_nat k"
    by blast
  with walletlock_keeps [OF locked(2)] show ?case
    by (intro exI [of _ m]) simp
next
  case (relocker_entered n st nMyWakeTime now k st')
  then obtain m where m: "m \<le> 2 * n" "nOrderPosNext st = of_nat m"
    "\<forall>p \<in> set (acentries st). \<exists>k < m. snd (fst p) = of_nat k"
    by blast
  with relocker_enter_keeps [OF relocker_entered(2)] show ?case
    by (intro exI [of _ m]) simp
next
  case (relocker_woken n st now k st')
  then obtain m where m: "m \<le> 2 * n" "nOrderPosNext st = of_nat m"
    "\<forall>p \<in> set (acentries st). \<exists>k < m. snd (fst p) = of_nat k"
    by blast
  with relocker_loop_keeps [OF relocker_woken(2)] show ?case
    by (intro exI [of _ m]) simp
next
  case (wallet_changed n st w)
  then obtain m where m: "m \<le> 2 * n" "nOrderPosNext st = of_nat m"
    "\<forall>p \<in> set (acentries st). \<exists>k < m. snd (fst p) = of_nat k"
    by blast
  then show ?case
    by (intro exI [of _ m]) simp
next
  case (transaction_added n st w)
  then obtain m where m: "m \<le> 2 * n" "nOrderPosNext st = of_nat m"
    "\<forall>p \<in> set (acentries st). \<exists>k < m. snd (fst p) = of_nat k"
    by blast
  have "\<forall>p \<in> set (acentries st). \<exists>k < m + 1. snd (fst p) = of_nat k"
    using m(3) by (meson trans_less_add1)
  with m(1,2) show ?case
    by (intro exI [of _ "m + 1"]) simp
qed

lemma sint_of_nat64:
  assumes "n < 2 ^ 63"
  shows "sint (of_nat n :: int64_t) = int n"
proof -
  from assms have "int n < 2 ^ 63"
    by (metis of_nat_less_iff of_nat_numeral of_nat_power)
  then have "signed_take_bit 63 (int n) = int n"
    by (intro signed_take_bit_int_eq_self) simp_all
  then show ?thesis
    by (simp add: signed_of_nat)
qed

lemma reachable_in_fresh:
  assumes "reachable_in X n st" "2 * n + 4 < 2 ^ 63"
  shows "order_positions_fresh st"
proof -
  from reachable_in_positions [OF assms(1)] obtain m where m: "m \<le> 2 * n"
    "nOrderPosNext st = of_nat m"
    "\<forall>p \<in> set (acentries st). \<exists>k < m. snd (fst p) = of_nat k"
    by blast
  from m(1) assms(2) have b: "m + 4 < 2 ^ 63" by simp
  then have sm: "sint (of_nat m :: int64_t) = int m"
    by (intro sint_of_nat64) simp
  have "snd (fst p) <s nOrderPosNext st" if "p \<in> set (acentries st)" for p
  proof -
    from that m(3) obtain k where k: "k < m" "snd (fst p) = of_nat k" by blast
    with b have "sint (of_nat k :: int64_t) = int k"
      by (intro sint_of_nat64) simp
    with k sm show ?thesis
      by (simp add: word_sless_alt m(2))
  qed
  moreover have "sint (nOrderPosNext st) < 2 ^ 63 - 4"
  proof -
    from b have "int (m + 4) < 2 ^ 63" by (metis of_nat_less_iff of_nat_numeral of_nat_power)
    then show ?thesis by (simp add: m(2) sm)
  qed
  ultimately show ?thesis
    by (simp add: order_positions_fresh_def list_all_iff)
qed

text \<open>
  Claim C4. Let the wallet be in a state reached from a new wallet in \<open>n\<close> steps, with
  \<open>2 * n + 4 < 2 ^ 63\<close>, so that the counter of order positions does not overflow. When
  \<^verbatim>\<open>move(a, b, X)\<close> and then \<^verbatim>\<open>move(b, a, X)\<close> are executed and succeed, with nothing in
  between, the balance of every account (for every minimum depth and filter) is what it
  was before the first move; the two moves add four accounting entries to the database
  and change no other, and the amounts of the four add up to zero.
\<close>

theorem move_round_trip:
  assumes "reachable_in X n st" and "2 * n + 4 < 2 ^ 63"
    and "movecmd X TxnBegin1 TxnCommit1 now1 (JStr a # JStr b # x # rest1) fHelp1 st = (Inr v1, st1)"
    and "movecmd X TxnBegin2 TxnCommit2 now2 (JStr b # JStr a # x # rest2) fHelp2 st1 = (Inr v2, st2)"
  shows "GetAccountBalance X st2 account nMinDepth filter' = GetAccountBalance X st account nMinDepth filter'
    \<and> take (length (acentries st)) (acentries st2) = acentries st
    \<and> length (acentries st2) = length (acentries st) + 4
    \<and> sum_list (map (\<lambda>p. nCreditDebit (snd p)) (drop (length (acentries st)) (acentries st2))) = 0"
proof -
  define n where "n = nOrderPosNext st"
  from reachable_in_fresh [OF assms(1,2)] have f: "list_all (\<lambda>p. snd (fst p) <s n) (acentries st)"
    and o: "sint n < 2 ^ 63 - 4"
    by (simp_all add: order_positions_fresh_def n_def)
  from o have o0: "sint (nOrderPosNext st) < 2 ^ 63 - 1"
    by (simp add: n_def)
  from movecmd_appends [OF assms(3) f [unfolded n_def] o0]
  obtain amt d c where 1: "AmountFromValue X x = Inr amt"
    "acentries st1 = acentries st @ [((a, n), d), ((b, n + 1), c)]"
    "nCreditDebit d = - amt" "nCreditDebit c = amt"
    "nOrderPosNext st1 = n + 2" "wallet st1 = wallet st"
    unfolding n_def by blast
  have s1: "sint (n + 1) = sint n + 1" and s2: "sint (n + 2) = sint n + 2"
    using sint_plus_small [of n 1] sint_plus_small [of n 2] o by simp_all
  have f1: "list_all (\<lambda>p. snd (fst p) <s nOrderPosNext st1) (acentries st1)"
    using f s1 s2 by (auto simp: 1 list_all_iff word_sless_alt)
  have o1: "sint (nOrderPosNext st1) < 2 ^ 63 - 1"
    using o s2 by (simp add: 1)
  from movecmd_appends [OF assms(4) f1 o1]
  obtain amt' d' c' where m2: "AmountFromValue X x = Inr amt'"
    "acentries st2 = acentries st1 @ [((b, nOrderPosNext st1), d'), ((a, nOrderPosNext st1 + 1), c')]"
    "nCreditDebit d' = - amt'" "nCreditDebit c' = amt'" "wallet st2 = wallet st1"
    by blast
  from m2(1) 1(1) have "amt' = amt" by simp
  with m2 have 2:
    "acentries st2 = acentries st1 @ [((b, n + 2), d'), ((a, n + 2 + 1), c')]"
    "nCreditDebit d' = - amt" "nCreditDebit c' = amt" "wallet st2 = wallet st1"
    by (simp_all add: 1(5))
  let ?ws = "[((a, n), d), ((b, n + 1), c), ((b, n + 2), d'), ((a, n + 2 + 1), c')]"
  have e: "acentries st2 = acentries st @ ?ws"
    by (simp add: 1 2)
  have z: "sum_list (map (\<lambda>p. nCreditDebit (snd p)) (filter (\<lambda>p. fst (fst p) = account) ?ws)) = 0"
    by (simp add: 1 2)
  have w: "wallet st2 = wallet st"
    by (simp add: 1 2)
  have "GetAccountBalance X st2 account nMinDepth filter' = GetAccountBalance X st account nMinDepth filter'"
    using balance_credit_debit [OF w, of X account nMinDepth filter'] credit_debit_append [OF e, of account] z
    by simp
  moreover have "sum_list (map (\<lambda>p. nCreditDebit (snd p)) ?ws) = 0"
    by (simp add: 1 2)
  ultimately show ?thesis
    by (simp add: e)
qed


text \<open>
  The scenario of the specification, in a wallet that has moved before: a new wallet
  with a credit of \<open>50 * COIN\<close> to account A moves 10 to account C and back, which leaves
  four accounting entries. Then, after \<^verbatim>\<open>move A B 20\<close> the balances of A and B are 30 and
  20; after \<^verbatim>\<open>move B A 20\<close> they are 50 and 0 again, and the accounting entries add up to
  zero.
\<close>

theorem move_round_trip_witness:
  "(let w0 = \<lparr>wallet = [credit_to ''A'' (50 * COIN)], nOrderPosNext = 0, acentries = [],
         nWalletUnlockTime = 0, fWalletUnlockMintOnly = False, threads = []\<rparr>;
        (q1, w1) = movecmd ledger_externals True True 1699990000
           [JStr ''A'', JStr ''C'', JAmount (10 * COIN)] False w0;
        (q2, st0) = movecmd ledger_externals True True 1699990060
           [JStr ''C'', JStr ''A'', JAmount (10 * COIN)] False w1;
        (r1, st1) = movecmd ledger_externals True True 1700000000
           [JStr ''A'', JStr ''B'', JAmount (20 * COIN)] False st0;
        (r2, st2) = movecmd ledger_externals True True 1700000060
           [JStr ''B'', JStr ''A'', JAmount (20 * COIN)] False st1
    in reachable_in ledger_externals 2 st0
       \<and> length (acentries st0) = 4
       \<and> r1 = Inr (JBool True) \<and> r2 = Inr (JBool True)
       \<and> GetAccountBalance ledger_externals st0 ''A'' 1 {MINE_SPENDABLE} = 50 * COIN
       \<and> GetAccountBalance ledger_externals st0 ''B'' 1 {MINE_SPENDABLE} = 0
       \<and> GetAccountBalance ledger_externals st1 ''A'' 1 {MINE_SPENDABLE} = 30 * COIN
       \<and> GetAccountBalance ledger_externals st1 ''B'' 1 {MINE_SPENDABLE} = 20 * COIN
       \<and> GetAccountBalance ledger_externals st2 ''A'' 1 {MINE_SPENDABLE} = 50 * COIN
       \<and> GetAccountBalance ledger_externals st2 ''B'' 1 {MINE_SPENDABLE} = 0
       \<and> length (acentries st2) = 8
       \<and> sum_list (map (\<lambda>p. nCreditDebit (snd p)) (acentries st2)) = 0)"
proof -
  define w0 :: "string CWalletTx list node" where
    "w0 = \<lparr>wallet = [credit_to ''A'' (50 * COIN)], nOrderPosNext = 0, acentries = [],
         nWalletUnlockTime = 0, fWalletUnlockMintOnly = False, threads = []\<rparr>"
  define w1 where "w1 = w0\<lparr>nOrderPosNext := 2, acentries := [((''A'', 0), \<lparr>nOrderPos = 0, strAccount = ''A'', nCreditDebit = - (10 * COIN),
              entry_nTime = 1699990000, strOtherAccount = ''C'', strComment = []\<rparr>),
           ((''C'', 1), \<lparr>nOrderPos = 1, strAccount = ''C'', nCreditDebit = 10 * COIN,
              entry_nTime = 1699990000, strOtherAccount = ''A'', strComment = []\<rparr>)]\<rparr>"
  define st0 where "st0 = w0\<lparr>nOrderPosNext := 4, acentries := [((''A'', 0), \<lparr>nOrderPos = 0, strAccount = ''A'', nCreditDebit = - (10 * COIN),
              entry_nTime = 1699990000, strOtherAccount = ''C'', strComment = []\<rparr>),
           ((''C'', 1), \<lparr>nOrderPos = 1, strAccount = ''C'', nCreditDebit = 10 * COIN,
              entry_nTime = 1699990000, strOtherAccount = ''A'', strComment = []\<rparr>),
           ((''C'', 2), \<lparr>nOrderPos = 2, strAccount = ''C'', nCreditDebit = - (10 * COIN),
              entry_nTime = 1699990060, strOtherAccount = ''A'', strComment = []\<rparr>),
           ((''A'', 3), \<lparr>nOrderPos = 3, strAccount = ''A'', nCreditDebit = 10 * COIN,
              entry_nTime = 1699990060, strOtherAccount = ''C'', strComment = []\<rparr>)]\<rparr>"
  define st1 where "st1 = w0\<lparr>nOrderPosNext := 6, acentries := [((''A'', 0), \<lparr>nOrderPos = 0, strAccount = ''A'', nCreditDebit = - (10 * COIN),
              entry_nTime = 1699990000, strOtherAccount = ''C'', strComment = []\<rparr>),
           ((''C'', 1), \<lparr>nOrderPos = 1, strAccount = ''C'', nCreditDebit = 10 * COIN,
              entry_nTime = 1699990000, strOtherAccount = ''A'', strComment = []\<rparr>),
           ((''C'', 2), \<lparr>nOrderPos = 2, strAccount = ''C'', nCreditDebit = - (10 * COIN),
              entry_nTime = 1699990060, strOtherAccount = ''A'', strComment = []\<rparr>),
           ((''A'', 3), \<lparr>nOrderPos = 3, strAccount = ''A'', nCreditDebit = 10 * COIN,
              entry_nTime = 1699990060, strOtherAccount = ''C'', strComment = []\<rparr>),
           ((''A'', 4), \<lparr>nOrderPos = 4, strAccount = ''A'', nCreditDebit = - (20 * COIN),
              entry_nTime = 1700000000, strOtherAccount = ''B'', strComment = []\<rparr>),
           ((''B'', 5), \<lparr>nOrderPos = 5, strAccount = ''B'', nCreditDebit = 20 * COIN,
              entry_nTime = 1700000000, strOtherAccount = ''A'', strComment = []\<rparr>)]\<rparr>"
  define m2 where "m2 = movecmd ledger_externals True True 1700000060
           [JStr ''B'', JStr ''A'', JAmount (20 * COIN)] False st1"
  have q1: "movecmd ledger_externals True True 1699990000
      [JStr ''A'', JStr ''C'', JAmount (10 * COIN)] False w0 = (Inr (JBool True), w1)"
    by (simp add: w0_def w1_def movecmd_def ledger_externals_def AccountFromValue_def Let_def
        IncOrderPosNext_def WriteAccountingEntry_def COIN_def word_sless_alt)
  have q2: "movecmd ledger_externals True True 1699990060
      [JStr ''C'', JStr ''A'', JAmount (10 * COIN)] False w1 = (Inr (JBool True), st0)"
    by (simp add: w0_def w1_def st0_def movecmd_def ledger_externals_def AccountFromValue_def
        Let_def IncOrderPosNext_def WriteAccountingEntry_def COIN_def word_sless_alt)
  have p1: "movecmd ledger_externals True True 1700000000
      (JStr ''A'' # JStr ''B'' # JAmount (20 * COIN) # []) False st0 = (Inr (JBool True), st1)"
    by (simp add: w0_def st0_def st1_def movecmd_def ledger_externals_def AccountFromValue_def
        Let_def IncOrderPosNext_def WriteAccountingEntry_def COIN_def word_sless_alt)
  have r2: "fst m2 = Inr (JBool True)"
    by (simp add: m2_def w0_def st1_def movecmd_def ledger_externals_def AccountFromValue_def
        Let_def IncOrderPosNext_def WriteAccountingEntry_def COIN_def word_sless_alt)
  then have p2: "movecmd ledger_externals True True 1700000060
      (JStr ''B'' # JStr ''A'' # JAmount (20 * COIN) # []) False st1 = (Inr (JBool True), snd m2)"
    by (simp add: m2_def prod_eq_iff)
  have "reachable_in ledger_externals 0 w0"
    by (rule reachable_in.created) (simp_all add: w0_def)
  from reachable_in.moved [OF reachable_in.moved [OF this q1] q2]
  have reach: "reachable_in ledger_externals 2 st0"
    by (simp only: numeral_2_eq_2)
  have l0: "length (acentries st0) = 4"
    by (simp add: st0_def)
  have b0: "GetAccountBalance ledger_externals st0 ''A'' 1 {MINE_SPENDABLE} = 50 * COIN"
    "GetAccountBalance ledger_externals st0 ''B'' 1 {MINE_SPENDABLE} = 0"
    by (simp_all add: w0_def st0_def GetAccountBalance_def GetAccountCreditDebit_def tally_wtx_def
        ledger_externals_def credit_to_def Let_def COIN_def word_sle_eq)
  have b1: "GetAccountBalance ledger_externals st1 ''A'' 1 {MINE_SPENDABLE} = 30 * COIN"
    "GetAccountBalance ledger_externals st1 ''B'' 1 {MINE_SPENDABLE} = 20 * COIN"
    by (simp_all add: w0_def st1_def GetAccountBalance_def GetAccountCreditDebit_def tally_wtx_def
        ledger_externals_def credit_to_def Let_def COIN_def word_sle_eq)
  have small: "2 * (2 :: nat) + 4 < 2 ^ 63"
    by simp
  note t = move_round_trip [OF reach small p1 p2]
  have b2: "GetAccountBalance ledger_externals (snd m2) ''A'' 1 {MINE_SPENDABLE} = 50 * COIN"
    "GetAccountBalance ledger_externals (snd m2) ''B'' 1 {MINE_SPENDABLE} = 0"
    using t [of "''A''" 1 "{MINE_SPENDABLE}"] t [of "''B''" 1 "{MINE_SPENDABLE}"] b0 by simp_all
  have l2: "length (acentries (snd m2)) = 8"
    using t [of "''A''" 1 "{MINE_SPENDABLE}"] l0 by simp
  have z0: "sum_list (map (\<lambda>p. nCreditDebit (snd p)) (acentries st0)) = 0"
    by (simp add: st0_def)
  have tk: "take 4 (acentries (snd m2)) = acentries st0"
    using t [of "''A''" 1 "{MINE_SPENDABLE}"] l0 by simp
  have dr: "sum_list (map (\<lambda>p. nCreditDebit (snd p)) (drop 4 (acentries (snd m2)))) = 0"
    using t [of "''A''" 1 "{MINE_SPENDABLE}"] l0 by simp
  have "sum_list (map (\<lambda>p. nCreditDebit (snd p))
        (take 4 (acentries (snd m2)) @ drop 4 (acentries (snd m2)))) = 0"
    unfolding map_append sum_list_append tk dr z0 by simp
  then have z: "sum_list (map (\<lambda>p. nCreditDebit (snd p)) (acentries (snd m2))) = 0"
    by (simp only: append_take_drop_id)
  have run: "movecmd ledger_externals True True 1700000000
      [JStr ''A'', JStr ''B'', JAmount (20 * COIN)] False st0 = (Inr (JBool True), st1)"
    using p1 by simp
  have fin: "reachable_in ledger_externals 2 st0
       \<and> length (acentries st0) = 4
       \<and> Inr (JBool True) = (Inr (JBool True) :: exn + json) \<and> fst m2 = Inr (JBool True)
       \<and> GetAccountBalance ledger_externals st0 ''A'' 1 {MINE_SPENDABLE} = 50 * COIN
       \<and> GetAccountBalance ledger_externals st0 ''B'' 1 {MINE_SPENDABLE} = 0
       \<and> GetAccountBalance ledger_externals st1 ''A'' 1 {MINE_SPENDABLE} = 30 * COIN
       \<and> GetAccountBalance ledger_externals st1 ''B'' 1 {MINE_SPENDABLE} = 20 * COIN
       \<and> GetAccountBalance ledger_externals (snd m2) ''A'' 1 {MINE_SPENDABLE} = 50 * COIN
       \<and> GetAccountBalance ledger_externals (snd m2) ''B'' 1 {MINE_SPENDABLE} = 0
       \<and> length (acentries (snd m2)) = 8
       \<and> sum_list (map (\<lambda>p. nCreditDebit (snd p)) (acentries (snd m2))) = 0"
    by (intro conjI reach l0 r2 b0 b1 b2 l2 z refl)
  show ?thesis
    unfolding Let_def case_prod_beta w0_def [symmetric] q1 snd_conv fst_conv q2 run
      m2_def [symmetric]
    by (rule fin)
qed

subsection \<open>Duplicated addresses in \<^verbatim>\<open>sendmany\<close>\<close>

lemma sendmany_loop_seen:
  assumes "p \<in> set sendTo" "CBitcoinAddress X (fst p) \<in> S"
    "IsValid X (CBitcoinAddress X (fst p))" "\<not> IsPair X (CBitcoinAddress X (fst p))"
  shows "isl (sendmany_loop X sendTo S vs t)"
  using assms
proof (induction sendTo arbitrary: S vs t)
  case Nil
  then show ?case by simp
next
  case (Cons q sendTo)
  obtain n v where q: "q = (n, v)" by (cases q)
  show ?case
  proof (cases "p = q")
    case True
    with Cons.prems q show ?thesis by (simp add: Let_def)
  next
    case False
    with Cons.prems have "p \<in> set sendTo" by simp
    from Cons.IH [OF this _ Cons.prems(3,4)] Cons.prems(2)
    show ?thesis
      by (auto simp: q Let_def split: sum.splits)
  qed
qed

lemma sendmany_loop_twice:
  "\<not> distinct (filter (\<lambda>a. IsValid X a \<and> \<not> IsPair X a) (map (\<lambda>p. CBitcoinAddress X (fst p)) sendTo))
    \<Longrightarrow> isl (sendmany_loop X sendTo S vs t)"
proof (induction sendTo arbitrary: S vs t)
  case Nil
  then show ?case by simp
next
  case (Cons q sendTo)
  obtain n v where q: "q = (n, v)" by (cases q)
  let ?a = "CBitcoinAddress X n"
  show ?case
  proof (cases "IsValid X ?a \<and> \<not> IsPair X ?a")
    case False
    with Cons.prems have "\<not> distinct (filter (\<lambda>a. IsValid X a \<and> \<not> IsPair X a)
        (map (\<lambda>p. CBitcoinAddress X (fst p)) sendTo))"
      by (auto simp: q)
    from Cons.IH [OF this] show ?thesis
      by (auto simp: q Let_def split: sum.splits)
  next
    case True
    show ?thesis
    proof (cases "?a \<in> set (filter (\<lambda>a. IsValid X a \<and> \<not> IsPair X a)
        (map (\<lambda>p. CBitcoinAddress X (fst p)) sendTo))")
      case False
      with Cons.prems True have "\<not> distinct (filter (\<lambda>a. IsValid X a \<and> \<not> IsPair X a)
          (map (\<lambda>p. CBitcoinAddress X (fst p)) sendTo))"
        by (auto simp: q)
      from Cons.IH [OF this] show ?thesis
        by (auto simp: q Let_def split: sum.splits)
    next
      case seen: True
      then obtain p where p: "p \<in> set sendTo" "CBitcoinAddress X (fst p) = ?a"
        by auto
      have "isl (sendmany_loop X sendTo (insert ?a S) vs' t')" for vs' t'
        using p True by (intro sendmany_loop_seen [of p]) simp_all
      with True show ?thesis
        by (auto simp: q Let_def split: sum.splits)
    qed
  qed
qed

lemma sendmany_loop_duplicate:
  assumes "sendmany_loop X pre S vs t = Inr r"
    and "IsValid X (CBitcoinAddress X name')" "\<not> IsPair X (CBitcoinAddress X name')"
    and "CBitcoinAddress X name' \<in> S \<union> (\<lambda>p. CBitcoinAddress X (fst p)) ` set pre"
  shows "sendmany_loop X (pre @ (name', value') # rest) S vs t
    = Inl (JSONRPCError RPC_INVALID_PARAMETER (''Invalid parameter, duplicated address: '' @ name'))"
  using assms(1,4)
proof (induction pre arbitrary: S vs t)
  case Nil
  with assms(2,3) show ?case by (simp add: Let_def)
next
  case (Cons q pre)
  obtain n v where q: "q = (n, v)" by (cases q)
  let ?a = "CBitcoinAddress X n"
  from Cons.prems(1) obtain amt where
    ok: "IsValid X ?a" "\<not> (\<not> IsPair X ?a \<and> ?a \<in> S)" "AmountFromValue X v = Inr amt"
      "\<not> amt <s nMinimumInputValue X"
    and r: "sendmany_loop X pre (if \<not> IsPair X ?a then insert ?a S else S) (vs @ [(?a, amt)]) (t + amt) = Inr r"
    by (auto simp: q Let_def split: sum.splits if_splits)
  have "CBitcoinAddress X name' \<in> (if \<not> IsPair X ?a then insert ?a S else S)
      \<union> (\<lambda>p. CBitcoinAddress X (fst p)) ` set pre"
    using Cons.prems(2) assms(3) by (auto simp: q)
  from Cons.IH [OF r this] ok show ?case
    by (cases "IsPair X ?a") (simp_all add: q Let_def)
qed

text \<open>
  Claim C5. A \<^verbatim>\<open>sendmany\<close> call whose destination object names the same valid, non-pair
  address twice fails, and the wallet is left as it was: no transaction is created or
  committed. When the account is not \<^verbatim>\<open>*\<close>, the optional parameters are well-typed and the
  pairs before the second occurrence pass their checks, the error is \<^verbatim>\<open>RPC_INVALID_PARAMETER\<close>
  with the message \<^verbatim>\<open>Invalid parameter, duplicated address: \<close> followed by the name. With
  the account \<^verbatim>\<open>*\<close> the call fails earlier, with \<^verbatim>\<open>RPC_WALLET_INVALID_ACCOUNT_NAME\<close>.
\<close>

theorem sendmany_duplicated_address:
  "(2 \<le> length params \<and> params ! 1 = JObj sendTo \<and> names_twice X sendTo \<longrightarrow>
      isl (fst (sendmany X params fHelp st)) \<and> snd (sendmany X params fHelp st) = st)
   \<and> (\<not> fHelp \<and> 2 \<le> length params \<and> length params \<le> 4
        \<and> params ! 0 = JStr account \<and> account \<noteq> ''*''
        \<and> params ! 1 = JObj (pre @ (name', value') # rest)
        \<and> sendmany_minconf params = Inr nMinDepth \<and> sendmany_mapValue params = Inr mv
        \<and> sendmany_loop X pre {} [] 0 = Inr r
        \<and> IsValid X (CBitcoinAddress X name') \<and> \<not> IsPair X (CBitcoinAddress X name')
        \<and> CBitcoinAddress X name' \<in> (\<lambda>p. CBitcoinAddress X (fst p)) ` set pre \<longrightarrow>
      sendmany X params fHelp st =
        (Inl (JSONRPCError RPC_INVALID_PARAMETER
           (''Invalid parameter, duplicated address: '' @ name')), st))
   \<and> (\<not> fHelp \<and> 2 \<le> length params \<and> length params \<le> 4 \<and> params ! 0 = JStr ''*'' \<longrightarrow>
      sendmany X params fHelp st =
        (Inl (JSONRPCError RPC_WALLET_INVALID_ACCOUNT_NAME ''Invalid account name''), st))"
proof (intro conjI impI)
  assume a: "2 \<le> length params \<and> params ! 1 = JObj sendTo \<and> names_twice X sendTo"
  then have "isl (sendmany_loop X sendTo {} [] 0)"
    unfolding names_twice_def by (intro sendmany_loop_twice) simp
  then obtain e where e: "sendmany_loop X sendTo {} [] 0 = Inl e"
    by (cases "sendmany_loop X sendTo {} [] 0") simp_all
  with a show "isl (fst (sendmany X params fHelp st))" "snd (sendmany X params fHelp st) = st"
    by (auto simp: sendmany_def Let_def split: sum.splits)
next
  assume a: "\<not> fHelp \<and> 2 \<le> length params \<and> length params \<le> 4
        \<and> params ! 0 = JStr account \<and> account \<noteq> ''*''
        \<and> params ! 1 = JObj (pre @ (name', value') # rest)
        \<and> sendmany_minconf params = Inr nMinDepth \<and> sendmany_mapValue params = Inr mv
        \<and> sendmany_loop X pre {} [] 0 = Inr r
        \<and> IsValid X (CBitcoinAddress X name') \<and> \<not> IsPair X (CBitcoinAddress X name')
        \<and> CBitcoinAddress X name' \<in> (\<lambda>p. CBitcoinAddress X (fst p)) ` set pre"
  then have "sendmany_loop X (pre @ (name', value') # rest) {} [] 0
    = Inl (JSONRPCError RPC_INVALID_PARAMETER (''Invalid parameter, duplicated address: '' @ name'))"
    by (intro sendmany_loop_duplicate [of X pre "{}" "[]" 0 r]) simp_all
  with a show "sendmany X params fHelp st =
        (Inl (JSONRPCError RPC_INVALID_PARAMETER
           (''Invalid parameter, duplicated address: '' @ name')), st)"
    by (simp add: sendmany_def AccountFromValue_def Let_def)
next
  assume "\<not> fHelp \<and> 2 \<le> length params \<and> length params \<le> 4 \<and> params ! 0 = JStr ''*''"
  then show "sendmany X params fHelp st =
        (Inl (JSONRPCError RPC_WALLET_INVALID_ACCOUNT_NAME ''Invalid account name''), st)"
    by (simp add: sendmany_def AccountFromValue_def)
qed


text \<open>
  The theorem at a call from account A that pays \<^verbatim>\<open>addr1\<close>, \<^verbatim>\<open>addr2\<close> and \<^verbatim>\<open>addr1\<close> again,
  with \<^verbatim>\<open>minconf\<close> 6 and a comment, and at a call from the account \<^verbatim>\<open>*\<close>.
\<close>

theorem sendmany_duplicated_address_witness:
  "names_twice ledger_externals
      [(''addr1'', JAmount COIN), (''addr2'', JAmount (2 * COIN)), (''addr1'', JAmount (3 * COIN))]
   \<and> sendmany ledger_externals
        [JStr ''A'',
         JObj [(''addr1'', JAmount COIN), (''addr2'', JAmount (2 * COIN)),
               (''addr1'', JAmount (3 * COIN))],
         JInt 6, JStr ''rent'']
        False
        \<lparr>wallet = [credit_to ''A'' (50 * COIN)], nOrderPosNext = 0, acentries = [],
         nWalletUnlockTime = 0, fWalletUnlockMintOnly = False, threads = []\<rparr>
      = (Inl (JSONRPCError RPC_INVALID_PARAMETER ''Invalid parameter, duplicated address: addr1''),
         \<lparr>wallet = [credit_to ''A'' (50 * COIN)], nOrderPosNext = 0, acentries = [],
          nWalletUnlockTime = 0, fWalletUnlockMintOnly = False, threads = []\<rparr>)
   \<and> sendmany ledger_externals
        [JStr ''*'', JObj [(''addr1'', JAmount COIN), (''addr2'', JAmount (2 * COIN))]]
        False
        \<lparr>wallet = [credit_to ''A'' (50 * COIN)], nOrderPosNext = 0, acentries = [],
         nWalletUnlockTime = 0, fWalletUnlockMintOnly = False, threads = []\<rparr>
      = (Inl (JSONRPCError RPC_WALLET_INVALID_ACCOUNT_NAME ''Invalid account name''),
         \<lparr>wallet = [credit_to ''A'' (50 * COIN)], nOrderPosNext = 0, acentries = [],
          nWalletUnlockTime = 0, fWalletUnlockMintOnly = False, threads = []\<rparr>)"
proof -
  define st0 :: "string CWalletTx list node" where
    "st0 = \<lparr>wallet = [credit_to ''A'' (50 * COIN)], nOrderPosNext = 0, acentries = [],
            nWalletUnlockTime = 0, fWalletUnlockMintOnly = False, threads = []\<rparr>"
  define sendTo where "sendTo =
    [(''addr1'', JAmount COIN), (''addr2'', JAmount (2 * COIN)), (''addr1'', JAmount (3 * COIN))]"
  define params where "params = [JStr ''A'', JObj sendTo, JInt 6, JStr ''rent'']"
  define star where
    "star = [JStr ''*'', JObj [(''addr1'', JAmount COIN), (''addr2'', JAmount (2 * COIN))]]"
  have tw: "names_twice ledger_externals sendTo"
    by (simp add: names_twice_def sendTo_def ledger_externals_def)
  have pre: "sendmany_loop ledger_externals
      [(''addr1'', JAmount COIN), (''addr2'', JAmount (2 * COIN))] {} [] 0
    = Inr ([(''addr1'', COIN), (''addr2'', 2 * COIN)], 3 * COIN)"
    by (simp add: ledger_externals_def Let_def COIN_def word_sless_alt)
  have mc: "sendmany_minconf params = Inr 6"
    by (simp add: sendmany_minconf_def params_def)
  have mv: "sendmany_mapValue params = Inr [(''comment'', ''rent'')]"
    by (simp add: sendmany_mapValue_def params_def)
  have hyp: "\<not> False \<and> 2 \<le> length params \<and> length params \<le> 4
        \<and> params ! 0 = JStr ''A'' \<and> ''A'' \<noteq> ''*''
        \<and> params ! 1 = JObj ([(''addr1'', JAmount COIN), (''addr2'', JAmount (2 * COIN))]
              @ (''addr1'', JAmount (3 * COIN)) # [])
        \<and> sendmany_minconf params = Inr 6
        \<and> sendmany_mapValue params = Inr [(''comment'', ''rent'')]
        \<and> sendmany_loop ledger_externals
             [(''addr1'', JAmount COIN), (''addr2'', JAmount (2 * COIN))] {} [] 0
           = Inr ([(''addr1'', COIN), (''addr2'', 2 * COIN)], 3 * COIN)
        \<and> IsValid ledger_externals (CBitcoinAddress ledger_externals ''addr1'')
        \<and> \<not> IsPair ledger_externals (CBitcoinAddress ledger_externals ''addr1'')
        \<and> CBitcoinAddress ledger_externals ''addr1''
            \<in> (\<lambda>p. CBitcoinAddress ledger_externals (fst p))
                ` set [(''addr1'', JAmount COIN), (''addr2'', JAmount (2 * COIN))]"
    unfolding mc mv pre
    by (simp add: params_def sendTo_def ledger_externals_def)
  note inst = sendmany_duplicated_address [where X = ledger_externals and params = params
      and fHelp = False and st = st0 and account = "''A''" and sendTo = sendTo
      and pre = "[(''addr1'', JAmount COIN), (''addr2'', JAmount (2 * COIN))]"
      and name' = "''addr1''" and value' = "JAmount (3 * COIN)" and rest = "[]"
      and nMinDepth = 6 and mv = "[(''comment'', ''rent'')]"
      and r = "([(''addr1'', COIN), (''addr2'', 2 * COIN)], 3 * COIN)"]
  from inst hyp have dup: "sendmany ledger_externals params False st0 =
      (Inl (JSONRPCError RPC_INVALID_PARAMETER
         (''Invalid parameter, duplicated address: '' @ ''addr1'')), st0)"
    by blast
  have hyp2: "\<not> False \<and> 2 \<le> length star \<and> length star \<le> 4 \<and> star ! 0 = JStr ''*''"
    by (simp add: star_def)
  from sendmany_duplicated_address [where X = ledger_externals and params = star
      and fHelp = False and st = st0] hyp2
  have inv: "sendmany ledger_externals star False st0 =
      (Inl (JSONRPCError RPC_WALLET_INVALID_ACCOUNT_NAME ''Invalid account name''), st0)"
    by blast
  from dup have dup': "sendmany ledger_externals params False st0 =
      (Inl (JSONRPCError RPC_INVALID_PARAMETER ''Invalid parameter, duplicated address: addr1''), st0)"
    by simp
  show ?thesis
    using tw dup' inv unfolding st0_def sendTo_def params_def star_def
    by (intro conjI)
qed

text \<open>
  The call \<^verbatim>\<open>sendmany("*", {"addr1": 1, "addr1": 1})\<close> fails with the invalid-account-name
  error, and the same destinations from the default account fail with the
  invalid-parameter code: in neither case is the code \<^verbatim>\<open>RPC_INVALID_ADDRESS_OR_KEY\<close>.
\<close>

theorem sendmany_duplicate_code_counterexample:
  "sendmany ledger_externals
      [JStr ''*'', JObj [(''addr1'', JAmount COIN), (''addr1'', JAmount COIN)]]
      False
      \<lparr>wallet = [], nOrderPosNext = 0, acentries = [],
       nWalletUnlockTime = 0, fWalletUnlockMintOnly = False, threads = []\<rparr>
    = (Inl (JSONRPCError RPC_WALLET_INVALID_ACCOUNT_NAME ''Invalid account name''),
       \<lparr>wallet = [], nOrderPosNext = 0, acentries = [],
        nWalletUnlockTime = 0, fWalletUnlockMintOnly = False, threads = []\<rparr>)
   \<and> sendmany ledger_externals
      [JStr [], JObj [(''addr1'', JAmount COIN), (''addr1'', JAmount COIN)]]
      False
      \<lparr>wallet = [], nOrderPosNext = 0, acentries = [],
       nWalletUnlockTime = 0, fWalletUnlockMintOnly = False, threads = []\<rparr>
    = (Inl (JSONRPCError RPC_INVALID_PARAMETER ''Invalid parameter, duplicated address: addr1''),
       \<lparr>wallet = [], nOrderPosNext = 0, acentries = [],
        nWalletUnlockTime = 0, fWalletUnlockMintOnly = False, threads = []\<rparr>)"
proof (rule conjI)
  show "sendmany ledger_externals
      [JStr ''*'', JObj [(''addr1'', JAmount COIN), (''addr1'', JAmount COIN)]]
      False
      \<lparr>wallet = [], nOrderPosNext = 0, acentries = [],
       nWalletUnlockTime = 0, fWalletUnlockMintOnly = False, threads = []\<rparr>
    = (Inl (JSONRPCError RPC_WALLET_INVALID_ACCOUNT_NAME ''Invalid account name''),
       \<lparr>wallet = [], nOrderPosNext = 0, acentries = [],
        nWalletUnlockTime = 0, fWalletUnlockMintOnly = False, threads = []\<rparr>)"
    by (simp add: sendmany_def AccountFromValue_def)
  show "sendmany ledger_externals
      [JStr [], JObj [(''addr1'', JAmount COIN), (''addr1'', JAmount COIN)]]
      False
      \<lparr>wallet = [], nOrderPosNext = 0, acentries = [],
       nWalletUnlockTime = 0, fWalletUnlockMintOnly = False, threads = []\<rparr>
    = (Inl (JSONRPCError RPC_INVALID_PARAMETER ''Invalid parameter, duplicated address: addr1''),
       \<lparr>wallet = [], nOrderPosNext = 0, acentries = [],
        nWalletUnlockTime = 0, fWalletUnlockMintOnly = False, threads = []\<rparr>)"
    by (simp add: sendmany_def AccountFromValue_def sendmany_minconf_def sendmany_mapValue_def
        ledger_externals_def Let_def COIN_def word_sless_alt)
qed

subsection \<open>Transactions since a block\<close>

lemma concat_map_if:
  "concat (map (\<lambda>x. if P x then f x else []) xs) = concat (map f (filter P xs))"
  by (induction xs) simp_all

lemma well_linked_heights:
  "well_linked b \<Longrightarrow> c \<in> set (ancestors (Some b))
    \<Longrightarrow> 0 \<le> sint (nHeight c) \<and> sint (nHeight c) \<le> sint (nHeight b)"
proof (induction b arbitrary: c rule: well_linked.induct)
  case (1 h n)
  then show ?case by simp
next
  case (2 h n b)
  show ?case
  proof (cases "c = CBlockIndex h n (Some b)")
    case True
    obtain h' n' p' where b: "b = CBlockIndex h' n' p'" by (cases b)
    from 2 have "0 \<le> sint (nHeight b)"
      using b by force
    with 2 True show ?thesis by simp
  next
    case False
    with 2 have "c \<in> set (ancestors (Some b))" by simp
    with 2 show ?thesis by force
  qed
qed

lemma walk_back_finds:
  "well_linked b \<Longrightarrow> 0 \<le> sint t \<Longrightarrow> sint t \<le> sint (nHeight b)
    \<Longrightarrow> \<exists>c \<in> set (ancestors (Some b)). walk_back t (Some b) = Some c \<and> nHeight c = t"
proof (induction b rule: well_linked.induct)
  case (1 h n)
  then have "sint t = 0" by simp
  then have "t = 0" by (intro signed_word_eqI) simp
  with 1 show ?case by (simp add: word_sless_alt)
next
  case (2 h n b)
  obtain h' n' p' where b: "b = CBlockIndex h' n' p'" by (cases b)
  show ?case
  proof (cases "t <s n")
    case True
    with 2 have "sint t \<le> sint (nHeight b)" by (simp add: word_sless_alt)
    with 2 obtain c where "c \<in> set (ancestors (Some b))" "walk_back t (Some b) = Some c" "nHeight c = t"
      by auto
    with True show ?thesis by (auto simp: b)
  next
    case False
    with 2 have "sint t = sint n" by (simp add: word_sless_alt)
    then have "t = n" by (intro signed_word_eqI)
    then show ?thesis by (simp add: word_sless_alt)
  qed
qed


lemma height_unique:
  "well_linked b \<Longrightarrow> c \<in> set (ancestors (Some b)) \<Longrightarrow> d \<in> set (ancestors (Some b))
    \<Longrightarrow> nHeight c = nHeight d \<Longrightarrow> c = d"
proof (induction b rule: well_linked.induct)
  case (1 h n)
  then show ?case by simp
next
  case (2 h n b)
  let ?t = "CBlockIndex h n (Some b)"
  have below: "sint (nHeight x) < sint n" if "x \<in> set (ancestors (Some b))" for x
    using well_linked_heights [of b x] that 2(2) by simp
  from 2(3) have c: "c = ?t \<or> c \<in> set (ancestors (Some b))" by simp
  from 2(4) have d: "d = ?t \<or> d \<in> set (ancestors (Some b))" by simp
  from c d show ?case
  proof (elim disjE)
    assume "c = ?t" "d = ?t"
    then show ?thesis by simp
  next
    assume "c = ?t" "d \<in> set (ancestors (Some b))"
    with below [of d] 2(5) show ?thesis by simp
  next
    assume "c \<in> set (ancestors (Some b))" "d = ?t"
    with below [of c] 2(5) show ?thesis by simp
  next
    assume "c \<in> set (ancestors (Some b))" "d \<in> set (ancestors (Some b))"
    with 2 show ?thesis by simp
  qed
qed

lemma self_ancestor: "b \<in> set (ancestors (Some b))"
  by (cases b) simp

lemma sint_succ_minus32:
  assumes "sint a < 2147483647" "- 2147483648 \<le> sint a + 1 - sint b"
    "sint a + 1 - sint b < 2147483648"
  shows "sint (a + 1 - b :: 32 word) = sint a + 1 - sint b"
proof -
  have l: "- 2147483648 \<le> sint a"
    using sint_ge [of a] by simp
  have "sint (a + 1) = signed_take_bit 31 (sint a + 1)"
    by (simp add: sint_word_ariths)
  also have "\<dots> = sint a + 1"
    using l assms(1) by (intro signed_take_bit_int_eq_self) simp_all
  finally have a1: "sint (a + 1) = sint a + 1" .
  have "sint (a + 1 - b) = signed_take_bit 31 (sint (a + 1) - sint b)"
    by (simp add: sint_word_ariths)
  also have "\<dots> = sint a + 1 - sint b"
    unfolding a1 using assms(2,3) by (intro signed_take_bit_int_eq_self) simp_all
  finally show ?thesis .
qed

lemma confirms_positive:
  "listsinceblock_confirms params = Inr target_confirms \<Longrightarrow> 1 \<le> sint target_confirms"
  by (auto simp: listsinceblock_confirms_def word_sless_alt split: if_splits sum.splits)

lemma listsinceblock_run:
  assumes "consistent C" and "sint (nBestHeight C) < 2147483647"
    and "listsinceblock_pindex C params = Inr pindex"
    and "case pindex of None \<Rightarrow> True | Some p \<Rightarrow> p \<in> set (main_chain C)"
    and "listsinceblock_confirms params = Inr target_confirms"
    and "sint target_confirms \<le> sint (nBestHeight C) + 1"
    and "listsinceblock_filter params = Inr filter'"
  shows "\<exists>block \<in> set (main_chain C).
      sint (nHeight block) = sint (nBestHeight C) - sint target_confirms + 1
      \<and> (\<forall>b \<in> set (main_chain C). nHeight b = nHeight block \<longrightarrow> b = block)
      \<and> listsinceblock X C params False st = Some (Inr (JObj
          [(''transactions'', JArr (concat (map
              (\<lambda>tx. ListTransactions X (wallet st) tx ''*'' 0 True filter')
              (filter (\<lambda>tx. case pindex of None \<Rightarrow> True
                    | Some p \<Rightarrow> sint (GetDepthInMainChain tx)
                        < sint (nBestHeight C) - sint (nHeight p) + 1)
                 (mapWallet X (wallet st)))))),
           (''lastblock'', JStr (GetHex C (GetBlockHash block)))]))"
proof -
  from assms(1) obtain best where best: "pindexBest C = Some best" "well_linked best"
    "nBestHeight C = nHeight best" "hashBestChain C = GetBlockHash best"
    by (auto simp: consistent_def split: option.splits)
  have mc: "main_chain C = ancestors (Some best)"
    by (simp add: main_chain_def best)
  have b0: "0 \<le> sint (nHeight best)"
    using well_linked_heights [OF best(2) self_ancestor] by simp
  have bmax: "sint (nHeight best) < 2147483647"
    using assms(2) by (simp add: best)
  have tc: "1 \<le> sint target_confirms" "sint target_confirms \<le> sint (nHeight best) + 1"
    using confirms_positive [OF assms(5)] assms(6) by (simp_all add: best)
  define depth where
    "depth = (case pindex of Some b \<Rightarrow> 1 + nBestHeight C - nHeight b | None \<Rightarrow> - 1)"
  define keep where "keep = (\<lambda>tx :: 'b CWalletTx. case pindex of None \<Rightarrow> True
      | Some p \<Rightarrow> sint (GetDepthInMainChain tx) < sint (nBestHeight C) - sint (nHeight p) + 1)"
  have cond: "(depth = - 1 \<or> GetDepthInMainChain tx <s depth) \<longleftrightarrow> keep tx" for tx :: "'b CWalletTx"
  proof (cases pindex)
    case None
    then show ?thesis by (simp add: depth_def keep_def)
  next
    case (Some p)
    with assms(4) have "p \<in> set (ancestors (Some best))" by (simp add: mc)
    from well_linked_heights [OF best(2) this]
    have hp: "0 \<le> sint (nHeight p)" "sint (nHeight p) \<le> sint (nHeight best)" by simp_all
    have "sint (nHeight best + 1 - nHeight p) = sint (nHeight best) + 1 - sint (nHeight p)"
      using hp bmax by (intro sint_succ_minus32) simp_all
    then have d: "sint depth = sint (nHeight best) + 1 - sint (nHeight p)"
      by (simp add: depth_def Some best add.commute)
    with hp have "sint depth \<noteq> - 1" by simp
    then have "depth \<noteq> - 1" by auto
    with d show ?thesis
      unfolding keep_def Some best word_sless_alt by simp linarith
  qed
  have txs: "concat (map (\<lambda>tx. if depth = - 1 \<or> GetDepthInMainChain tx <s depth
        then ListTransactions X (wallet st) tx ''*'' 0 True filter' else [])
      (mapWallet X (wallet st)))
    = concat (map (\<lambda>tx. ListTransactions X (wallet st) tx ''*'' 0 True filter')
        (filter keep (mapWallet X (wallet st))))"
    unfolding cond by (rule concat_map_if)
  have run: "listsinceblock X C params False st =
      (if target_confirms = 1 then Some (Inr (JObj
          [(''transactions'', JArr (concat (map
              (\<lambda>tx. ListTransactions X (wallet st) tx ''*'' 0 True filter')
              (filter keep (mapWallet X (wallet st)))))),
           (''lastblock'', JStr (GetHex C (GetBlockHash best)))]))
       else case walk_back (nHeight best + 1 - target_confirms) (Some best) of
          Some block \<Rightarrow> Some (Inr (JObj
          [(''transactions'', JArr (concat (map
              (\<lambda>tx. ListTransactions X (wallet st) tx ''*'' 0 True filter')
              (filter keep (mapWallet X (wallet st)))))),
           (''lastblock'', JStr (GetHex C (GetBlockHash block)))]))
        | None \<Rightarrow> Some (Inr (JObj
          [(''transactions'', JArr (concat (map
              (\<lambda>tx. ListTransactions X (wallet st) tx ''*'' 0 True filter')
              (filter keep (mapWallet X (wallet st)))))),
           (''lastblock'', JStr (GetHex C 0))])))"
    using txs unfolding depth_def listsinceblock_def assms(3,5,7) Let_def
    by (simp add: best split: option.splits)
  have uniq: "\<forall>b \<in> set (main_chain C). nHeight b = nHeight block \<longrightarrow> b = block"
    if "block \<in> set (main_chain C)" for block
    using height_unique [OF best(2)] that unfolding mc by blast
  show ?thesis
  proof (cases "target_confirms = 1")
    case True
    have "best \<in> set (main_chain C)"
      by (simp add: mc self_ancestor)
    moreover have "sint (nHeight best) = sint (nBestHeight C) - sint target_confirms + 1"
      by (simp add: True best)
    moreover have "listsinceblock X C params False st = Some (Inr (JObj
          [(''transactions'', JArr (concat (map
              (\<lambda>tx. ListTransactions X (wallet st) tx ''*'' 0 True filter')
              (filter keep (mapWallet X (wallet st)))))),
           (''lastblock'', JStr (GetHex C (GetBlockHash best)))]))"
      by (simp add: run True)
    ultimately show ?thesis
      using uniq [of best] unfolding keep_def by blast
  next
    case False
    let ?t = "nHeight best + 1 - target_confirms"
    have t: "sint ?t = sint (nHeight best) + 1 - sint target_confirms"
      using tc b0 bmax by (intro sint_succ_minus32) simp_all
    with tc have "0 \<le> sint ?t" "sint ?t \<le> sint (nHeight best)" by simp_all
    from walk_back_finds [OF best(2) this] obtain block where
      block: "block \<in> set (ancestors (Some best))" "walk_back ?t (Some best) = Some block"
        "nHeight block = ?t"
      by blast
    have "block \<in> set (main_chain C)"
      using block(1) by (simp add: mc)
    moreover have "sint (nHeight block) = sint (nBestHeight C) - sint target_confirms + 1"
      by (simp only: block(3) t best(3))
    moreover have "listsinceblock X C params False st = Some (Inr (JObj
          [(''transactions'', JArr (concat (map
              (\<lambda>tx. ListTransactions X (wallet st) tx ''*'' 0 True filter')
              (filter keep (mapWallet X (wallet st)))))),
           (''lastblock'', JStr (GetHex C (GetBlockHash block)))]))"
      by (simp add: run False block(2))
    ultimately show ?thesis
      using uniq [of block] unfolding keep_def by blast
  qed
qed


lemma listsinceblock_rejects:
  assumes "listsinceblock_pindex C params = Inr pindex" "1 < length params"
    and "get_int (params ! 1) = Inr target_confirms" "target_confirms <s 1"
  shows "listsinceblock X C params False st
    = Some (Inl (JSONRPCError RPC_INVALID_PARAMETER ''Invalid parameter''))"
  using assms by (simp add: listsinceblock_def listsinceblock_confirms_def)

text \<open>
  Claim C7, as amended. Let the chain be consistent, with a best height below the largest
  \<^verbatim>\<open>int\<close>; let the call not ask for help and have well-typed parameters; let the block
  hash given be located at a block \<open>p\<close> of the main chain, or be omitted; and let
  \<^verbatim>\<open>target_confirms\<close> be at least 1 (it is 1 when omitted) and at most the best height
  plus 1. Then \<^verbatim>\<open>listsinceblock\<close> returns, its transactions are the entries that
  \<^verbatim>\<open>ListTransactions\<close> makes, for all accounts and from depth 0 on, for the wallet
  transactions whose depth is less than the best height minus the height of \<open>p\<close> plus 1
  (for all wallet transactions when the hash is omitted), and its \<^verbatim>\<open>lastblock\<close> is the hash
  of the one block of the main chain whose height is the best height minus
  \<^verbatim>\<open>target_confirms\<close> plus 1. A call that does not ask for help, whose first parameter is a
  string and whose second parameter is an integer that, cut to \<^verbatim>\<open>int\<close>, is below 1 fails
  with \<^verbatim>\<open>RPC_INVALID_PARAMETER\<close> and the message \<^verbatim>\<open>Invalid parameter\<close>.
\<close>

theorem listsinceblock_since:
  "(consistent C \<and> sint (nBestHeight C) < 2147483647
      \<and> listsinceblock_pindex C params = Inr pindex
      \<and> (case pindex of None \<Rightarrow> True | Some p \<Rightarrow> p \<in> set (main_chain C))
      \<and> listsinceblock_confirms params = Inr target_confirms
      \<and> sint target_confirms \<le> sint (nBestHeight C) + 1
      \<and> listsinceblock_filter params = Inr filter' \<longrightarrow>
    (\<exists>block \<in> set (main_chain C).
      sint (nHeight block) = sint (nBestHeight C) - sint target_confirms + 1
      \<and> (\<forall>b \<in> set (main_chain C). nHeight b = nHeight block \<longrightarrow> b = block)
      \<and> listsinceblock X C params False st = Some (Inr (JObj
          [(''transactions'', JArr (concat (map
              (\<lambda>tx. ListTransactions X (wallet st) tx ''*'' 0 True filter')
              (filter (\<lambda>tx. case pindex of None \<Rightarrow> True
                    | Some p \<Rightarrow> sint (GetDepthInMainChain tx)
                        < sint (nBestHeight C) - sint (nHeight p) + 1)
                 (mapWallet X (wallet st)))))),
           (''lastblock'', JStr (GetHex C (GetBlockHash block)))]))))
   \<and> (listsinceblock_pindex C params = Inr pindex \<and> 1 < length params
      \<and> get_int (params ! 1) = Inr target_confirms \<and> target_confirms <s 1 \<longrightarrow>
    listsinceblock X C params False st
      = Some (Inl (JSONRPCError RPC_INVALID_PARAMETER ''Invalid parameter'')))"
proof (intro conjI impI)
  assume a: "consistent C \<and> sint (nBestHeight C) < 2147483647
      \<and> listsinceblock_pindex C params = Inr pindex
      \<and> (case pindex of None \<Rightarrow> True | Some p \<Rightarrow> p \<in> set (main_chain C))
      \<and> listsinceblock_confirms params = Inr target_confirms
      \<and> sint target_confirms \<le> sint (nBestHeight C) + 1
      \<and> listsinceblock_filter params = Inr filter'"
  then have "consistent C" "sint (nBestHeight C) < 2147483647"
    "listsinceblock_pindex C params = Inr pindex"
    "case pindex of None \<Rightarrow> True | Some p \<Rightarrow> p \<in> set (main_chain C)"
    "listsinceblock_confirms params = Inr target_confirms"
    "sint target_confirms \<le> sint (nBestHeight C) + 1"
    "listsinceblock_filter params = Inr filter'"
    by blast+
  then show "\<exists>block \<in> set (main_chain C).
      sint (nHeight block) = sint (nBestHeight C) - sint target_confirms + 1
      \<and> (\<forall>b \<in> set (main_chain C). nHeight b = nHeight block \<longrightarrow> b = block)
      \<and> listsinceblock X C params False st = Some (Inr (JObj
          [(''transactions'', JArr (concat (map
              (\<lambda>tx. ListTransactions X (wallet st) tx ''*'' 0 True filter')
              (filter (\<lambda>tx. case pindex of None \<Rightarrow> True
                    | Some p \<Rightarrow> sint (GetDepthInMainChain tx)
                        < sint (nBestHeight C) - sint (nHeight p) + 1)
                 (mapWallet X (wallet st)))))),
           (''lastblock'', JStr (GetHex C (GetBlockHash block)))]))"
    by (rule listsinceblock_run)
next
  assume "listsinceblock_pindex C params = Inr pindex \<and> 1 < length params
      \<and> get_int (params ! 1) = Inr target_confirms \<and> target_confirms <s 1"
  then show "listsinceblock X C params False st
      = Some (Inl (JSONRPCError RPC_INVALID_PARAMETER ''Invalid parameter''))"
    by (intro listsinceblock_rejects [where pindex = pindex and target_confirms = target_confirms])
      simp_all
qed

text \<open>The chain of three blocks and the entry of a receipt.\<close>

lemma three_blocks_chain: "main_chain three_blocks = [block2, block1, block0]"
  by (simp add: main_chain_def three_blocks_def block2_def block1_def block0_def)

lemma three_blocks_heights: "nHeight block2 = 2" "nHeight block1 = 1" "nHeight block0 = 0"
  by (simp_all add: block2_def block1_def block0_def)

lemma three_blocks_hex:
  "GetHex three_blocks (GetBlockHash block2) = ''a2''"
  "GetHex three_blocks (GetBlockHash block1) = ''a1''"
  "GetHex three_blocks 0 = ''00''"
  "hashBestChain three_blocks = GetBlockHash block2"
  "pindexBest three_blocks = Some block2"
  "nBestHeight three_blocks = 2"
  by (simp_all add: three_blocks_def hex_names_def block2_def block1_def block0_def)

lemma three_blocks_locate: "GetBlockIndex three_blocks (SetHex three_blocks ''a1'') = Some block1"
  by (simp add: three_blocks_def hex_names_def block2_def block1_def block0_def)

lemma receipt_row:
  "ListTransactions ledger_externals w (receipt ''t1'' 1 (5 * COIN)) ''*'' 0 True {MINE_SPENDABLE}
    = [JObj [(''account'', JStr []), (''address'', JStr ''addr1''),
                     (''category'', JStr ''receive''), (''amount'', JAmount (5 * COIN)),
                     (''confirmations'', JInt 1), (''blockhash'', JStr ''b10c''),
                     (''blockindex'', JInt 1), (''blocktime'', JInt 1700000000),
                     (''txid'', JStr ''t1''), (''time'', JInt 1700000000),
                     (''timereceived'', JInt 1700000000)]]"
  by (simp add: ListTransactions_def generated_entries_def received_entries_def
      WalletTxToJSON_def MaybePushAddress_def ValueFromAmount_def receipt_def
      ledger_externals_def Let_def word_sle_eq word_sless_alt)

lemma ledger_wallet: "mapWallet ledger_externals w = w"
  by (simp add: ledger_externals_def)

lemma receipt_depth: "GetDepthInMainChain (receipt txid depth n) = depth"
  by (simp add: receipt_def)

text \<open>
  The theorem on the chain of three blocks, for a wallet with a receipt one block deep
  and one three blocks deep: since the block \<^verbatim>\<open>a1\<close> of height 1, with two confirmations,
  the first receipt is listed and the last block is \<^verbatim>\<open>a1\<close>; with -3 confirmations the
  call fails.
\<close>

theorem listsinceblock_since_witness:
  "consistent three_blocks
   \<and> block1 \<in> set (main_chain three_blocks)
   \<and> sint (nHeight block1) = 1
   \<and> listsinceblock ledger_externals three_blocks [JStr ''a1'', JInt 2] False
        \<lparr>wallet = [receipt ''t1'' 1 (5 * COIN), receipt ''t3'' 3 (7 * COIN)],
         nOrderPosNext = 0, acentries = [],
         nWalletUnlockTime = 0, fWalletUnlockMintOnly = False, threads = []\<rparr>
      = Some (Inr (JObj
          [(''transactions'', JArr [JObj [(''account'', JStr []), (''address'', JStr ''addr1''),
                     (''category'', JStr ''receive''), (''amount'', JAmount (5 * COIN)),
                     (''confirmations'', JInt 1), (''blockhash'', JStr ''b10c''),
                     (''blockindex'', JInt 1), (''blocktime'', JInt 1700000000),
                     (''txid'', JStr ''t1''), (''time'', JInt 1700000000),
                     (''timereceived'', JInt 1700000000)]]),
           (''lastblock'', JStr ''a1'')]))
   \<and> listsinceblock ledger_externals three_blocks [JStr ''a1'', JInt (- 3)] False
        \<lparr>wallet = [receipt ''t1'' 1 (5 * COIN), receipt ''t3'' 3 (7 * COIN)],
         nOrderPosNext = 0, acentries = [],
         nWalletUnlockTime = 0, fWalletUnlockMintOnly = False, threads = []\<rparr>
      = Some (Inl (JSONRPCError RPC_INVALID_PARAMETER ''Invalid parameter''))"
proof -
  define st0 :: "string CWalletTx list node" where
    "st0 = \<lparr>wallet = [receipt ''t1'' 1 (5 * COIN), receipt ''t3'' 3 (7 * COIN)],
         nOrderPosNext = 0, acentries = [],
         nWalletUnlockTime = 0, fWalletUnlockMintOnly = False, threads = []\<rparr>"
  define params where "params = [JStr ''a1'', JInt 2]"
  have c: "consistent three_blocks"
    by (simp add: consistent_def three_blocks_def block2_def block1_def block0_def)
  have h: "sint (nBestHeight three_blocks) < 2147483647"
    by (simp add: three_blocks_hex)
  have p: "listsinceblock_pindex three_blocks params = Inr (Some block1)"
    by (simp add: listsinceblock_pindex_def params_def three_blocks_locate)
  have m: "case Some block1 of None \<Rightarrow> True | Some p \<Rightarrow> p \<in> set (main_chain three_blocks)"
    by (simp add: three_blocks_chain)
  have t: "listsinceblock_confirms params = Inr 2"
    by (simp add: listsinceblock_confirms_def params_def word_sless_alt)
  have t2: "sint (2 :: int32_t) \<le> sint (nBestHeight three_blocks) + 1"
    by (simp add: three_blocks_hex)
  have f: "listsinceblock_filter params = Inr {MINE_SPENDABLE}"
    by (simp add: listsinceblock_filter_def params_def)
  from listsinceblock_since [where X = ledger_externals and st = st0 and C = three_blocks
      and params = params and pindex = "Some block1" and target_confirms = 2
      and filter' = "{MINE_SPENDABLE}"] c h p m t t2 f
  obtain block where b: "block \<in> set (main_chain three_blocks)"
      "sint (nHeight block) = sint (nBestHeight three_blocks) - sint (2 :: int32_t) + 1"
    and r: "listsinceblock ledger_externals three_blocks params False st0 = Some (Inr (JObj
          [(''transactions'', JArr (concat (map
              (\<lambda>tx. ListTransactions ledger_externals (wallet st0) tx ''*'' 0 True {MINE_SPENDABLE})
              (filter (\<lambda>tx. case Some block1 of None \<Rightarrow> True
                    | Some p \<Rightarrow> sint (GetDepthInMainChain tx)
                        < sint (nBestHeight three_blocks) - sint (nHeight p) + 1)
                 (mapWallet ledger_externals (wallet st0)))))),
           (''lastblock'', JStr (GetHex three_blocks (GetBlockHash block)))]))"
    by blast
  from b have b1: "block = block1"
    by (auto simp: three_blocks_chain three_blocks_heights three_blocks_hex)
  have w: "mapWallet ledger_externals (wallet st0)
      = [receipt ''t1'' 1 (5 * COIN), receipt ''t3'' 3 (7 * COIN)]"
    by (simp add: st0_def ledger_externals_def)
  have "listsinceblock ledger_externals three_blocks params False st0 = Some (Inr (JObj
          [(''transactions'', JArr [JObj [(''account'', JStr []), (''address'', JStr ''addr1''),
                     (''category'', JStr ''receive''), (''amount'', JAmount (5 * COIN)),
                     (''confirmations'', JInt 1), (''blockhash'', JStr ''b10c''),
                     (''blockindex'', JInt 1), (''blocktime'', JInt 1700000000),
                     (''txid'', JStr ''t1''), (''time'', JInt 1700000000),
                     (''timereceived'', JInt 1700000000)]]),
           (''lastblock'', JStr ''a1'')]))"
    unfolding r b1 w
    by (simp add: three_blocks_hex three_blocks_heights receipt_depth receipt_row)
  then have run: "listsinceblock ledger_externals three_blocks [JStr ''a1'', JInt 2] False
        \<lparr>wallet = [receipt ''t1'' 1 (5 * COIN), receipt ''t3'' 3 (7 * COIN)],
         nOrderPosNext = 0, acentries = [],
         nWalletUnlockTime = 0, fWalletUnlockMintOnly = False, threads = []\<rparr>
      = Some (Inr (JObj
          [(''transactions'', JArr [JObj [(''account'', JStr []), (''address'', JStr ''addr1''),
                     (''category'', JStr ''receive''), (''amount'', JAmount (5 * COIN)),
                     (''confirmations'', JInt 1), (''blockhash'', JStr ''b10c''),
                     (''blockindex'', JInt 1), (''blocktime'', JInt 1700000000),
                     (''txid'', JStr ''t1''), (''time'', JInt 1700000000),
                     (''timereceived'', JInt 1700000000)]]),
           (''lastblock'', JStr ''a1'')]))"
    unfolding st0_def params_def .
  define low where "low = [JStr ''a1'', JInt (- 3)]"
  have p': "listsinceblock_pindex three_blocks low = Inr (Some block1)"
    by (simp add: listsinceblock_pindex_def low_def three_blocks_locate)
  have g: "1 < length low" "get_int (low ! 1) = Inr (- 3)" "(- 3 :: int32_t) <s 1"
    by (simp_all add: low_def word_sless_alt)
  from listsinceblock_since [where X = ledger_externals and st = st0 and C = three_blocks
      and params = low and pindex = "Some block1" and target_confirms = "- 3"] p' g
  have "listsinceblock ledger_externals three_blocks low False st0
      = Some (Inl (JSONRPCError RPC_INVALID_PARAMETER ''Invalid parameter''))"
    by blast
  then have rej: "listsinceblock ledger_externals three_blocks [JStr ''a1'', JInt (- 3)] False
        \<lparr>wallet = [receipt ''t1'' 1 (5 * COIN), receipt ''t3'' 3 (7 * COIN)],
         nOrderPosNext = 0, acentries = [],
         nWalletUnlockTime = 0, fWalletUnlockMintOnly = False, threads = []\<rparr>
      = Some (Inl (JSONRPCError RPC_INVALID_PARAMETER ''Invalid parameter''))"
    unfolding st0_def low_def .
  have in_chain: "block1 \<in> set (main_chain three_blocks)"
    by (simp add: three_blocks_chain)
  have height: "sint (nHeight block1) = 1"
    by (simp add: three_blocks_heights)
  show ?thesis
    by (intro conjI c in_chain height run rej)
qed


text \<open>
  On the same chain, since the block \<^verbatim>\<open>a1\<close>: with \<^verbatim>\<open>target_confirms\<close> 0 the call fails
  with \<^verbatim>\<open>Invalid parameter\<close>, and with \<^verbatim>\<open>target_confirms\<close> 4 the last block is the zero
  hash, the hash of no block of the chain. With the block hash omitted, a conflicted
  receipt, of depth -1, is a wallet transaction that is not listed.
\<close>

theorem listsinceblock_range_counterexample:
  "listsinceblock ledger_externals three_blocks [JStr ''a1'', JInt 0] False
        \<lparr>wallet = [receipt ''t1'' 1 (5 * COIN), receipt ''t3'' 3 (7 * COIN)],
         nOrderPosNext = 0, acentries = [],
         nWalletUnlockTime = 0, fWalletUnlockMintOnly = False, threads = []\<rparr>
      = Some (Inl (JSONRPCError RPC_INVALID_PARAMETER ''Invalid parameter''))
   \<and> listsinceblock ledger_externals three_blocks [JStr ''a1'', JInt 4] False
        \<lparr>wallet = [receipt ''t1'' 1 (5 * COIN), receipt ''t3'' 3 (7 * COIN)],
         nOrderPosNext = 0, acentries = [],
         nWalletUnlockTime = 0, fWalletUnlockMintOnly = False, threads = []\<rparr>
      = Some (Inr (JObj
          [(''transactions'', JArr [JObj [(''account'', JStr []), (''address'', JStr ''addr1''),
                     (''category'', JStr ''receive''), (''amount'', JAmount (5 * COIN)),
                     (''confirmations'', JInt 1), (''blockhash'', JStr ''b10c''),
                     (''blockindex'', JInt 1), (''blocktime'', JInt 1700000000),
                     (''txid'', JStr ''t1''), (''time'', JInt 1700000000),
                     (''timereceived'', JInt 1700000000)]]),
           (''lastblock'', JStr ''00'')]))
   \<and> listsinceblock ledger_externals three_blocks [] False
        \<lparr>wallet = [receipt ''t9'' (- 1) (5 * COIN)],
         nOrderPosNext = 0, acentries = [],
         nWalletUnlockTime = 0, fWalletUnlockMintOnly = False, threads = []\<rparr>
      = Some (Inr (JObj [(''transactions'', JArr []), (''lastblock'', JStr ''a2'')]))"
proof (intro conjI)
  show "listsinceblock ledger_externals three_blocks [JStr ''a1'', JInt 0] False
        \<lparr>wallet = [receipt ''t1'' 1 (5 * COIN), receipt ''t3'' 3 (7 * COIN)],
         nOrderPosNext = 0, acentries = [],
         nWalletUnlockTime = 0, fWalletUnlockMintOnly = False, threads = []\<rparr>
      = Some (Inl (JSONRPCError RPC_INVALID_PARAMETER ''Invalid parameter''))"
    by (simp add: listsinceblock_def listsinceblock_pindex_def listsinceblock_confirms_def
        word_sless_alt)
  have wb: "walk_back (- 1) (Some block2) = None"
    by (simp add: block2_def block1_def block0_def word_sless_alt)
  show "listsinceblock ledger_externals three_blocks [JStr ''a1'', JInt 4] False
        \<lparr>wallet = [receipt ''t1'' 1 (5 * COIN), receipt ''t3'' 3 (7 * COIN)],
         nOrderPosNext = 0, acentries = [],
         nWalletUnlockTime = 0, fWalletUnlockMintOnly = False, threads = []\<rparr>
      = Some (Inr (JObj
          [(''transactions'', JArr [JObj [(''account'', JStr []), (''address'', JStr ''addr1''),
                     (''category'', JStr ''receive''), (''amount'', JAmount (5 * COIN)),
                     (''confirmations'', JInt 1), (''blockhash'', JStr ''b10c''),
                     (''blockindex'', JInt 1), (''blocktime'', JInt 1700000000),
                     (''txid'', JStr ''t1''), (''time'', JInt 1700000000),
                     (''timereceived'', JInt 1700000000)]]),
           (''lastblock'', JStr ''00'')]))"
    by (simp add: listsinceblock_def listsinceblock_pindex_def listsinceblock_confirms_def
        listsinceblock_filter_def three_blocks_locate three_blocks_hex three_blocks_heights
        wb receipt_depth receipt_row ledger_wallet Let_def word_sless_alt)
  have none: "ListTransactions ledger_externals w (receipt ''t9'' (- 1) (5 * COIN)) ''*'' 0 True
      {MINE_SPENDABLE} = []" for w
    by (simp add: ListTransactions_def generated_entries_def receipt_def Let_def word_sle_eq)
  show "listsinceblock ledger_externals three_blocks [] False
        \<lparr>wallet = [receipt ''t9'' (- 1) (5 * COIN)],
         nOrderPosNext = 0, acentries = [],
         nWalletUnlockTime = 0, fWalletUnlockMintOnly = False, threads = []\<rparr>
      = Some (Inr (JObj [(''transactions'', JArr []), (''lastblock'', JStr ''a2'')]))"
    by (simp add: listsinceblock_def listsinceblock_pindex_def listsinceblock_confirms_def
        listsinceblock_filter_def three_blocks_hex none ledger_wallet Let_def)
qed

end
